theory Spec2Isabelle
  imports Main "HOL-Library.AList" "HOL-Library.Multiset" "HOL-Library.Sublist"
begin

section \<open>JavaScript values\<close>

text \<open>
  The values that flow through the audio cache of the server file: parsed query
  parameters, the resolver's JSON payload and the metadata sidecar. Numbers are the
  integers (the ids, sizes and timestamps the code handles); objects are association
  lists in key order, each key once.
\<close>

datatype json =
    JUndefined
  | JNull
  | JBool bool
  | JNum int
  | JStr string
  | JArr "json list"
  | JObj "(string \<times> json) list"

datatype error =
    ENOENT string
  | EIO string
  | NetworkError
  | TimeoutError
  | SyntaxError
  | TypeError
  | RangeError
  | ResolverError

text \<open>Truthiness, as \<open>!x\<close>, \<open>x ? a : b\<close> and \<open>x || y\<close> test it.\<close>

fun js_truthy :: "json \<Rightarrow> bool" where
  "js_truthy JUndefined = False"
| "js_truthy JNull = False"
| "js_truthy (JBool b) = b"
| "js_truthy (JNum n) = (n \<noteq> 0)"
| "js_truthy (JStr s) = (s \<noteq> [])"
| "js_truthy (JArr xs) = True"
| "js_truthy (JObj kvs) = True"

definition js_or :: "json \<Rightarrow> json \<Rightarrow> json" where
  "js_or a b = (if js_truthy a then a else b)"

text \<open>Decimal digits of a number, as \<open>String(n)\<close> prints an integer.\<close>

fun digits_of :: "nat \<Rightarrow> string" where
  "digits_of n =
     (if n < 10 then [char_of (48 + n)]
      else digits_of (n div 10) @ [char_of (48 + n mod 10)])"

declare digits_of.simps [simp del]

definition show_int :: "int \<Rightarrow> string" where
  "show_int i = (if i < 0 then CHR ''-'' # digits_of (nat (- i)) else digits_of (nat i))"

fun intercalate :: "string \<Rightarrow> string list \<Rightarrow> string" where
  "intercalate sep [] = []"
| "intercalate sep [x] = x"
| "intercalate sep (x # y # ys) = x @ sep @ intercalate sep (y # ys)"

text \<open>
  \<open>String(x)\<close> and the template literal \<open>`${x}`\<close>. \<open>Array.prototype.join\<close> prints
  \<open>null\<close> and \<open>undefined\<close> elements as the empty string.
\<close>

fun js_String :: "json \<Rightarrow> string" where
  "js_String JUndefined = ''undefined''"
| "js_String JNull = ''null''"
| "js_String (JBool b) = (if b then ''true'' else ''false'')"
| "js_String (JNum n) = show_int n"
| "js_String (JStr s) = s"
| "js_String (JArr xs) =
     intercalate '',''
       (map (\<lambda>x. if x = JUndefined \<or> x = JNull then [] else js_String x) xs)"
| "js_String (JObj kvs) = ''[object Object]''"

text \<open>
  Property read \<open>x.k\<close> for the keys the code reads (\<open>data\<close>, \<open>id\<close>, \<open>url\<close>,
  \<open>type\<close>, \<open>contentType\<close>, \<open>contentLength\<close>, \<open>originalFilename\<close>): a TypeError on
  \<open>null\<close> and \<open>undefined\<close>, \<open>undefined\<close> on the other values that are not objects.
  \<open>x?.k\<close> is the same read with \<open>undefined\<close> in place of the TypeError.
\<close>

fun js_get :: "json \<Rightarrow> string \<Rightarrow> error + json" where
  "js_get JUndefined k = Inl TypeError"
| "js_get JNull k = Inl TypeError"
| "js_get (JObj kvs) k = Inr (case map_of kvs k of None \<Rightarrow> JUndefined | Some v \<Rightarrow> v)"
| "js_get v k = Inr JUndefined"

definition js_get_opt :: "json \<Rightarrow> string \<Rightarrow> json" where
  "js_get_opt x k = (case js_get x k of Inl e \<Rightarrow> JUndefined | Inr v \<Rightarrow> v)"

definition endsWith :: "string \<Rightarrow> string \<Rightarrow> bool" where
  "endsWith s suf = suffix suf s"

text \<open>\<open>s.slice(0, -n)\<close>.\<close>

definition slice_0_neg :: "string \<Rightarrow> nat \<Rightarrow> string" where
  "slice_0_neg s n = take (length s - n) s"

section \<open>Configuration\<close>

text \<open>
  The three environment settings, already read as numbers. Fractional and non-numeric
  settings are outside this model.
\<close>

record config =
  AUDIO_CACHE_DIR :: string
  AUDIO_CACHE_TTL_SECONDS :: int
  AUDIO_CACHE_MAX_SIZE_MB :: int

definition AUDIO_CACHE_TTL_MS :: "config \<Rightarrow> int" where
  "AUDIO_CACHE_TTL_MS cfg =
     (if AUDIO_CACHE_TTL_SECONDS cfg > 0 then AUDIO_CACHE_TTL_SECONDS cfg * 1000 else 0)"

definition AUDIO_CACHE_MAX_BYTES :: "config \<Rightarrow> int" where
  "AUDIO_CACHE_MAX_BYTES cfg =
     (if AUDIO_CACHE_MAX_SIZE_MB cfg > 0 then AUDIO_CACHE_MAX_SIZE_MB cfg * 1024 * 1024 else 0)"

section \<open>The Express response\<close>

text \<open>
  The response object: the status code, the headers set so far, what has gone to the
  client, whether the headers have left, and whether the connection was destroyed.
  \<open>res_status\<close> is \<open>res.status(code)\<close>, \<open>res_json\<close> is \<open>res.json(v)\<close>; the handler uses
  them with the constant codes 400, 403, 404 and 500 and an object literal.
  \<open>res_send\<close> is \<open>res.send(v)\<close> where Express transmits the body as it was given;
  what it makes of a status and a body that come from the resolver is left to the
  environment, below.
\<close>

datatype payload = NoBody | JsonBody json | SendBody json | AudioBytes string

record response =
  statusCode :: int
  resHeaders :: "(string \<times> json) list"
  payload :: payload
  headersSent :: bool
  destroyed :: bool

definition fresh_res :: response where
  "fresh_res = \<lparr>statusCode = 200, resHeaders = [], payload = NoBody,
                 headersSent = False, destroyed = False\<rparr>"

definition res_status :: "int \<Rightarrow> response \<Rightarrow> response" where
  "res_status c res = res\<lparr>statusCode := c\<rparr>"

definition res_json :: "json \<Rightarrow> response \<Rightarrow> response" where
  "res_json v res = res\<lparr>payload := JsonBody v, headersSent := True\<rparr>"

definition res_send :: "json \<Rightarrow> response \<Rightarrow> response" where
  "res_send v res = res\<lparr>payload := SendBody v, headersSent := True\<rparr>"

definition res_destroy :: "response \<Rightarrow> response" where
  "res_destroy res = res\<lparr>destroyed := True\<rparr>"

text \<open>
  \<open>res.setHeader(name, value)\<close> throws for the value \<open>undefined\<close> and for a value
  that prints with a character outside tab, \<open>0x20\<close> to \<open>0x7e\<close> and \<open>0x80\<close> to \<open>0xff\<close>
  (Node's \<open>checkInvalidHeaderChar\<close>). The exception leaves the response as it was.
\<close>

definition checkInvalidHeaderChar :: "string \<Rightarrow> bool" where
  "checkInvalidHeaderChar s =
     list_ex (\<lambda>c. \<not> ((of_char c :: nat) = 9 \<or> (32 \<le> (of_char c :: nat) \<and> (of_char c :: nat) \<noteq> 127))) s"

definition setHeader :: "string \<Rightarrow> json \<Rightarrow> response \<Rightarrow> (error \<times> response) + response" where
  "setHeader k v res =
     (if v = JUndefined \<or> checkInvalidHeaderChar (js_String v) then Inl (TypeError, res)
      else Inr (res\<lparr>resHeaders := AList.update k v (resHeaders res)\<rparr>))"

section \<open>The environment\<close>

text \<open>
  What the code cannot decide by itself: the clock, the JSON codec, which disk
  operations fail, the outcome of the two outbound calls (the upstream GET and the
  resolver module \<open>songUrlModule\<close>), where a read stream breaks, and what Express makes
  of \<open>res.status(code).send(body)\<close> for a code and a body that come from the
  resolver (\<open>status_send\<close>: the status and the payload that go out, or the
  exception it throws).
  A failing \<open>stat\<close>, \<open>unlink\<close>, \<open>writeFile\<close> or \<open>rename\<close> leaves the files as they
  were; a pipeline that breaks leaves the bytes written so far in its target.
\<close>

record http_response =
  resp_headers :: "(string \<times> string) list"
  resp_data :: string

datatype pipe_outcome = PipeDone | PipeBroken nat | OpenFailed

record moduleResponse =
  status :: int
  body :: json

record env =
  now :: int
  JSON_parse :: "string \<Rightarrow> json option"
  JSON_stringify :: "json \<Rightarrow> string"
  stat_fails :: "string \<Rightarrow> bool"
  unlink_fails :: "string \<Rightarrow> bool"
  mkdir_fails :: bool
  axios_get :: "json \<Rightarrow> (string \<times> string) list \<Rightarrow> error + http_response"
  pipeline_outcome :: pipe_outcome
  rename_fails :: bool
  writeFile_fails :: bool
  songUrlModule :: "json \<Rightarrow> error + moduleResponse"
  read_error_at :: "string \<Rightarrow> nat option"
  status_send :: "int \<Rightarrow> json \<Rightarrow> error + (int \<times> payload)"

section \<open>The file system\<close>

text \<open>
  A file has its bytes and its last-modified time in milliseconds. The world holds the
  directories that exist, the files by full path in the order a directory listing
  enumerates them, and the log of the mutations and upstream requests performed so far.
  \<open>stat\<close> and \<open>unlink\<close> fail when the file is absent and when the environment says
  so; \<open>readFile\<close> fails when the file is absent, \<open>readdir\<close> when the directory is.
\<close>

record cached_file =
  fdata :: string
  fmtimeMs :: int

datatype event =
    EvMkdir string
  | EvHttpGet json
  | EvWriteStream string string
  | EvRename string string
  | EvWriteFile string string
  | EvUnlink string
  | EvResolve json

record world =
  dirs :: "string list"
  files :: "(string \<times> cached_file) list"
  log :: "event list"

definition wf_world :: "world \<Rightarrow> bool" where
  "wf_world w = distinct (map fst (files w))"

text \<open>
  \<open>path.join(dir, name)\<close> for a normalised directory and a name that needs no
  normalisation (no separator, no dot segment).
\<close>

definition path_join :: "string \<Rightarrow> string \<Rightarrow> string" where
  "path_join d name = d @ ''/'' @ name"

record stats =
  st_size :: nat
  st_mtimeMs :: int

definition fs_stat :: "env \<Rightarrow> world \<Rightarrow> string \<Rightarrow> error + stats" where
  "fs_stat io w p =
     (case map_of (files w) p of
        None \<Rightarrow> Inl (ENOENT p)
      | Some f \<Rightarrow>
          (if stat_fails io p then Inl (EIO p)
           else Inr \<lparr>st_size = length (fdata f), st_mtimeMs = fmtimeMs f\<rparr>))"

definition fs_readFile :: "world \<Rightarrow> string \<Rightarrow> error + string" where
  "fs_readFile w p =
     (case map_of (files w) p of None \<Rightarrow> Inl (ENOENT p) | Some f \<Rightarrow> Inr (fdata f))"

definition fs_unlink :: "env \<Rightarrow> string \<Rightarrow> world \<Rightarrow> (error + unit) \<times> world" where
  "fs_unlink io p w =
     (case map_of (files w) p of
        None \<Rightarrow> (Inl (ENOENT p), w)
      | Some f \<Rightarrow>
          (if unlink_fails io p then (Inl (EIO p), w)
           else (Inr (), w\<lparr>files := AList.delete p (files w), log := log w @ [EvUnlink p]\<rparr>)))"

text \<open>The name of a file directly inside directory \<open>d\<close>.\<close>

definition dir_entry :: "string \<Rightarrow> string \<Rightarrow> string option" where
  "dir_entry d p =
     (let n = length d + 1; name = drop n p
      in if take n p = d @ ''/'' \<and> name \<noteq> [] \<and> CHR ''/'' \<notin> set name
         then Some name else None)"

definition fs_readdir :: "world \<Rightarrow> string \<Rightarrow> error + string list" where
  "fs_readdir w d =
     (if d \<in> set (dirs w) then Inr (List.map_filter (\<lambda>(p, f). dir_entry d p) (files w))
      else Inl (ENOENT d))"

section \<open>Cache directory manager and metadata store\<close>

text \<open>\<open>Promise.allSettled\<close> fulfils with the outcomes, whatever they are.\<close>

definition Promise_allSettled :: "(error + 'a) list \<Rightarrow> error + (error + 'a) list" where
  "Promise_allSettled rs = Inr rs"

definition removeCacheEntry ::
  "env \<Rightarrow> string \<Rightarrow> world \<Rightarrow> (error + (error + unit) list) \<times> world" where
  "removeCacheEntry io basePath w =
     (let audioPath = basePath @ ''.bin'';
          metaPath = basePath @ ''.json'';
          (r1, w1) = fs_unlink io audioPath w;
          (r2, w2) = fs_unlink io metaPath w1
      in (Promise_allSettled [r1, r2], w2))"

record cache_status =
  valid :: bool
  reason :: "string option"

definition getCacheStatus :: "config \<Rightarrow> env \<Rightarrow> world \<Rightarrow> string \<Rightarrow> cache_status" where
  "getCacheStatus cfg io w audioPath =
     (case fs_stat io w audioPath of
        Inr st \<Rightarrow>
          (if AUDIO_CACHE_TTL_MS cfg > 0 \<and> now io - st_mtimeMs st > AUDIO_CACHE_TTL_MS cfg
           then \<lparr>valid = False, reason = Some ''expired''\<rparr>
           else \<lparr>valid = True, reason = None\<rparr>)
      | Inl e \<Rightarrow> \<lparr>valid = False, reason = Some ''missing''\<rparr>)"

text \<open>
  \<open>JSON.parse\<close> is the parameter \<open>parse\<close>: \<open>None\<close> is the SyntaxError it throws. The result
  \<open>Inr JNull\<close> is the \<open>null\<close> of the catch branch.
\<close>

definition readCacheMetadata ::
  "(string \<Rightarrow> json option) \<Rightarrow> world \<Rightarrow> string \<Rightarrow> error + json" where
  "readCacheMetadata parse w metaPath =
     (case fs_readFile w metaPath of
        Inl e \<Rightarrow> Inr JNull
      | Inr raw \<Rightarrow> (case parse raw of None \<Rightarrow> Inr JNull | Some v \<Rightarrow> Inr v))"

text \<open>
  The size-budget scan. The \<open>for\<close> loop keeps the entries that end in \<open>.bin\<close> and can
  be stat'ed; \<open>Array.prototype.sort\<close> is stable, as \<open>sort_key\<close> is; the \<open>while\<close> loop
  shifts entries off the front while the running total is over the budget.
\<close>

record audio_entry =
  base :: string
  size_e :: nat
  mtimeMs :: int

fun collect_entries :: "config \<Rightarrow> env \<Rightarrow> world \<Rightarrow> string list \<Rightarrow> audio_entry list" where
  "collect_entries cfg io w [] = []"
| "collect_entries cfg io w (entry # entries) =
     (if \<not> endsWith entry ''.bin'' then collect_entries cfg io w entries
      else
        (let fullPath = path_join (AUDIO_CACHE_DIR cfg) entry
         in case fs_stat io w fullPath of
              Inr st \<Rightarrow>
                \<lparr>base = slice_0_neg fullPath 4, size_e = st_size st, mtimeMs = st_mtimeMs st\<rparr>
                  # collect_entries cfg io w entries
            | Inl e \<Rightarrow> collect_entries cfg io w entries))"

fun evict_loop :: "env \<Rightarrow> int \<Rightarrow> int \<Rightarrow> audio_entry list \<Rightarrow> world \<Rightarrow> world" where
  "evict_loop io budget totalSize [] w = w"
| "evict_loop io budget totalSize (entry # audioEntries) w =
     (if totalSize > budget
      then evict_loop io budget (totalSize - int (size_e entry)) audioEntries
             (snd (removeCacheEntry io (base entry) w))
      else w)"

definition enforceCacheSizeLimit :: "config \<Rightarrow> env \<Rightarrow> world \<Rightarrow> (error + unit) \<times> world" where
  "enforceCacheSizeLimit cfg io w =
     (if AUDIO_CACHE_MAX_BYTES cfg = 0 then (Inr (), w)
      else
        case fs_readdir w (AUDIO_CACHE_DIR cfg) of
          Inl e \<Rightarrow> (Inr (), w)
        | Inr entries \<Rightarrow>
            (let audioEntries = sort_key mtimeMs (collect_entries cfg io w entries);
                 totalSize = foldl (\<lambda>acc item. acc + int (size_e item)) 0 audioEntries
             in (Inr (), evict_loop io (AUDIO_CACHE_MAX_BYTES cfg) totalSize audioEntries w)))"

text \<open>
  The bytes held by the blob files of the cache directory: the files directly inside it
  whose name ends in \<open>.bin\<close>.
\<close>

definition is_blob :: "config \<Rightarrow> string \<Rightarrow> bool" where
  "is_blob cfg p =
     (case dir_entry (AUDIO_CACHE_DIR cfg) p of
        None \<Rightarrow> False | Some name \<Rightarrow> endsWith name ''.bin'')"

definition blobs :: "config \<Rightarrow> world \<Rightarrow> (string \<times> cached_file) list" where
  "blobs cfg w = filter (\<lambda>(p, f). is_blob cfg p) (files w)"

text \<open>The blob files the scan can stat.\<close>

definition scanned :: "config \<Rightarrow> env \<Rightarrow> world \<Rightarrow> (string \<times> cached_file) list" where
  "scanned cfg io w = filter (\<lambda>(p, f). is_blob cfg p \<and> \<not> stat_fails io p) (files w)"

text \<open>The files an \<open>unlink\<close> of \<open>p\<close> leaves: all of them when it fails.\<close>

definition unlinked :: "env \<Rightarrow> string \<Rightarrow> (string \<times> cached_file) list \<Rightarrow> (string \<times> cached_file) list" where
  "unlinked io p fl = (if unlink_fails io p then fl else AList.delete p fl)"

text \<open>The entry the scan builds from a blob file.\<close>

definition to_entry :: "string \<times> cached_file \<Rightarrow> audio_entry" where
  "to_entry pf =
     \<lparr>base = slice_0_neg (fst pf) 4, size_e = length (fdata (snd pf)),
      mtimeMs = fmtimeMs (snd pf)\<rparr>"

definition blob_bytes :: "config \<Rightarrow> world \<Rightarrow> int" where
  "blob_bytes cfg w = (\<Sum>(p, f) \<leftarrow> blobs cfg w. int (length (fdata f)))"

section \<open>Disk writes and outbound calls\<close>

text \<open>
  \<open>await m\<close> inside an async function, followed by the rest of the function: a
  rejection leaves the function at once.
\<close>

definition await_then ::
  "('s \<Rightarrow> (error + 'a) \<times> 's) \<Rightarrow> ('a \<Rightarrow> 's \<Rightarrow> (error + 'b) \<times> 's) \<Rightarrow> 's \<Rightarrow> (error + 'b) \<times> 's" where
  "await_then m f s = (case m s of (Inl e, s') \<Rightarrow> (Inl e, s') | (Inr a, s') \<Rightarrow> f a s')"

definition ensureCacheDir :: "config \<Rightarrow> env \<Rightarrow> world \<Rightarrow> (error + unit) \<times> world" where
  "ensureCacheDir cfg io w =
     (if mkdir_fails io then (Inl (EIO (AUDIO_CACHE_DIR cfg)), w)
      else (Inr (), w\<lparr>dirs := List.insert (AUDIO_CACHE_DIR cfg) (dirs w),
                       log := log w @ [EvMkdir (AUDIO_CACHE_DIR cfg)]\<rparr>))"

definition writeCacheMetadata ::
  "env \<Rightarrow> string \<Rightarrow> json \<Rightarrow> world \<Rightarrow> (error + unit) \<times> world" where
  "writeCacheMetadata io metaPath metadata w =
     (if writeFile_fails io then (Inl (EIO metaPath), w)
      else
        (let raw = JSON_stringify io metadata
         in (Inr (), w\<lparr>files := AList.update metaPath \<lparr>fdata = raw, fmtimeMs = now io\<rparr> (files w),
                          log := log w @ [EvWriteFile metaPath raw]\<rparr>)))"

text \<open>\<open>axios.get(url, {responseType: 'stream', headers, timeout: 30000})\<close>.\<close>

definition http_get ::
  "env \<Rightarrow> json \<Rightarrow> (string \<times> string) list \<Rightarrow> world \<Rightarrow> (error + http_response) \<times> world" where
  "http_get io url hdrs w = (axios_get io url hdrs, w\<lparr>log := log w @ [EvHttpGet url]\<rparr>)"

text \<open>\<open>fs.createWriteStream(path)\<close> and \<open>pipeline(data, writer)\<close>.\<close>

definition pipeline_to ::
  "env \<Rightarrow> string \<Rightarrow> string \<Rightarrow> world \<Rightarrow> (error + unit) \<times> world" where
  "pipeline_to io data p w =
     (case pipeline_outcome io of
        PipeDone \<Rightarrow>
          (Inr (), w\<lparr>files := AList.update p \<lparr>fdata = data, fmtimeMs = now io\<rparr> (files w),
                       log := log w @ [EvWriteStream p data]\<rparr>)
      | PipeBroken n \<Rightarrow>
          (Inl (EIO p),
           w\<lparr>files := AList.update p \<lparr>fdata = take n data, fmtimeMs = now io\<rparr> (files w),
             log := log w @ [EvWriteStream p (take n data)]\<rparr>)
      | OpenFailed \<Rightarrow> (Inl (EIO p), w))"

definition fs_rename :: "env \<Rightarrow> string \<Rightarrow> string \<Rightarrow> world \<Rightarrow> (error + unit) \<times> world" where
  "fs_rename io src dst w =
     (case map_of (files w) src of
        None \<Rightarrow> (Inl (ENOENT src), w)
      | Some f \<Rightarrow>
          (if rename_fails io then (Inl (EIO src), w)
           else (Inr (), w\<lparr>files := AList.update dst f (AList.delete src (files w)),
                            log := log w @ [EvRename src dst]\<rparr>)))"

section \<open>Single-flight fetcher\<close>

record options =
  opt_headers :: "(string \<times> string) list"
  opt_metadata :: "(string \<times> json) list"

text \<open>The object spread \<open>{...obj, ...extra}\<close>: a later key replaces the earlier value.\<close>

definition spread :: "(string \<times> json) list \<Rightarrow> (string \<times> json) list \<Rightarrow> (string \<times> json) list" where
  "spread obj extra = fold (\<lambda>(k, v). AList.update k v) extra obj"

definition header_or :: "(string \<times> string) list \<Rightarrow> string \<Rightarrow> json \<Rightarrow> json" where
  "header_or hs k dflt =
     js_or (case map_of hs k of None \<Rightarrow> JUndefined | Some v \<Rightarrow> JStr v) dflt"

text \<open>The metadata object \<open>downloadAndCacheAudio\<close> hands to \<open>writeCacheMetadata\<close>.\<close>

definition cache_metadata :: "env \<Rightarrow> json \<Rightarrow> options \<Rightarrow> http_response \<Rightarrow> json" where
  "cache_metadata io url opts response =
     JObj (spread
       [(''contentType'', header_or (resp_headers response) ''content-type'' (JStr ''audio/mpeg'')),
        (''contentLength'', header_or (resp_headers response) ''content-length'' JUndefined),
        (''fetchedAt'', JNum (now io)),
        (''sourceUrl'', url)]
       (opt_metadata opts))"

text \<open>The body of the async function started by \<open>downloadAndCacheAudio\<close>.\<close>

definition download_body ::
  "config \<Rightarrow> env \<Rightarrow> string \<Rightarrow> json \<Rightarrow> options \<Rightarrow> world \<Rightarrow> (error + string) \<times> world" where
  "download_body cfg io cacheBasePath url opts =
     await_then (ensureCacheDir cfg io) (\<lambda>_.
       let tempPath = cacheBasePath @ ''.tmp'';
           cachePath = cacheBasePath @ ''.bin'';
           metaPath = cacheBasePath @ ''.json''
       in
       await_then (http_get io url (opt_headers opts)) (\<lambda>response.
       await_then (pipeline_to io (resp_data response) tempPath) (\<lambda>_.
       await_then (fs_rename io tempPath cachePath) (\<lambda>_.
       await_then
         (writeCacheMetadata io metaPath (cache_metadata io url opts response)) (\<lambda>_.
       await_then (enforceCacheSizeLimit cfg io) (\<lambda>_ w.
         (Inr cachePath, w)))))))"

text \<open>
  Promises are identified by number. A pending promise holds the download it will run;
  \<open>inflightDownloads\<close> is the registry \<open>Map\<close> from cache base path to promise. A call
  that finds its path registered hands out the registered promise's outcome: the
  wrapper promise the async function creates around it is not told apart from it.
\<close>

record task =
  task_base :: string
  task_url :: json
  task_options :: options

datatype promise = Pending task | Fulfilled string | Rejected error

record server =
  fs :: world
  inflightDownloads :: "string \<rightharpoonup> nat"
  promises :: "nat \<rightharpoonup> promise"
  next_promise :: nat

definition downloadAndCacheAudio :: "string \<Rightarrow> json \<Rightarrow> options \<Rightarrow> server \<Rightarrow> nat \<times> server" where
  "downloadAndCacheAudio cacheBasePath url opts s =
     (case inflightDownloads s cacheBasePath of
        Some p \<Rightarrow> (p, s)
      | None \<Rightarrow>
          (let p = next_promise s
           in (p, s\<lparr>promises := (promises s)(p \<mapsto>
                        Pending \<lparr>task_base = cacheBasePath, task_url = url, task_options = opts\<rparr>),
                     next_promise := Suc p,
                     inflightDownloads := (inflightDownloads s)(cacheBasePath \<mapsto> p)\<rparr>)))"

text \<open>
  The pending promise \<open>p\<close> runs to its end: the body produces the outcome, and the
  \<open>finally\<close> callback deletes the path from the registry before anyone awaiting \<open>p\<close>
  resumes.
\<close>

definition settle :: "config \<Rightarrow> env \<Rightarrow> nat \<Rightarrow> server \<Rightarrow> server" where
  "settle cfg io p s =
     (case promises s p of
        Some (Pending t) \<Rightarrow>
          (let (r, w') = download_body cfg io (task_base t) (task_url t) (task_options t) (fs s);
               outcome = (case r of Inl e \<Rightarrow> Rejected e | Inr path \<Rightarrow> Fulfilled path)
           in s\<lparr>fs := w',
                promises := (promises s)(p \<mapsto> outcome),
                inflightDownloads := (inflightDownloads s)(task_base t := None)\<rparr>)
      | _ \<Rightarrow> s)"

text \<open>
  \<open>await p\<close>: the caller resumes once \<open>p\<close> has settled, with its outcome. The last
  case is that of a number that stands for no promise; \<open>downloadAndCacheAudio\<close> never
  returns one.
\<close>

definition await_promise :: "config \<Rightarrow> env \<Rightarrow> nat \<Rightarrow> server \<Rightarrow> (error + string) \<times> server" where
  "await_promise cfg io p s =
     (let s' = settle cfg io p s
      in case promises s' p of
           Some (Fulfilled path) \<Rightarrow> (Inr path, s')
         | Some (Rejected e) \<Rightarrow> (Inl e, s')
         | _ \<Rightarrow> (Inl TypeError, s'))"

section \<open>Stream responder\<close>

text \<open>
  \<open>fs.createReadStream(path)\<close>: the bytes it delivers and whether it then emits
  \<open>error\<close>. A missing file errors before any byte.
\<close>

definition createReadStream :: "env \<Rightarrow> world \<Rightarrow> string \<Rightarrow> string \<times> bool" where
  "createReadStream io w p =
     (case map_of (files w) p of
        None \<Rightarrow> ([], True)
      | Some f \<Rightarrow>
          (case read_error_at io p of
             None \<Rightarrow> (fdata f, False)
           | Some n \<Rightarrow> (take n (fdata f), True)))"

text \<open>The first chunk written to the response sends the headers.\<close>

definition pipe_write :: "string \<Rightarrow> response \<Rightarrow> response" where
  "pipe_write chunk res = res\<lparr>payload := AudioBytes chunk, headersSent := True\<rparr>"

text \<open>The \<open>error\<close> listener of the read stream.\<close>

definition on_read_error :: "response \<Rightarrow> response" where
  "on_read_error res =
     (if \<not> headersSent res
      then res_json (JObj [(''code'', JNum 500), (''msg'', JStr ''Cache read error'')])
             (res_status 500 res)
      else res_destroy res)"

text \<open>One statement after another on the response: an exception ends the sequence.\<close>

definition and_then ::
  "(error \<times> response) + response \<Rightarrow> (response \<Rightarrow> (error \<times> response) + response)
     \<Rightarrow> (error \<times> response) + response" where
  "and_then r f = (case r of Inl x \<Rightarrow> Inl x | Inr res \<Rightarrow> f res)"

text \<open>The headers \<open>streamCachedAudio\<close> sets before it opens the file.\<close>

definition set_cache_headers :: "json \<Rightarrow> bool \<Rightarrow> response \<Rightarrow> (error \<times> response) + response" where
  "set_cache_headers metadata cacheHit res =
     and_then (if js_truthy (js_get_opt metadata ''contentType'')
               then setHeader ''Content-Type'' (js_get_opt metadata ''contentType'') res
               else Inr res) (\<lambda>res1.
     and_then (if js_truthy (js_get_opt metadata ''contentLength'')
               then setHeader ''Content-Length'' (js_get_opt metadata ''contentLength'') res1
               else Inr res1) (\<lambda>res2.
     and_then (if js_truthy (js_get_opt metadata ''originalFilename'')
               then setHeader ''Content-Disposition''
                      (JStr (''inline; filename='' @ [CHR 0x22]
                             @ js_String (js_get_opt metadata ''originalFilename'')
                             @ [CHR 0x22])) res2
               else Inr res2) (\<lambda>res3.
     setHeader ''X-Cache-Hit'' (JStr (if cacheHit then ''1'' else ''0'')) res3)))"

text \<open>
  \<open>streamCachedAudio\<close>: an exception of \<open>setHeader\<close> leaves the function before the
  file is opened, with the response as the headers set so far have left it.
\<close>

definition streamCachedAudio ::
  "env \<Rightarrow> response \<Rightarrow> string \<Rightarrow> json \<Rightarrow> bool \<Rightarrow> world
     \<Rightarrow> ((error \<times> response) + response) \<times> world" where
  "streamCachedAudio io res cachePath metadata cacheHit w =
     (case set_cache_headers metadata cacheHit res of
        Inl x \<Rightarrow> (Inl x, w)
      | Inr res4 \<Rightarrow>
          (let (delivered, failed) = createReadStream io w cachePath;
               res5 = (if delivered \<noteq> [] then pipe_write delivered res4 else res4)
           in (Inr (if failed then on_read_error res5 else pipe_write delivered res5), w)))"

section \<open>Request handler\<close>

record request =
  params_id :: string
  query_br :: json
  query_level :: json
  cookies :: json

text \<open>\<open>String.prototype.toLowerCase\<close> on the letters A to Z.\<close>

definition toLowerCase :: "string \<Rightarrow> string" where
  "toLowerCase s =
     map (\<lambda>c. if 65 \<le> (of_char c :: nat) \<and> (of_char c :: nat) \<le> 90
               then char_of ((of_char c :: nat) + 32) else c) s"

definition bitrate_of :: "json \<Rightarrow> json" where
  "bitrate_of br = (if js_truthy br then JStr (js_String br) else JUndefined)"

definition cacheKey :: "string \<Rightarrow> json \<Rightarrow> json \<Rightarrow> string" where
  "cacheKey ident br level =
     ident @ ''_'' @ js_String (js_or (js_or (bitrate_of br) level) (JStr ''default''))"

text \<open>
  \<open>data.find((item) => String(item.id) === String(id))\<close>: the first item whose id
  prints as the requested id, \<open>undefined\<close> when there is none, and the TypeError of
  reading \<open>id\<close> off \<open>null\<close> or \<open>undefined\<close> on the way.
\<close>

fun array_find_id :: "string \<Rightarrow> json list \<Rightarrow> error + json" where
  "array_find_id ident [] = Inr JUndefined"
| "array_find_id ident (item # items) =
     (case js_get item ''id'' of
        Inl e \<Rightarrow> Inl e
      | Inr v \<Rightarrow> if js_String v = ident then Inr item else array_find_id ident items)"

definition select_target :: "string \<Rightarrow> json list \<Rightarrow> error + json" where
  "select_target ident data =
     (case array_find_id ident data of
        Inl e \<Rightarrow> Inl e
      | Inr found \<Rightarrow> Inr (js_or found (case data of [] \<Rightarrow> JUndefined | x # _ \<Rightarrow> x)))"

text \<open>
  The handler from \<open>downloadHeaders\<close> to the end of the \<open>try\<close> block. An exception
  comes with the response object as it is when the \<open>catch\<close> clause receives control:
  untouched (\<open>fresh_res\<close>) unless \<open>streamCachedAudio\<close> has set headers on it.
\<close>

definition fetch_and_stream ::
  "config \<Rightarrow> env \<Rightarrow> string \<Rightarrow> string \<Rightarrow> json \<Rightarrow> server
     \<Rightarrow> ((error \<times> response) + response) \<times> server" where
  "fetch_and_stream cfg io ident cacheBasePath target s =
     (let downloadHeaders = [(''Referer'', ''https://music.163.com'')];
          extraMeta =
            (if js_truthy (js_get_opt target ''type'')
             then (case js_get_opt target ''type'' of
                     JStr t \<Rightarrow> Inr [(''originalFilename'', JStr (ident @ ''.'' @ toLowerCase t))]
                   | _ \<Rightarrow> Inl TypeError)
             else Inr [])
      in case extraMeta of
           Inl e \<Rightarrow> (Inl (e, fresh_res), s)
         | Inr extra \<Rightarrow>
             (let (p, s1) = downloadAndCacheAudio cacheBasePath (js_get_opt target ''url'')
                              \<lparr>opt_headers = downloadHeaders, opt_metadata = extra\<rparr> s
              in case await_promise cfg io p s1 of
                   (Inl e, s2) \<Rightarrow> (Inl (e, fresh_res), s2)
                 | (Inr path, s2) \<Rightarrow>
                     (case readCacheMetadata (JSON_parse io) (fs s2) (cacheBasePath @ ''.json'') of
                        Inl e \<Rightarrow> (Inl (e, fresh_res), s2)
                      | Inr meta \<Rightarrow>
                          (let (r, w) = streamCachedAudio io fresh_res
                                          (cacheBasePath @ ''.bin'') meta False (fs s2)
                           in (r, s2\<lparr>fs := w\<rparr>)))))"

text \<open>The query object the handler passes to \<open>songUrlModule\<close>.\<close>

definition resolver_query :: "request \<Rightarrow> json" where
  "resolver_query req =
     JObj [(''id'', JStr (params_id req)), (''br'', bitrate_of (query_br req)),
           (''level'', query_level req), (''cookie'', cookies req)]"

text \<open>
  The handler from the call of the resolver to the choice of the target. The status
  and the body of a resolver response other than 200 go to Express as they are; an
  exception of that call leaves the response unsent.
\<close>

definition resolve_and_fetch ::
  "config \<Rightarrow> env \<Rightarrow> request \<Rightarrow> string \<Rightarrow> server
     \<Rightarrow> ((error \<times> response) + response) \<times> server" where
  "resolve_and_fetch cfg io req cacheBasePath s =
     (let ident = params_id req;
          query = resolver_query req;
          s0 = s\<lparr>fs := (fs s)\<lparr>log := log (fs s) @ [EvResolve query]\<rparr>\<rparr>
      in case songUrlModule io query of
           Inl e \<Rightarrow> (Inl (e, fresh_res), s0)
         | Inr moduleResponse \<Rightarrow>
             (if status moduleResponse \<noteq> 200
              then (case status_send io (status moduleResponse)
                           (js_or (body moduleResponse)
                              (JObj [(''code'', JNum (status moduleResponse))])) of
                      Inl e \<Rightarrow> (Inl (e, fresh_res), s0)
                    | Inr (c, sent) \<Rightarrow>
                        (Inr (fresh_res\<lparr>statusCode := c, payload := sent, headersSent := True\<rparr>), s0))
              else
                (case js_get_opt (body moduleResponse) ''data'' of
                   JArr data \<Rightarrow>
                     (if data = []
                      then (Inr (res_json (JObj [(''code'', JNum 404), (''msg'', JStr ''Song url not found'')])
                                   (res_status 404 fresh_res)), s0)
                      else
                        (case select_target ident data of
                           Inl e \<Rightarrow> (Inl (e, fresh_res), s0)
                         | Inr target \<Rightarrow>
                             (if \<not> js_truthy (js_get_opt target ''url'')
                              then (Inr (res_json
                                       (JObj [(''code'', JNum 403),
                                              (''msg'', JStr ''No playable URL returned (maybe VIP / region restricted)'')])
                                       (res_status 403 fresh_res)), s0)
                              else fetch_and_stream cfg io ident cacheBasePath target s0)))
                 | _ \<Rightarrow>
                     (Inr (res_json (JObj [(''code'', JNum 404), (''msg'', JStr ''Song url not found'')])
                             (res_status 404 fresh_res)), s0))))"

text \<open>The \<open>try\<close> block of the handler.\<close>

definition try_block ::
  "config \<Rightarrow> env \<Rightarrow> request \<Rightarrow> server \<Rightarrow> ((error \<times> response) + response) \<times> server" where
  "try_block cfg io req s =
     (let cacheBasePath = path_join (AUDIO_CACHE_DIR cfg)
                            (cacheKey (params_id req) (query_br req) (query_level req));
          cacheAudioPath = cacheBasePath @ ''.bin'';
          cacheMetaPath = cacheBasePath @ ''.json'';
          cacheStatus = getCacheStatus cfg io (fs s) cacheAudioPath
      in if valid cacheStatus
         then (case readCacheMetadata (JSON_parse io) (fs s) cacheMetaPath of
                 Inl e \<Rightarrow> (Inl (e, fresh_res), s)
               | Inr meta \<Rightarrow>
                   (let (r, w) = streamCachedAudio io fresh_res cacheAudioPath meta True (fs s)
                    in (r, s\<lparr>fs := w\<rparr>)))
         else
           (let s1 = (if reason cacheStatus = Some ''expired''
                      then s\<lparr>fs := snd (removeCacheEntry io cacheBasePath (fs s))\<rparr>
                      else s)
            in resolve_and_fetch cfg io req cacheBasePath s1))"

text \<open>
  \<open>app.get('/custom/audio/:id', ...)\<close>. The \<open>catch\<close> clause answers on the response
  object the exception left behind.
\<close>

definition handler :: "config \<Rightarrow> env \<Rightarrow> request \<Rightarrow> server \<Rightarrow> response \<times> server" where
  "handler cfg io req s =
     (if params_id req = []
      then (res_json (JObj [(''code'', JNum 400), (''msg'', JStr ''Missing song id'')])
              (res_status 400 fresh_res), s)
      else
        (case try_block cfg io req s of
           (Inr res, s') \<Rightarrow> (res, s')
         | (Inl (error, res), s') \<Rightarrow>
             (res_json (JObj [(''code'', JNum 500), (''msg'', JStr ''Audio proxy failed'')])
                (res_status 500 res), s')))"

section \<open>Notions used by the properties\<close>

definition is_unlink :: "event \<Rightarrow> bool" where
  "is_unlink ev = (case ev of EvUnlink p \<Rightarrow> True | _ \<Rightarrow> False)"

text \<open>
  The world a download has produced once it is past \<open>mkdir\<close>, past the upstream GET,
  past the pipeline (with \<open>d\<close> the bytes that reached the temporary file), past the
  rename, and past the metadata write.
\<close>

definition after_mkdir :: "config \<Rightarrow> world \<Rightarrow> world" where
  "after_mkdir cfg w =
     w\<lparr>dirs := List.insert (AUDIO_CACHE_DIR cfg) (dirs w),
       log := log w @ [EvMkdir (AUDIO_CACHE_DIR cfg)]\<rparr>"

definition after_get :: "config \<Rightarrow> json \<Rightarrow> world \<Rightarrow> world" where
  "after_get cfg url w =
     (after_mkdir cfg w)\<lparr>log := log w @ [EvMkdir (AUDIO_CACHE_DIR cfg), EvHttpGet url]\<rparr>"

definition after_pipe :: "config \<Rightarrow> env \<Rightarrow> string \<Rightarrow> json \<Rightarrow> string \<Rightarrow> world \<Rightarrow> world" where
  "after_pipe cfg io b url d w =
     (after_mkdir cfg w)\<lparr>
        files := AList.update (b @ ''.tmp'') \<lparr>fdata = d, fmtimeMs = now io\<rparr> (files w),
        log := log w @ [EvMkdir (AUDIO_CACHE_DIR cfg), EvHttpGet url,
                        EvWriteStream (b @ ''.tmp'') d]\<rparr>"

definition after_rename :: "config \<Rightarrow> env \<Rightarrow> string \<Rightarrow> json \<Rightarrow> string \<Rightarrow> world \<Rightarrow> world" where
  "after_rename cfg io b url d w =
     (after_mkdir cfg w)\<lparr>
        files := AList.update (b @ ''.bin'') \<lparr>fdata = d, fmtimeMs = now io\<rparr>
                   (AList.delete (b @ ''.tmp'')
                      (AList.update (b @ ''.tmp'') \<lparr>fdata = d, fmtimeMs = now io\<rparr> (files w))),
        log := log w @ [EvMkdir (AUDIO_CACHE_DIR cfg), EvHttpGet url,
                        EvWriteStream (b @ ''.tmp'') d, EvRename (b @ ''.tmp'') (b @ ''.bin'')]\<rparr>"

definition after_meta ::
  "config \<Rightarrow> env \<Rightarrow> string \<Rightarrow> json \<Rightarrow> options \<Rightarrow> http_response \<Rightarrow> world \<Rightarrow> world" where
  "after_meta cfg io b url opts resp w =
     (after_rename cfg io b url (resp_data resp) w)\<lparr>
        files := AList.update (b @ ''.json'')
                   \<lparr>fdata = JSON_stringify io (cache_metadata io url opts resp), fmtimeMs = now io\<rparr>
                   (files (after_rename cfg io b url (resp_data resp) w)),
        log := log (after_rename cfg io b url (resp_data resp) w)
                 @ [EvWriteFile (b @ ''.json'') (JSON_stringify io (cache_metadata io url opts resp))]\<rparr>"

text \<open>The last part of the cache key.\<close>

definition quality_token :: "json \<Rightarrow> json \<Rightarrow> string" where
  "quality_token br level = js_String (js_or (js_or (bitrate_of br) level) (JStr ''default''))"

text \<open>
  The cache base path of a request, and the server state once the handler has
  checked the entry (an expired one is removed) and once it has called the resolver.
\<close>

definition base_path :: "config \<Rightarrow> request \<Rightarrow> string" where
  "base_path cfg req =
     path_join (AUDIO_CACHE_DIR cfg) (cacheKey (params_id req) (query_br req) (query_level req))"

definition after_check :: "config \<Rightarrow> env \<Rightarrow> request \<Rightarrow> server \<Rightarrow> server" where
  "after_check cfg io req s =
     (if reason (getCacheStatus cfg io (fs s) (base_path cfg req @ ''.bin'')) = Some ''expired''
      then s\<lparr>fs := snd (removeCacheEntry io (base_path cfg req) (fs s))\<rparr>
      else s)"

definition after_resolve :: "config \<Rightarrow> env \<Rightarrow> request \<Rightarrow> server \<Rightarrow> server" where
  "after_resolve cfg io req s =
     (after_check cfg io req s)\<lparr>fs :=
        (fs (after_check cfg io req s))\<lparr>log :=
           log (fs (after_check cfg io req s)) @ [EvResolve (resolver_query req)]\<rparr>\<rparr>"

text \<open>
  The options the handler passes to \<open>downloadAndCacheAudio\<close> for a target whose
  \<open>type\<close> is absent, falsy or a string.
\<close>

definition fetch_options :: "string \<Rightarrow> json \<Rightarrow> options" where
  "fetch_options ident target =
     \<lparr>opt_headers = [(''Referer'', ''https://music.163.com'')],
      opt_metadata =
        (case js_get_opt target ''type'' of
           JStr t \<Rightarrow> if t = [] then [] else [(''originalFilename'', JStr (ident @ ''.'' @ toLowerCase t))]
         | _ \<Rightarrow> [])\<rparr>"

text \<open>
  The error responses of the handler; \<open>caught res\<close> is the answer of the \<open>catch\<close>
  clause on the response object \<open>res\<close>.
\<close>

definition caught :: "response \<Rightarrow> response" where
  "caught res = res_json (JObj [(''code'', JNum 500), (''msg'', JStr ''Audio proxy failed'')])
                  (res_status 500 res)"

definition res_500 :: response where
  "res_500 = res_json (JObj [(''code'', JNum 500), (''msg'', JStr ''Audio proxy failed'')])
               (res_status 500 fresh_res)"

definition res_404 :: response where
  "res_404 = res_json (JObj [(''code'', JNum 404), (''msg'', JStr ''Song url not found'')])
               (res_status 404 fresh_res)"

definition res_403 :: response where
  "res_403 = res_json (JObj [(''code'', JNum 403),
                             (''msg'', JStr ''No playable URL returned (maybe VIP / region restricted)'')])
               (res_status 403 fresh_res)"

text \<open>
  An outcome of the \<open>try\<close> block, a response or an exception with the response
  object it leaves, that does not carry the hit marker.
\<close>

definition no_hit :: "(error \<times> response) + response \<Rightarrow> bool" where
  "no_hit x = (case x of
      Inr out \<Rightarrow> map_of (resHeaders out) ''X-Cache-Hit'' \<noteq> Some (JStr ''1'')
    | Inl (e, r) \<Rightarrow> map_of (resHeaders r) ''X-Cache-Hit'' \<noteq> Some (JStr ''1''))"

text \<open>
  The registry and the promises agree: a path is registered to a promise exactly when
  that promise is pending on a download for that path, and promise numbers not yet
  handed out are unused.
\<close>

definition registry_ok :: "server \<Rightarrow> bool" where
  "registry_ok s =
     ((\<forall>b p. inflightDownloads s b = Some p
               \<longleftrightarrow> (\<exists>t. promises s p = Some (Pending t) \<and> task_base t = b))
      \<and> (\<forall>p\<ge>next_promise s. promises s p = None))"

section \<open>Example inputs\<close>

definition cfg_ex :: config where
  "cfg_ex = \<lparr>AUDIO_CACHE_DIR = ''/cache'', AUDIO_CACHE_TTL_SECONDS = 3600,
              AUDIO_CACHE_MAX_SIZE_MB = 1\<rparr>"

definition cfg_unbounded :: config where
  "cfg_unbounded = \<lparr>AUDIO_CACHE_DIR = ''/cache'', AUDIO_CACHE_TTL_SECONDS = 0,
                     AUDIO_CACHE_MAX_SIZE_MB = 0\<rparr>"

definition cfg_ttl :: config where
  "cfg_ttl = \<lparr>AUDIO_CACHE_DIR = ''/cache'', AUDIO_CACHE_TTL_SECONDS = 3600,
               AUDIO_CACHE_MAX_SIZE_MB = 0\<rparr>"

text \<open>A cache directory holding one megabyte-sized old blob and a small newer one.\<close>

definition w_full :: world where
  "w_full =
     \<lparr>dirs = [''/cache''],
      files = [(''/cache/7_default.bin'', \<lparr>fdata = replicate 1048576 CHR ''a'', fmtimeMs = 1000\<rparr>),
               (''/cache/7_default.json'', \<lparr>fdata = ''{}'', fmtimeMs = 1000\<rparr>),
               (''/cache/8_320000.bin'', \<lparr>fdata = ''bb'', fmtimeMs = 2000\<rparr>)],
      log = []\<rparr>"

definition w_nodir :: world where
  "w_nodir = \<lparr>dirs = [], files = [], log = []\<rparr>"

text \<open>
  A \<open>send\<close> that transmits status and body as given for the status codes Node
  accepts, 100 to 999, and throws a RangeError for the others.
\<close>

definition send_in_range :: "int \<Rightarrow> json \<Rightarrow> error + (int \<times> payload)" where
  "send_in_range c v = (if c < 100 \<or> 999 < c then Inl RangeError else Inr (c, SendBody v))"

text \<open>
  An environment in which every disk operation succeeds, the upstream answers six
  bytes of MPEG audio, the resolver knows track 8 as an MP3, and the JSON codec knows
  one document.
\<close>

definition meta_ex :: json where
  "meta_ex = JObj [(''contentType'', JStr ''audio/mpeg''), (''originalFilename'', JStr ''8.mp3'')]"

definition io_ex :: env where
  "io_ex =
     \<lparr>now = 5000,
      JSON_parse = (\<lambda>raw. if raw = ''M'' then Some meta_ex else None),
      JSON_stringify = (\<lambda>v. ''M''),
      stat_fails = (\<lambda>p. False),
      unlink_fails = (\<lambda>p. False),
      mkdir_fails = False,
      axios_get = (\<lambda>url hdrs. Inr \<lparr>resp_headers = [(''content-type'', ''audio/mpeg'')],
                                     resp_data = ''abcdef''\<rparr>),
      pipeline_outcome = PipeDone,
      rename_fails = False,
      writeFile_fails = False,
      songUrlModule = (\<lambda>q. Inr \<lparr>status = 200,
                                  body = JObj [(''data'', JArr [JObj [(''id'', JNum 8),
                                                 (''url'', JStr ''http://m/8.mp3''),
                                                 (''type'', JStr ''MP3'')]])]\<rparr>),
      read_error_at = (\<lambda>p. None),
      status_send = send_in_range\<rparr>"

definition server_of :: "world \<Rightarrow> server" where
  "server_of w = \<lparr>fs = w, inflightDownloads = Map.empty, promises = Map.empty, next_promise = 0\<rparr>"

definition req_ex :: "string \<Rightarrow> json \<Rightarrow> request" where
  "req_ex ident br = \<lparr>params_id = ident, query_br = br, query_level = JUndefined, cookies = JObj []\<rparr>"

text \<open>A resolver that answers status 502 without a body.\<close>

definition io_nobody :: env where
  "io_nobody = io_ex\<lparr>songUrlModule := (\<lambda>q. Inr \<lparr>status = 502, body = JUndefined\<rparr>)\<rparr>"

text \<open>A resolver that answers status 1000.\<close>

definition io_1000 :: env where
  "io_1000 = io_ex\<lparr>songUrlModule := (\<lambda>q. Inr \<lparr>status = 1000, body = JStr ''x''\<rparr>)\<rparr>"

text \<open>
  The clock past the TTL of the example blobs, with a resolver that answers 404; in
  \<open>io_stuck\<close> no unlink succeeds.
\<close>

definition io_late :: env where
  "io_late = io_ex\<lparr>now := 4000000\<rparr>"

definition io_stuck :: env where
  "io_stuck = io_ex\<lparr>now := 4000000, unlink_fails := (\<lambda>p. True),
                     songUrlModule := (\<lambda>q. Inr \<lparr>status = 404, body = JStr ''gone''\<rparr>)\<rparr>"

text \<open>A metadata document whose content type holds a line feed.\<close>

definition meta_bad :: json where
  "meta_bad = JObj [(''contentType'', JStr [CHR ''a'', CHR 0x0A])]"

definition io_badmeta :: env where
  "io_badmeta = io_ex\<lparr>JSON_parse := (\<lambda>raw. Some meta_bad)\<rparr>"

text \<open>
  An upstream whose body is one byte over a megabyte, and a resolver that knows
  track 9.
\<close>

definition item9 :: json where
  "item9 = JObj [(''id'', JNum 9), (''url'', JStr ''http://m/9.mp3''), (''type'', JStr ''mp3'')]"

definition io_big :: env where
  "io_big = io_ex\<lparr>axios_get := (\<lambda>url hdrs. Inr \<lparr>resp_headers = [],
                                                    resp_data = replicate 1048577 CHR ''z''\<rparr>),
                   songUrlModule := (\<lambda>q. Inr \<lparr>status = 200, body = JObj [(''data'', JArr [item9])]\<rparr>)\<rparr>"



section \<open>Properties\<close>

subsection \<open>The size-budget scan\<close>

lemma dir_entry_join: "dir_entry d p = Some name \<Longrightarrow> path_join d name = p"
  unfolding dir_entry_def path_join_def Let_def
  by (auto split: if_splits) (metis append_take_drop_id append.assoc append_Cons append_Nil)

lemma is_blob_suffix: "is_blob cfg p \<Longrightarrow> suffix ''.bin'' p"
  unfolding is_blob_def endsWith_def dir_entry_def Let_def
  by (auto split: option.splits if_splits) (metis suffix_drop suffix_order.trans)

lemma slice_bin: "suffix ''.bin'' p \<Longrightarrow> slice_0_neg p 4 @ ''.bin'' = p"
  unfolding slice_0_neg_def suffix_def by auto

lemma foldl_total: "foldl (\<lambda>acc item. acc + int (size_e item)) a es = a + (\<Sum>e\<leftarrow>es. int (size_e e))"
  by (induction es arbitrary: a) auto

lemma collect_entries_eq:
  assumes "\<forall>(p, f) \<in> set xs. map_of (files w) p = Some f"
  shows "collect_entries cfg io w (List.map_filter (\<lambda>(p, f). dir_entry (AUDIO_CACHE_DIR cfg) p) xs)
         = map to_entry (filter (\<lambda>(p, f). is_blob cfg p \<and> \<not> stat_fails io p) xs)"
  using assms
proof (induction xs)
  case Nil
  then show ?case by (simp add: List.map_filter_simps)
next
  case (Cons x xs)
  obtain p f where x: "x = (p, f)" by (cases x)
  from Cons.prems x have m: "map_of (files w) p = Some f" by simp
  from Cons have IH: "collect_entries cfg io w (List.map_filter (\<lambda>(p, f). dir_entry (AUDIO_CACHE_DIR cfg) p) xs)
         = map to_entry (filter (\<lambda>(p, f). is_blob cfg p \<and> \<not> stat_fails io p) xs)" by simp
  show ?case
  proof (cases "dir_entry (AUDIO_CACHE_DIR cfg) p")
    case None
    then show ?thesis using IH x by (simp add: List.map_filter_simps is_blob_def)
  next
    case (Some name)
    then have j: "path_join (AUDIO_CACHE_DIR cfg) name = p" by (rule dir_entry_join)
    show ?thesis using IH x Some j m
      by (simp add: List.map_filter_simps is_blob_def fs_stat_def to_entry_def)
  qed
qed

lemma files_fs_unlink: "files (snd (fs_unlink io p w)) = unlinked io p (files w)"
proof (cases "map_of (files w) p")
  case None
  then have "p \<notin> fst ` set (files w)" by (simp add: map_of_eq_None_iff)
  then have "AList.delete p (files w) = files w" by simp
  then show ?thesis using None by (simp add: fs_unlink_def unlinked_def)
next
  case (Some f)
  then show ?thesis by (simp add: fs_unlink_def unlinked_def)
qed

lemma snd_removeCacheEntry:
  "snd (removeCacheEntry io b w) = snd (fs_unlink io (b @ ''.json'') (snd (fs_unlink io (b @ ''.bin'') w)))"
  unfolding removeCacheEntry_def Let_def by (simp add: split_def)

lemma files_removeCacheEntry:
  "files (snd (removeCacheEntry io b w))
     = unlinked io (b @ ''.json'') (unlinked io (b @ ''.bin'') (files w))"
  unfolding snd_removeCacheEntry files_fs_unlink ..

lemma not_blob_json: "\<not> is_blob cfg (b @ ''.json'')"
  using is_blob_suffix[of cfg "b @ ''.json''"] by (auto simp: suffix_def)

lemma filter_delete_other:
  "\<not> P q \<Longrightarrow> filter (\<lambda>(p, f). P p) (AList.delete q xs) = filter (\<lambda>(p, f). P p) xs"
  by (induction xs) auto

lemma filter_delete_key:
  "filter (\<lambda>(p, f). P p) (AList.delete q xs) = filter (\<lambda>(p, f). p \<noteq> q) (filter (\<lambda>(p, f). P p) xs)"
  by (induction xs) auto

lemma blobs_remove:
  "blobs cfg (snd (removeCacheEntry io b w))
     = (if unlink_fails io (b @ ''.bin'') then blobs cfg w
        else filter (\<lambda>(p, f). p \<noteq> b @ ''.bin'') (blobs cfg w))"
proof -
  have j: "filter (\<lambda>(p, f). is_blob cfg p) (unlinked io (b @ ''.json'') xs)
             = filter (\<lambda>(p, f). is_blob cfg p) xs" for xs
    unfolding unlinked_def by (simp add: filter_delete_other[of "is_blob cfg", OF not_blob_json])
  show ?thesis
    unfolding blobs_def files_removeCacheEntry j
    by (simp add: unlinked_def filter_delete_key)
qed

lemma blobs_remove_subset:
  "set (blobs cfg (snd (removeCacheEntry io b w))) \<subseteq> set (blobs cfg w)"
  unfolding blobs_remove by auto

lemma mset_filter_key:
  "distinct (map fst xs) \<Longrightarrow> (p, f) \<in> set xs \<Longrightarrow>
   mset (filter (\<lambda>(q, g). q \<noteq> p) xs) = mset xs - {#(p, f)#}"
proof (induction xs)
  case Nil then show ?case by simp
next
  case (Cons x xs)
  show ?case
  proof (cases "x = (p, f)")
    case True
    with Cons.prems have "p \<notin> fst ` set xs" by force
    then have "filter (\<lambda>(q, g). q \<noteq> p) xs = xs" by (force simp: filter_id_conv)
    with True show ?thesis by simp
  next
    case False
    with Cons.prems have in_xs: "(p, f) \<in> set xs" by auto
    with Cons.prems have "fst x \<noteq> p" by (cases x) force
    then show ?thesis using Cons.IH Cons.prems in_xs by (cases x) (auto)
  qed
qed

lemma distinct_unlinked: "distinct (map fst xs) \<Longrightarrow> distinct (map fst (unlinked io p xs))"
  unfolding unlinked_def by (simp add: AList.distinct_delete)

lemma distinct_files_remove:
  "distinct (map fst (files w)) \<Longrightarrow> distinct (map fst (files (snd (removeCacheEntry io b w))))"
  by (simp add: files_removeCacheEntry distinct_unlinked)

lemma blobs_remove_mset:
  assumes d: "distinct (map fst (files w))"
      and m: "mset (map to_entry (blobs cfg w)) = add_mset e M"
      and u: "\<forall>(p, f)\<in>set (blobs cfg w). \<not> unlink_fails io p"
  shows "mset (map to_entry (blobs cfg (snd (removeCacheEntry io (base e) w)))) = M"
proof -
  from m have "e \<in># mset (map to_entry (blobs cfg w))" by simp
  then obtain p f where pf: "(p, f) \<in> set (blobs cfg w)" and e: "e = to_entry (p, f)" by auto
  from pf have "is_blob cfg p" by (auto simp: blobs_def)
  then have p: "base e @ ''.bin'' = p" using e slice_bin[OF is_blob_suffix] by (simp add: to_entry_def)
  have nf: "\<not> unlink_fails io p" using u pf by auto
  have "distinct (map fst (blobs cfg w))" using d unfolding blobs_def by (rule distinct_map_filter)
  then have "mset (filter (\<lambda>(q, g). q \<noteq> p) (blobs cfg w)) = mset (blobs cfg w) - {#(p, f)#}"
    using pf by (rule mset_filter_key)
  then have "mset (map to_entry (filter (\<lambda>(q, g). q \<noteq> p) (blobs cfg w))) = image_mset to_entry (mset (blobs cfg w) - {#(p, f)#})"
    by (metis mset_map)
  also have "\<dots> = image_mset to_entry (mset (blobs cfg w)) - {#e#}"
    using pf e by (simp add: image_mset_Diff)
  also have "\<dots> = M" using m by simp
  finally show ?thesis using nf by (simp add: blobs_remove p)
qed

lemma blob_bytes_mset:
  "blob_bytes cfg w = (\<Sum>e\<in>#mset (map to_entry (blobs cfg w)). int (size_e e))"
proof -
  have "(\<Sum>(p, f) \<leftarrow> xs. int (length (fdata f))) = (\<Sum>e\<leftarrow>map to_entry xs. int (size_e e))" for xs
    by (induction xs) (auto simp: to_entry_def)
  then have "blob_bytes cfg w = sum_list (map (\<lambda>e. int (size_e e)) (map to_entry (blobs cfg w)))"
    unfolding blob_bytes_def blobs_def by simp
  also have "\<dots> = (\<Sum>e\<in>#mset (map to_entry (blobs cfg w)). int (size_e e))"
    by (metis mset_map sum_mset_sum_list)
  finally show ?thesis .
qed

lemma sum_entries_mset:
  "(\<Sum>e\<leftarrow>es. int (size_e e)) = (\<Sum>e\<in>#mset es. int (size_e e))"
  by (metis mset_map sum_mset_sum_list)

lemma evict_loop_budget:
  assumes "distinct (map fst (files w))"
      and "mset (map to_entry (blobs cfg w)) = mset es"
      and "totalSize = (\<Sum>e\<leftarrow>es. int (size_e e))"
      and "0 \<le> budget"
      and "\<forall>(p, f)\<in>set (blobs cfg w). \<not> unlink_fails io p"
  shows "blob_bytes cfg (evict_loop io budget totalSize es w) \<le> budget"
  using assms
proof (induction es arbitrary: w totalSize)
  case Nil
  then show ?case by (simp add: blob_bytes_mset)
next
  case (Cons e es)
  show ?case
  proof (cases "totalSize > budget")
    case True
    let ?w = "snd (removeCacheEntry io (base e) w)"
    have m: "mset (map to_entry (blobs cfg w)) = add_mset e (mset es)" using Cons.prems(2) by simp
    have "mset (map to_entry (blobs cfg ?w)) = mset es"
      using blobs_remove_mset[OF Cons.prems(1) m Cons.prems(5)] .
    moreover have "distinct (map fst (files ?w))" using Cons.prems(1) by (rule distinct_files_remove)
    moreover have "totalSize - int (size_e e) = (\<Sum>e\<leftarrow>es. int (size_e e))" using Cons.prems(3) by simp
    moreover have "\<forall>(p, f)\<in>set (blobs cfg ?w). \<not> unlink_fails io p"
      using Cons.prems(5) blobs_remove_subset[of cfg io "base e" w] by blast
    ultimately have "blob_bytes cfg (evict_loop io budget (totalSize - int (size_e e)) es ?w) \<le> budget"
      using Cons.IH Cons.prems(4) by blast
    with True show ?thesis by simp
  next
    case False
    have "blob_bytes cfg w = totalSize"
      using Cons.prems(2,3) by (simp add: blob_bytes_mset sum_entries_mset del: mset_map)
    with False show ?thesis by simp
  qed
qed

lemma evict_loop_prefix:
  "\<exists>k\<le>length es.
     evict_loop io budget (\<Sum>e\<leftarrow>es. int (size_e e)) es w
       = fold (\<lambda>e w. snd (removeCacheEntry io (base e) w)) (take k es) w
     \<and> (\<forall>j<k. budget < (\<Sum>e\<leftarrow>drop j es. int (size_e e)))
     \<and> (k < length es \<longrightarrow> (\<Sum>e\<leftarrow>drop k es. int (size_e e)) \<le> budget)"
proof (induction es arbitrary: w)
  case Nil
  then show ?case by simp
next
  case (Cons e es)
  let ?t = "\<Sum>e\<leftarrow>e # es. int (size_e e)"
  show ?case
  proof (cases "?t > budget")
    case True
    let ?w = "snd (removeCacheEntry io (base e) w)"
    from Cons.IH[of ?w] obtain k where k: "k \<le> length es"
      "evict_loop io budget (\<Sum>e\<leftarrow>es. int (size_e e)) es ?w
         = fold (\<lambda>e w. snd (removeCacheEntry io (base e) w)) (take k es) ?w"
      "\<forall>j<k. budget < (\<Sum>e\<leftarrow>drop j es. int (size_e e))"
      "k < length es \<longrightarrow> (\<Sum>e\<leftarrow>drop k es. int (size_e e)) \<le> budget" by blast
    have "\<forall>j<Suc k. budget < (\<Sum>e\<leftarrow>drop j (e # es). int (size_e e))"
    proof (intro allI impI)
      fix j assume "j < Suc k"
      then show "budget < (\<Sum>e\<leftarrow>drop j (e # es). int (size_e e))"
        using True k(3) by (cases j) auto
    qed
    then show ?thesis using True k by (intro exI[of _ "Suc k"]) simp
  next
    case False
    then show ?thesis by (intro exI[of _ 0]) simp
  qed
qed

lemma map_of_files: "wf_world w \<Longrightarrow> \<forall>(p, f) \<in> set (files w). map_of (files w) p = Some f"
  unfolding wf_world_def by auto

lemma scan_entries:
  assumes "wf_world w"
  shows "collect_entries cfg io w (List.map_filter (\<lambda>(p, f). dir_entry (AUDIO_CACHE_DIR cfg) p) (files w))
         = map to_entry (scanned cfg io w)"
  using collect_entries_eq[OF map_of_files[OF assms], of cfg io] by (simp add: scanned_def)

lemma enforce_unfold:
  assumes "wf_world w" "AUDIO_CACHE_MAX_BYTES cfg \<noteq> 0" "AUDIO_CACHE_DIR cfg \<in> set (dirs w)"
  shows "snd (enforceCacheSizeLimit cfg io w) =
           evict_loop io (AUDIO_CACHE_MAX_BYTES cfg)
             (\<Sum>e\<leftarrow>sort_key mtimeMs (map to_entry (scanned cfg io w)). int (size_e e))
             (sort_key mtimeMs (map to_entry (scanned cfg io w))) w"
  using assms scan_entries[OF assms(1), of cfg io]
  unfolding enforceCacheSizeLimit_def fs_readdir_def Let_def
  by (simp add: foldl_total)

lemma max_bytes_nonneg: "0 \<le> AUDIO_CACHE_MAX_BYTES cfg"
  unfolding AUDIO_CACHE_MAX_BYTES_def by simp

lemma scanned_blobs:
  "\<forall>(p, f)\<in>set (blobs cfg w). \<not> stat_fails io p \<Longrightarrow> scanned cfg io w = blobs cfg w"
  unfolding scanned_def blobs_def by (induction "files w") (auto intro: filter_cong)

text \<open>
  Claim C3 (size-budget eviction), as amended. With no byte budget
  (\<open>AUDIO_CACHE_MAX_BYTES\<close> is 0) \<open>enforceCacheSizeLimit\<close> leaves the world as it is, and
  so it does when the cache directory cannot be listed; it never returns an error.
  Otherwise the entries it works on are those of the files of the cache directory
  whose name ends in \<open>.bin\<close> and that can be stat'ed, in ascending order of
  last-modified time; it calls \<open>removeCacheEntry\<close> on a prefix of that list, the total
  of the entries not yet shifted off being over the budget each time, and stops with
  that total at or under the budget or with no entry left. \<open>removeCacheEntry\<close>
  unlinks the blob and the metadata file, and an unlink that fails leaves its file
  where it is. So the bytes of the blob files that remain do not exceed the budget
  when every blob of the directory could be stat'ed and unlinked.
\<close>

theorem enforceCacheSizeLimit_budget:
  assumes "wf_world w"
  shows "fst (enforceCacheSizeLimit cfg io w) = Inr ()
       \<and> (AUDIO_CACHE_MAX_BYTES cfg = 0 \<longrightarrow> snd (enforceCacheSizeLimit cfg io w) = w)
       \<and> (AUDIO_CACHE_DIR cfg \<notin> set (dirs w) \<longrightarrow> snd (enforceCacheSizeLimit cfg io w) = w)
       \<and> files (snd (removeCacheEntry io b w))
           = unlinked io (b @ ''.json'') (unlinked io (b @ ''.bin'') (files w))
       \<and> (AUDIO_CACHE_MAX_BYTES cfg \<noteq> 0 \<and> AUDIO_CACHE_DIR cfg \<in> set (dirs w) \<longrightarrow>
            (let es = sort_key mtimeMs (map to_entry (scanned cfg io w))
             in sorted (map mtimeMs es)
              \<and> (\<exists>k\<le>length es.
                    snd (enforceCacheSizeLimit cfg io w)
                      = fold (\<lambda>e w. snd (removeCacheEntry io (base e) w)) (take k es) w
                  \<and> (\<forall>j<k. AUDIO_CACHE_MAX_BYTES cfg < (\<Sum>e\<leftarrow>drop j es. int (size_e e)))
                  \<and> (k < length es \<longrightarrow> (\<Sum>e\<leftarrow>drop k es. int (size_e e)) \<le> AUDIO_CACHE_MAX_BYTES cfg)))
            \<and> ((\<forall>(p, f)\<in>set (blobs cfg w). \<not> stat_fails io p \<and> \<not> unlink_fails io p) \<longrightarrow>
                 blob_bytes cfg (snd (enforceCacheSizeLimit cfg io w)) \<le> AUDIO_CACHE_MAX_BYTES cfg))"
proof -
  have a: "fst (enforceCacheSizeLimit cfg io w) = Inr ()"
    unfolding enforceCacheSizeLimit_def Let_def by (simp split: sum.splits)
  have b: "AUDIO_CACHE_MAX_BYTES cfg = 0 \<longrightarrow> snd (enforceCacheSizeLimit cfg io w) = w"
    unfolding enforceCacheSizeLimit_def by simp
  have c: "AUDIO_CACHE_DIR cfg \<notin> set (dirs w) \<longrightarrow> snd (enforceCacheSizeLimit cfg io w) = w"
    unfolding enforceCacheSizeLimit_def fs_readdir_def by simp
  have r: "files (snd (removeCacheEntry io b w))
           = unlinked io (b @ ''.json'') (unlinked io (b @ ''.bin'') (files w))"
    by (rule files_removeCacheEntry)
  have d: "(let es = sort_key mtimeMs (map to_entry (scanned cfg io w))
             in sorted (map mtimeMs es)
              \<and> (\<exists>k\<le>length es.
                    snd (enforceCacheSizeLimit cfg io w)
                      = fold (\<lambda>e w. snd (removeCacheEntry io (base e) w)) (take k es) w
                  \<and> (\<forall>j<k. AUDIO_CACHE_MAX_BYTES cfg < (\<Sum>e\<leftarrow>drop j es. int (size_e e)))
                  \<and> (k < length es \<longrightarrow> (\<Sum>e\<leftarrow>drop k es. int (size_e e)) \<le> AUDIO_CACHE_MAX_BYTES cfg)))
            \<and> ((\<forall>(p, f)\<in>set (blobs cfg w). \<not> stat_fails io p \<and> \<not> unlink_fails io p) \<longrightarrow>
                 blob_bytes cfg (snd (enforceCacheSizeLimit cfg io w)) \<le> AUDIO_CACHE_MAX_BYTES cfg)"
    if h: "AUDIO_CACHE_MAX_BYTES cfg \<noteq> 0" "AUDIO_CACHE_DIR cfg \<in> set (dirs w)"
  proof -
    let ?es = "sort_key mtimeMs (map to_entry (scanned cfg io w))"
    have u: "snd (enforceCacheSizeLimit cfg io w) =
           evict_loop io (AUDIO_CACHE_MAX_BYTES cfg) (\<Sum>e\<leftarrow>?es. int (size_e e)) ?es w"
      using enforce_unfold[OF assms h] .
    have s: "sorted (map mtimeMs ?es)" by simp
    have p: "\<exists>k\<le>length ?es.
                    snd (enforceCacheSizeLimit cfg io w)
                      = fold (\<lambda>e w. snd (removeCacheEntry io (base e) w)) (take k ?es) w
                  \<and> (\<forall>j<k. AUDIO_CACHE_MAX_BYTES cfg < (\<Sum>e\<leftarrow>drop j ?es. int (size_e e)))
                  \<and> (k < length ?es \<longrightarrow> (\<Sum>e\<leftarrow>drop k ?es. int (size_e e)) \<le> AUDIO_CACHE_MAX_BYTES cfg)"
      unfolding u by (rule evict_loop_prefix)
    have q: "blob_bytes cfg (snd (enforceCacheSizeLimit cfg io w)) \<le> AUDIO_CACHE_MAX_BYTES cfg"
      if ok: "\<forall>(p, f)\<in>set (blobs cfg w). \<not> stat_fails io p \<and> \<not> unlink_fails io p"
    proof -
      have sb: "scanned cfg io w = blobs cfg w" using ok by (intro scanned_blobs) auto
      have m: "mset (map to_entry (blobs cfg w)) = mset ?es" unfolding sb by simp
      have d: "distinct (map fst (files w))" using assms by (simp add: wf_world_def)
      have uf: "\<forall>(p, f)\<in>set (blobs cfg w). \<not> unlink_fails io p" using ok by auto
      show ?thesis
        unfolding u using evict_loop_budget[OF d m refl max_bytes_nonneg uf] .
    qed
    show ?thesis unfolding Let_def using s p q by blast
  qed
  show ?thesis using a b c r d by blast
qed

theorem enforceCacheSizeLimit_budget_witness:
  "wf_world w_full
 \<and> blob_bytes cfg_ex (snd (enforceCacheSizeLimit cfg_ex io_ex w_full)) \<le> 1048576
 \<and> snd (enforceCacheSizeLimit cfg_unbounded io_ex w_full) = w_full
 \<and> snd (enforceCacheSizeLimit cfg_ex io_ex w_nodir) = w_nodir"
proof -
  have wf: "wf_world w_full" by (simp add: wf_world_def w_full_def)
  have wn: "wf_world w_nodir" by (simp add: wf_world_def w_nodir_def)
  have b: "AUDIO_CACHE_MAX_BYTES cfg_ex = 1048576"
    by (simp add: AUDIO_CACHE_MAX_BYTES_def cfg_ex_def)
  have d: "AUDIO_CACHE_DIR cfg_ex \<in> set (dirs w_full)" by (simp add: cfg_ex_def w_full_def)
  have z: "AUDIO_CACHE_MAX_BYTES cfg_unbounded = 0"
    by (simp add: AUDIO_CACHE_MAX_BYTES_def cfg_unbounded_def)
  have n: "AUDIO_CACHE_DIR cfg_ex \<notin> set (dirs w_nodir)" by (simp add: w_nodir_def)
  have ok: "\<forall>(p, f)\<in>set (blobs cfg_ex w_full). \<not> stat_fails io_ex p \<and> \<not> unlink_fails io_ex p"
    by (simp add: io_ex_def split_def)
  have "blob_bytes cfg_ex (snd (enforceCacheSizeLimit cfg_ex io_ex w_full)) \<le> 1048576"
    using enforceCacheSizeLimit_budget[OF wf, of cfg_ex io_ex] b d ok by simp
  moreover have "snd (enforceCacheSizeLimit cfg_unbounded io_ex w_full) = w_full"
    using enforceCacheSizeLimit_budget[OF wf, of cfg_unbounded io_ex] z by simp
  moreover have "snd (enforceCacheSizeLimit cfg_ex io_ex w_nodir) = w_nodir"
    using enforceCacheSizeLimit_budget[OF wn, of cfg_ex io_ex] n by simp
  ultimately show ?thesis using wf by simp
qed

text \<open>
  On the example directory the scan removes the old blob with its metadata and keeps
  the newer one.
\<close>

lemma enforceCacheSizeLimit_example:
  "files (snd (enforceCacheSizeLimit cfg_ex io_ex w_full)) =
     [(''/cache/8_320000.bin'', \<lparr>fdata = ''bb'', fmtimeMs = 2000\<rparr>)]"
  by (simp add: enforceCacheSizeLimit_def cfg_ex_def w_full_def AUDIO_CACHE_MAX_BYTES_def
      fs_readdir_def List.map_filter_simps dir_entry_def endsWith_def suffix_Cons path_join_def
      fs_stat_def slice_0_neg_def removeCacheEntry_def fs_unlink_def Promise_allSettled_def Let_def
      io_ex_def)

text \<open>
  The same directory when no unlink succeeds: the scan returns without an error and
  the blobs still hold two bytes more than the budget of 1048576 bytes.
\<close>

theorem budget_exceeded_after_scan:
  "fst (enforceCacheSizeLimit cfg_ex io_stuck w_full) = Inr ()
 \<and> AUDIO_CACHE_MAX_BYTES cfg_ex = 1048576
 \<and> blob_bytes cfg_ex (snd (enforceCacheSizeLimit cfg_ex io_stuck w_full)) = 1048578"
  by (simp add: enforceCacheSizeLimit_def cfg_ex_def w_full_def AUDIO_CACHE_MAX_BYTES_def
      fs_readdir_def List.map_filter_simps dir_entry_def endsWith_def suffix_Cons path_join_def
      fs_stat_def slice_0_neg_def removeCacheEntry_def fs_unlink_def Promise_allSettled_def Let_def
      io_stuck_def io_ex_def blob_bytes_def blobs_def is_blob_def)

subsection \<open>Metadata store, removal and the stream responder\<close>

lemma readCacheMetadata_total: "\<exists>v. readCacheMetadata parse w p = Inr v"
  unfolding readCacheMetadata_def by (auto split: sum.splits option.splits)

lemma streamCachedAudio_world: "snd (streamCachedAudio io res p m h w) = w"
  unfolding streamCachedAudio_def Let_def by (simp add: split_def split: sum.splits)

lemma setHeader_Inr:
  "setHeader k v res = Inr r \<Longrightarrow>
     r = res\<lparr>resHeaders := AList.update k v (resHeaders res)\<rparr>"
  unfolding setHeader_def by (simp split: if_splits)

lemma setHeader_Inl: "setHeader k v res = Inl x \<Longrightarrow> x = (TypeError, res)"
  unfolding setHeader_def by (simp split: if_splits)

lemma setHeader_hit: "setHeader ''X-Cache-Hit'' (JStr (if h then ''1'' else ''0'')) res
    = Inr (res\<lparr>resHeaders := AList.update ''X-Cache-Hit'' (JStr (if h then ''1'' else ''0'')) (resHeaders res)\<rparr>)"
  unfolding setHeader_def checkInvalidHeaderChar_def by simp

text \<open>Setting headers touches nothing but the headers, also when it throws.\<close>

lemma set_cache_headers_fields:
  assumes "set_cache_headers m h res = Inr r \<or> set_cache_headers m h res = Inl (e, r)"
  shows "headersSent r = headersSent res" "statusCode r = statusCode res"
        "payload r = payload res" "destroyed r = destroyed res"
proof -
  have k: "headersSent r = headersSent res \<and> statusCode r = statusCode res
         \<and> payload r = payload res \<and> destroyed r = destroyed res"
    using assms unfolding set_cache_headers_def and_then_def
    by (auto split: sum.splits if_splits dest!: setHeader_Inr setHeader_Inl)
  show "headersSent r = headersSent res" "statusCode r = statusCode res"
        "payload r = payload res" "destroyed r = destroyed res"
    using k by simp_all
qed

lemma hit_header:
  assumes "set_cache_headers m h res = Inr r"
  shows "map_of (resHeaders r) ''X-Cache-Hit'' = Some (JStr (if h then ''1'' else ''0''))"
  using assms unfolding set_cache_headers_def and_then_def setHeader_hit
  by (auto split: sum.splits if_splits simp: update_conv')

lemma set_cache_headers_null:
  "set_cache_headers JNull h fresh_res
     = Inr (fresh_res\<lparr>resHeaders := [(''X-Cache-Hit'', JStr (if h then ''1'' else ''0''))]\<rparr>)"
  unfolding set_cache_headers_def and_then_def js_get_opt_def setHeader_hit
  by (simp add: fresh_res_def)

lemma stream_after_headers:
  assumes "set_cache_headers m h res = Inr res4"
  shows "fst (streamCachedAudio io res p m h w) =
           Inr (let delivered = fst (createReadStream io w p);
                    res5 = (if delivered \<noteq> [] then pipe_write delivered res4 else res4)
                in if snd (createReadStream io w p) then on_read_error res5
                   else pipe_write delivered res5)"
  unfolding streamCachedAudio_def Let_def assms by (simp add: split_def)

lemma stream_throws:
  assumes "set_cache_headers m h res = Inl x"
  shows "streamCachedAudio io res p m h w = (Inl x, w)"
  unfolding streamCachedAudio_def assms by simp

lemma resHeaders_stream:
  assumes "set_cache_headers m h res = Inr res4"
  shows "\<exists>out. fst (streamCachedAudio io res p m h w) = Inr out \<and> resHeaders out = resHeaders res4"
  unfolding stream_after_headers[OF assms] Let_def on_read_error_def pipe_write_def res_json_def
    res_status_def res_destroy_def
  by simp

lemma try_block_valid:
  assumes "valid (getCacheStatus cfg io (fs s)
             (path_join (AUDIO_CACHE_DIR cfg) (cacheKey (params_id req) (query_br req) (query_level req)) @ ''.bin''))"
      and "readCacheMetadata (JSON_parse io) (fs s)
             (path_join (AUDIO_CACHE_DIR cfg) (cacheKey (params_id req) (query_br req) (query_level req)) @ ''.json'') = Inr m"
  shows "try_block cfg io req s =
           (fst (streamCachedAudio io fresh_res
                   (path_join (AUDIO_CACHE_DIR cfg) (cacheKey (params_id req) (query_br req) (query_level req)) @ ''.bin'')
                   m True (fs s)), s)"
  using assms streamCachedAudio_world[of io fresh_res _ m True "fs s"]
  unfolding try_block_def Let_def by (simp add: split_def)

lemma stream_delivers:
  assumes "set_cache_headers m h fresh_res = Inr res4"
      and "map_of (files w) p = Some f" "read_error_at io p = None"
  shows "\<exists>out. fst (streamCachedAudio io fresh_res p m h w) = Inr out
             \<and> payload out = AudioBytes (fdata f) \<and> statusCode out = 200
             \<and> resHeaders out = resHeaders res4"
proof -
  have c: "createReadStream io w p = (fdata f, False)" using assms(2,3) by (simp add: createReadStream_def)
  have st: "statusCode res4 = 200"
    using set_cache_headers_fields(2)[of m h fresh_res res4] assms(1) by (simp add: fresh_res_def)
  show ?thesis
    unfolding stream_after_headers[OF assms(1)] Let_def c using st by (simp add: pipe_write_def)
qed

lemma valid_has_file:
  "valid (getCacheStatus cfg io w p) \<Longrightarrow> \<exists>f. map_of (files w) p = Some f"
  unfolding getCacheStatus_def fs_stat_def by (cases "map_of (files w) p") simp_all

text \<open>
  Claim C8 (cache-layer I/O errors are swallowed). \<open>readCacheMetadata\<close> always
  returns a value, and that value is \<open>null\<close> when the file cannot be read and when its
  content does not parse. \<open>removeCacheEntry\<close> always fulfils, and with both files
  absent it changes nothing. A request for a valid entry whose metadata reads as
  \<open>null\<close> is answered from the cache: the state is untouched (no resolver call, no
  download), the only header set is the hit marker, and with an undisturbed read
  the blob's bytes go out with status 200.
\<close>

theorem cache_io_errors_swallowed:
  "(\<exists>v. readCacheMetadata parse w metaPath = Inr v)
 \<and> (map_of (files w) metaPath = None \<longrightarrow> readCacheMetadata parse w metaPath = Inr JNull)
 \<and> (map_of (files w) metaPath = Some f \<and> parse (fdata f) = None
      \<longrightarrow> readCacheMetadata parse w metaPath = Inr JNull)
 \<and> (\<exists>rs. removeCacheEntry io basePath w = (Inr rs, snd (removeCacheEntry io basePath w)))
 \<and> (map_of (files w) (basePath @ ''.bin'') = None \<and> map_of (files w) (basePath @ ''.json'') = None
      \<longrightarrow> snd (removeCacheEntry io basePath w) = w)
 \<and> (let cacheBasePath = path_join (AUDIO_CACHE_DIR cfg)
                            (cacheKey (params_id req) (query_br req) (query_level req))
     in params_id req \<noteq> []
      \<and> valid (getCacheStatus cfg io (fs s) (cacheBasePath @ ''.bin''))
      \<and> readCacheMetadata (JSON_parse io) (fs s) (cacheBasePath @ ''.json'') = Inr JNull
      \<longrightarrow> snd (handler cfg io req s) = s
        \<and> resHeaders (fst (handler cfg io req s)) = [(''X-Cache-Hit'', JStr ''1'')]
        \<and> (read_error_at io (cacheBasePath @ ''.bin'') = None \<longrightarrow>
             statusCode (fst (handler cfg io req s)) = 200
           \<and> (\<exists>g. map_of (files (fs s)) (cacheBasePath @ ''.bin'') = Some g
                  \<and> payload (fst (handler cfg io req s)) = AudioBytes (fdata g))))"
proof -
  have a: "\<exists>v. readCacheMetadata parse w metaPath = Inr v" by (rule readCacheMetadata_total)
  have b: "map_of (files w) metaPath = None \<longrightarrow> readCacheMetadata parse w metaPath = Inr JNull"
    unfolding readCacheMetadata_def fs_readFile_def by simp
  have c: "map_of (files w) metaPath = Some f \<and> parse (fdata f) = None
      \<longrightarrow> readCacheMetadata parse w metaPath = Inr JNull"
    unfolding readCacheMetadata_def fs_readFile_def by simp
  have d: "\<exists>rs. removeCacheEntry io basePath w = (Inr rs, snd (removeCacheEntry io basePath w))"
    unfolding removeCacheEntry_def Promise_allSettled_def Let_def by (simp add: split_def)
  have e: "map_of (files w) (basePath @ ''.bin'') = None \<and> map_of (files w) (basePath @ ''.json'') = None
      \<longrightarrow> snd (removeCacheEntry io basePath w) = w"
    unfolding removeCacheEntry_def fs_unlink_def Let_def by simp
  let ?b = "path_join (AUDIO_CACHE_DIR cfg) (cacheKey (params_id req) (query_br req) (query_level req))"
  have g: "snd (handler cfg io req s) = s
        \<and> resHeaders (fst (handler cfg io req s)) = [(''X-Cache-Hit'', JStr ''1'')]
        \<and> (read_error_at io (?b @ ''.bin'') = None \<longrightarrow>
             statusCode (fst (handler cfg io req s)) = 200
           \<and> (\<exists>g. map_of (files (fs s)) (?b @ ''.bin'') = Some g
                  \<and> payload (fst (handler cfg io req s)) = AudioBytes (fdata g)))"
    if h: "params_id req \<noteq> []" "valid (getCacheStatus cfg io (fs s) (?b @ ''.bin''))"
          "readCacheMetadata (JSON_parse io) (fs s) (?b @ ''.json'') = Inr JNull"
  proof -
    note sh = set_cache_headers_null[of True]
    obtain out where out: "fst (streamCachedAudio io fresh_res (?b @ ''.bin'') JNull True (fs s)) = Inr out"
        "resHeaders out = [(''X-Cache-Hit'', JStr ''1'')]"
      using resHeaders_stream[OF sh, of io "?b @ ''.bin''" "fs s"] by auto
    have hd: "handler cfg io req s = (out, s)"
      unfolding handler_def try_block_valid[OF h(2,3)] out(1) using h(1) by simp
    obtain g where g: "map_of (files (fs s)) (?b @ ''.bin'') = Some g" using valid_has_file[OF h(2)] by blast
    have "statusCode out = 200 \<and> payload out = AudioBytes (fdata g)"
      if "read_error_at io (?b @ ''.bin'') = None"
      using stream_delivers[OF sh g that] out(1) by auto
    then show ?thesis
      unfolding hd using g out(2) by auto
  qed
  show ?thesis unfolding Let_def using a b c d e g by blast
qed

theorem cache_io_errors_swallowed_witness:
  "readCacheMetadata (JSON_parse io_ex) w_full ''/cache/8_320000.json'' = Inr JNull
 \<and> readCacheMetadata (JSON_parse io_ex) w_full ''/cache/7_default.json'' = Inr JNull
 \<and> snd (removeCacheEntry io_ex ''/cache/9_default'' w_full) = w_full
 \<and> snd (handler cfg_ex io_ex (req_ex ''8'' (JStr ''320000'')) (server_of w_full)) = server_of w_full
 \<and> resHeaders (fst (handler cfg_ex io_ex (req_ex ''8'' (JStr ''320000'')) (server_of w_full)))
      = [(''X-Cache-Hit'', JStr ''1'')]
 \<and> payload (fst (handler cfg_ex io_ex (req_ex ''8'' (JStr ''320000'')) (server_of w_full)))
      = AudioBytes ''bb''"
proof -
  let ?req = "req_ex ''8'' (JStr ''320000'')"
  have k: "path_join (AUDIO_CACHE_DIR cfg_ex) (cacheKey (params_id ?req) (query_br ?req) (query_level ?req))
             = ''/cache/8_320000''"
    by (simp add: path_join_def cfg_ex_def cacheKey_def req_ex_def bitrate_of_def js_or_def)
  have m1: "map_of (files w_full) ''/cache/8_320000.json'' = None" by (simp add: w_full_def)
  have m2: "map_of (files w_full) ''/cache/7_default.json'' = Some \<lparr>fdata = ''{}'', fmtimeMs = 1000\<rparr>
          \<and> JSON_parse io_ex (fdata \<lparr>fdata = ''{}'', fmtimeMs = 1000\<rparr>) = None"
    by (simp add: w_full_def io_ex_def)
  have m3: "map_of (files w_full) (''/cache/9_default'' @ ''.bin'') = None
          \<and> map_of (files w_full) (''/cache/9_default'' @ ''.json'') = None"
    by (simp add: w_full_def)
  have r1: "readCacheMetadata (JSON_parse io_ex) w_full ''/cache/8_320000.json'' = Inr JNull"
    using cache_io_errors_swallowed[of "JSON_parse io_ex" w_full "''/cache/8_320000.json''"] m1 by blast
  have r2: "readCacheMetadata (JSON_parse io_ex) w_full ''/cache/7_default.json'' = Inr JNull"
    using cache_io_errors_swallowed[of "JSON_parse io_ex" w_full "''/cache/7_default.json''"
            "\<lparr>fdata = ''{}'', fmtimeMs = 1000\<rparr>"] m2 by blast
  have r3: "snd (removeCacheEntry io_ex ''/cache/9_default'' w_full) = w_full"
    using cache_io_errors_swallowed[where w=w_full and io=io_ex and basePath="''/cache/9_default''"] m3 by blast
  have h1: "params_id ?req \<noteq> []" by (simp add: req_ex_def)
  have h2: "valid (getCacheStatus cfg_ex io_ex (fs (server_of w_full)) (''/cache/8_320000'' @ ''.bin''))"
    by (simp add: getCacheStatus_def fs_stat_def server_of_def w_full_def io_ex_def cfg_ex_def
        AUDIO_CACHE_TTL_MS_def)
  have h3: "readCacheMetadata (JSON_parse io_ex) (fs (server_of w_full)) (''/cache/8_320000'' @ ''.json'') = Inr JNull"
    using r1 by (simp add: server_of_def)
  have h4: "read_error_at io_ex (''/cache/8_320000'' @ ''.bin'') = None" by (simp add: io_ex_def)
  have g: "map_of (files (fs (server_of w_full))) (''/cache/8_320000'' @ ''.bin'')
             = Some \<lparr>fdata = ''bb'', fmtimeMs = 2000\<rparr>"
    by (simp add: server_of_def w_full_def)
  from cache_io_errors_swallowed[where cfg=cfg_ex and req="?req" and io=io_ex and s="server_of w_full"]
  have "snd (handler cfg_ex io_ex ?req (server_of w_full)) = server_of w_full
      \<and> resHeaders (fst (handler cfg_ex io_ex ?req (server_of w_full))) = [(''X-Cache-Hit'', JStr ''1'')]
      \<and> (\<exists>g. map_of (files (fs (server_of w_full))) (''/cache/8_320000'' @ ''.bin'') = Some g
              \<and> payload (fst (handler cfg_ex io_ex ?req (server_of w_full))) = AudioBytes (fdata g))"
    unfolding Let_def k using h1 h2 h3 h4 by blast
  then show ?thesis using r1 r2 r3 g by auto
qed

text \<open>
  Claim C7 (a streaming failure stays with its response). \<open>streamCachedAudio\<close>
  returns the world it was given: it unlinks, writes and renames nothing. Its error
  listener answers status 500 with the body \<open>{code: 500, msg: 'Cache read error'}\<close>
  when the headers have not been sent, and otherwise destroys the connection and
  leaves status and headers alone. So when the read stream fails, the response is
  the 500 if nothing had been sent (no byte delivered, headers unsent on entry), and
  is destroyed, with the status and the headers set before streaming, if something
  had. The read stream is opened once the headers are set; a header that cannot be
  set ends the function before that.
\<close>

theorem stream_error_isolation:
  "snd (streamCachedAudio io res cachePath metadata cacheHit w) = w
 \<and> (\<not> headersSent r \<longrightarrow>
       on_read_error r = r\<lparr>statusCode := 500,
                           payload := JsonBody (JObj [(''code'', JNum 500), (''msg'', JStr ''Cache read error'')]),
                           headersSent := True\<rparr>)
 \<and> (headersSent r \<longrightarrow> on_read_error r = r\<lparr>destroyed := True\<rparr>)
 \<and> (snd (createReadStream io w cachePath) \<and> set_cache_headers metadata cacheHit res = Inr res4 \<longrightarrow>
      (\<exists>out. fst (streamCachedAudio io res cachePath metadata cacheHit w) = Inr out
         \<and> (let delivered = fst (createReadStream io w cachePath)
            in (\<not> headersSent res \<and> delivered = [] \<longrightarrow>
                  statusCode out = 500
                \<and> payload out = JsonBody (JObj [(''code'', JNum 500), (''msg'', JStr ''Cache read error'')])
                \<and> destroyed out = destroyed res)
             \<and> (headersSent res \<or> delivered \<noteq> [] \<longrightarrow>
                  destroyed out
                \<and> statusCode out = statusCode res
                \<and> resHeaders out = resHeaders res4
                \<and> payload out = (if delivered \<noteq> [] then AudioBytes delivered else payload res)))))
 \<and> (set_cache_headers metadata cacheHit res = Inl x \<longrightarrow>
      streamCachedAudio io res cachePath metadata cacheHit w = (Inl x, w))"
proof -
  have a: "snd (streamCachedAudio io res cachePath metadata cacheHit w) = w"
    by (rule streamCachedAudio_world)
  have b: "\<not> headersSent r \<longrightarrow>
       on_read_error r = r\<lparr>statusCode := 500,
                           payload := JsonBody (JObj [(''code'', JNum 500), (''msg'', JStr ''Cache read error'')]),
                           headersSent := True\<rparr>"
    unfolding on_read_error_def res_json_def res_status_def by simp
  have c: "headersSent r \<longrightarrow> on_read_error r = r\<lparr>destroyed := True\<rparr>"
    unfolding on_read_error_def res_destroy_def by simp
  obtain d e where cr: "createReadStream io w cachePath = (d, e)" by (cases "createReadStream io w cachePath")
  have d: "\<exists>out. fst (streamCachedAudio io res cachePath metadata cacheHit w) = Inr out
         \<and> (let delivered = fst (createReadStream io w cachePath)
            in (\<not> headersSent res \<and> delivered = [] \<longrightarrow>
                  statusCode out = 500
                \<and> payload out = JsonBody (JObj [(''code'', JNum 500), (''msg'', JStr ''Cache read error'')])
                \<and> destroyed out = destroyed res)
             \<and> (headersSent res \<or> delivered \<noteq> [] \<longrightarrow>
                  destroyed out
                \<and> statusCode out = statusCode res
                \<and> resHeaders out = resHeaders res4
                \<and> payload out = (if delivered \<noteq> [] then AudioBytes delivered else payload res)))"
    if h: "snd (createReadStream io w cachePath)" "set_cache_headers metadata cacheHit res = Inr res4"
  proof -
    note f = set_cache_headers_fields[of metadata cacheHit res res4, OF disjI1[OF h(2)]]
    have e: "e" using h(1) cr by simp
    show ?thesis
      unfolding stream_after_headers[OF h(2)] Let_def cr using e
      by (simp add: on_read_error_def pipe_write_def res_json_def res_status_def res_destroy_def f)
  qed
  have t: "set_cache_headers metadata cacheHit res = Inl x \<longrightarrow>
      streamCachedAudio io res cachePath metadata cacheHit w = (Inl x, w)"
    using stream_throws by blast
  show ?thesis using a b c d t by blast
qed

theorem stream_error_isolation_witness:
  "statusCode (projr (fst (streamCachedAudio io_ex fresh_res ''/cache/9_default.bin'' JNull False w_full))) = 500
 \<and> payload (projr (fst (streamCachedAudio io_ex fresh_res ''/cache/9_default.bin'' JNull False w_full)))
     = JsonBody (JObj [(''code'', JNum 500), (''msg'', JStr ''Cache read error'')])
 \<and> destroyed (projr (fst (streamCachedAudio (io_ex\<lparr>read_error_at := (\<lambda>p. Some 1)\<rparr>) fresh_res
                      ''/cache/8_320000.bin'' JNull True w_full)))
 \<and> statusCode (projr (fst (streamCachedAudio (io_ex\<lparr>read_error_at := (\<lambda>p. Some 1)\<rparr>) fresh_res
                      ''/cache/8_320000.bin'' JNull True w_full))) = 200
 \<and> snd (streamCachedAudio (io_ex\<lparr>read_error_at := (\<lambda>p. Some 1)\<rparr>) fresh_res
                      ''/cache/8_320000.bin'' JNull True w_full) = w_full
 \<and> isl (fst (streamCachedAudio io_badmeta fresh_res ''/cache/8_320000.bin'' meta_bad True w_full))"
proof -
  let ?io = "io_ex\<lparr>read_error_at := (\<lambda>p. Some 1)\<rparr>"
  have c1: "createReadStream io_ex w_full ''/cache/9_default.bin'' = ([], True)"
    by (simp add: createReadStream_def w_full_def)
  have c2: "createReadStream ?io w_full ''/cache/8_320000.bin'' = (''b'', True)"
    by (simp add: createReadStream_def w_full_def)
  have f: "\<not> headersSent fresh_res" "statusCode fresh_res = 200" by (simp_all add: fresh_res_def)
  from stream_error_isolation[where io=io_ex and res=fresh_res and cachePath="''/cache/9_default.bin''"
         and metadata=JNull and cacheHit=False and w=w_full and r=fresh_res
         and ?res4.0="fresh_res\<lparr>resHeaders := [(''X-Cache-Hit'', JStr ''0'')]\<rparr>"]
    set_cache_headers_null[of False]
  have a: "statusCode (projr (fst (streamCachedAudio io_ex fresh_res ''/cache/9_default.bin'' JNull False w_full))) = 500
     \<and> payload (projr (fst (streamCachedAudio io_ex fresh_res ''/cache/9_default.bin'' JNull False w_full)))
         = JsonBody (JObj [(''code'', JNum 500), (''msg'', JStr ''Cache read error'')])"
    unfolding Let_def c1 using f by auto
  from stream_error_isolation[where io="?io" and res=fresh_res and cachePath="''/cache/8_320000.bin''"
         and metadata=JNull and cacheHit=True and w=w_full and r=fresh_res
         and ?res4.0="fresh_res\<lparr>resHeaders := [(''X-Cache-Hit'', JStr ''1'')]\<rparr>"]
    set_cache_headers_null[of True]
  have b: "destroyed (projr (fst (streamCachedAudio ?io fresh_res ''/cache/8_320000.bin'' JNull True w_full)))
     \<and> statusCode (projr (fst (streamCachedAudio ?io fresh_res ''/cache/8_320000.bin'' JNull True w_full))) = 200
     \<and> snd (streamCachedAudio ?io fresh_res ''/cache/8_320000.bin'' JNull True w_full) = w_full"
    unfolding Let_def c2 using f by auto
  have bad: "set_cache_headers meta_bad True fresh_res = Inl (TypeError, fresh_res)"
    by (simp add: set_cache_headers_def and_then_def meta_bad_def js_get_opt_def setHeader_def
        checkInvalidHeaderChar_def)
  have c: "isl (fst (streamCachedAudio io_badmeta fresh_res ''/cache/8_320000.bin'' meta_bad True w_full))"
    using stream_error_isolation[where io=io_badmeta and res=fresh_res and cachePath="''/cache/8_320000.bin''"
            and metadata=meta_bad and cacheHit=True and w=w_full and x="(TypeError, fresh_res)"] bad by simp
  show ?thesis using a b c by simp
qed

subsection \<open>The in-flight registry\<close>

lemma call_registered:
  "inflightDownloads s b = Some p \<Longrightarrow> downloadAndCacheAudio b url opts s = (p, s)"
  unfolding downloadAndCacheAudio_def by simp

lemma call_fresh:
  "inflightDownloads s b = None \<Longrightarrow>
   downloadAndCacheAudio b url opts s =
     (next_promise s,
      s\<lparr>promises := (promises s)(next_promise s \<mapsto> Pending \<lparr>task_base = b, task_url = url, task_options = opts\<rparr>),
        next_promise := Suc (next_promise s),
        inflightDownloads := (inflightDownloads s)(b \<mapsto> next_promise s)\<rparr>)"
  unfolding downloadAndCacheAudio_def Let_def by simp

lemma settle_pending:
  assumes "promises s p = Some (Pending t)"
  shows "settle cfg io p s =
     s\<lparr>fs := snd (download_body cfg io (task_base t) (task_url t) (task_options t) (fs s)),
       promises := (promises s)(p \<mapsto>
          (case fst (download_body cfg io (task_base t) (task_url t) (task_options t) (fs s)) of
             Inl e \<Rightarrow> Rejected e | Inr path \<Rightarrow> Fulfilled path)),
       inflightDownloads := (inflightDownloads s)(task_base t := None)\<rparr>"
  using assms unfolding settle_def Let_def by (simp add: split_def)

lemma registry_ok_call:
  assumes "registry_ok s"
  shows "registry_ok (snd (downloadAndCacheAudio b url opts s))"
proof (cases "inflightDownloads s b")
  case (Some p)
  then show ?thesis using assms by (simp add: call_registered)
next
  case None
  let ?n = "next_promise s"
  let ?T = "\<lparr>task_base = b, task_url = url, task_options = opts\<rparr>"
  from assms have inv: "\<And>b p. inflightDownloads s b = Some p
               \<longleftrightarrow> (\<exists>t. promises s p = Some (Pending t) \<and> task_base t = b)"
    and unused: "\<And>p. ?n \<le> p \<Longrightarrow> promises s p = None"
    unfolding registry_ok_def by blast+
  have fresh: "promises s ?n = None" using unused by simp
  have unreg: "inflightDownloads s b' \<noteq> Some ?n" for b'
  proof
    assume "inflightDownloads s b' = Some ?n"
    then obtain t where "promises s ?n = Some (Pending t)" using inv by blast
    with fresh show False by simp
  qed
  have nob: "task_base t \<noteq> b" if "promises s p = Some (Pending t)" for p t
  proof
    assume "task_base t = b"
    with that have "inflightDownloads s b = Some p" using inv by blast
    with None show False by simp
  qed
  have one: "((inflightDownloads s)(b \<mapsto> ?n)) b' = Some p'
       \<longleftrightarrow> (\<exists>t. ((promises s)(?n \<mapsto> Pending ?T)) p' = Some (Pending t) \<and> task_base t = b')" for b' p'
  proof (cases "b' = b")
    case True
    show ?thesis
    proof (cases "p' = ?n")
      case True
      with \<open>b' = b\<close> show ?thesis by simp
    next
      case False
      with \<open>b' = b\<close> nob[of p'] show ?thesis by auto
    qed
  next
    case False
    show ?thesis
    proof (cases "p' = ?n")
      case True
      with \<open>b' \<noteq> b\<close> unreg[of b'] show ?thesis by auto
    next
      case False
      with \<open>b' \<noteq> b\<close> inv[of b' p'] show ?thesis by simp
    qed
  qed
  have two: "((promises s)(?n \<mapsto> Pending ?T)) p = None" if "Suc ?n \<le> p" for p
    using that unused[of p] by simp
  show ?thesis
    unfolding call_fresh[OF None] registry_ok_def using one two by simp
qed

lemma registry_ok_settle:
  assumes "registry_ok s"
  shows "registry_ok (settle cfg io p s)"
proof (cases "\<exists>t. promises s p = Some (Pending t)")
  case False
  then have "settle cfg io p s = s" unfolding settle_def by (auto split: option.splits promise.splits)
  then show ?thesis using assms by simp
next
  case True
  then obtain t where t: "promises s p = Some (Pending t)" by blast
  from assms have inv: "\<And>b p. inflightDownloads s b = Some p
               \<longleftrightarrow> (\<exists>t. promises s p = Some (Pending t) \<and> task_base t = b)"
    and unused: "\<And>p. next_promise s \<le> p \<Longrightarrow> promises s p = None"
    unfolding registry_ok_def by blast+
  let ?o = "case fst (download_body cfg io (task_base t) (task_url t) (task_options t) (fs s)) of
             Inl e \<Rightarrow> Rejected e | Inr path \<Rightarrow> Fulfilled path"
  have notp: "?o \<noteq> Pending t'" for t' by (simp split: sum.splits)
  have uniq: "b = task_base t" if "inflightDownloads s b = Some p" for b
  proof -
    from that obtain t' where "promises s p = Some (Pending t')" "task_base t' = b" using inv by blast
    with t show ?thesis by simp
  qed
  have one: "((inflightDownloads s)(task_base t := None)) b' = Some p'
       \<longleftrightarrow> (\<exists>t'. ((promises s)(p \<mapsto> ?o)) p' = Some (Pending t') \<and> task_base t' = b')" for b' p'
  proof (cases "p' = p")
    case True
    have "((inflightDownloads s)(task_base t := None)) b' \<noteq> Some p"
      using uniq[of b'] by (cases "b' = task_base t") auto
    with True notp show ?thesis by simp
  next
    case False
    have "inflightDownloads s (task_base t) = Some p" using inv t by blast
    then have "inflightDownloads s (task_base t) \<noteq> Some p'" using False by simp
    then show ?thesis using False inv[of b' p'] by (cases "b' = task_base t") auto
  qed
  have two: "((promises s)(p \<mapsto> ?o)) q = None" if "next_promise s \<le> q" for q
  proof -
    have "q \<noteq> p" using unused[OF that] t by auto
    then show ?thesis using unused[OF that] by simp
  qed
  show ?thesis
    unfolding settle_pending[OF t] registry_ok_def using one two by simp
qed

lemma registry_ok_init:
  "registry_ok \<lparr>fs = w, inflightDownloads = Map.empty, promises = Map.empty, next_promise = 0\<rparr>"
  unfolding registry_ok_def by simp

text \<open>While a path is registered, any number of further calls for it change nothing.\<close>

lemma calls_share:
  assumes "inflightDownloads s b = Some p"
  shows "fold (\<lambda>(url, opts) s. snd (downloadAndCacheAudio b url opts s)) calls s = s"
    and "\<forall>(url, opts)\<in>set calls. fst (downloadAndCacheAudio b url opts s) = p"
proof -
  show "fold (\<lambda>(url, opts) s. snd (downloadAndCacheAudio b url opts s)) calls s = s"
    by (induction calls) (simp_all add: call_registered[OF assms] split_def)
  show "\<forall>(url, opts)\<in>set calls. fst (downloadAndCacheAudio b url opts s) = p"
    by (simp add: call_registered[OF assms] split_def)
qed

text \<open>
  Claim C1 (single flight). A call of \<open>downloadAndCacheAudio\<close> for a path that the
  registry maps to a promise returns that promise and changes nothing: no promise is
  created, nothing is registered, no download starts. A call for an unregistered path
  creates one pending promise for that download and registers the path to it. When a
  pending promise settles, fulfilled or rejected as the download body ends, its path
  is no longer registered, so the next call for that path creates and registers a new
  pending promise, a promise other than the settled one in every state where registry
  and promises agree.
\<close>

theorem single_flight:
  "(inflightDownloads s b = Some p \<longrightarrow> downloadAndCacheAudio b url opts s = (p, s))
 \<and> (inflightDownloads s b = None \<longrightarrow>
      downloadAndCacheAudio b url opts s =
        (next_promise s,
         s\<lparr>promises := (promises s)(next_promise s \<mapsto>
                          Pending \<lparr>task_base = b, task_url = url, task_options = opts\<rparr>),
           next_promise := Suc (next_promise s),
           inflightDownloads := (inflightDownloads s)(b \<mapsto> next_promise s)\<rparr>))
 \<and> (promises s q = Some (Pending t) \<longrightarrow>
      inflightDownloads (settle cfg io q s) (task_base t) = None
    \<and> promises (settle cfg io q s) q =
        Some (case fst (download_body cfg io (task_base t) (task_url t) (task_options t) (fs s)) of
                Inl e \<Rightarrow> Rejected e | Inr path \<Rightarrow> Fulfilled path)
    \<and> fst (downloadAndCacheAudio (task_base t) url opts (settle cfg io q s)) = next_promise s
    \<and> promises (snd (downloadAndCacheAudio (task_base t) url opts (settle cfg io q s))) (next_promise s)
        = Some (Pending \<lparr>task_base = task_base t, task_url = url, task_options = opts\<rparr>)
    \<and> (registry_ok s \<longrightarrow> next_promise s \<noteq> q))"
proof (intro conjI impI)
  assume "inflightDownloads s b = Some p"
  then show "downloadAndCacheAudio b url opts s = (p, s)" by (rule call_registered)
next
  assume "inflightDownloads s b = None"
  then show "downloadAndCacheAudio b url opts s =
        (next_promise s,
         s\<lparr>promises := (promises s)(next_promise s \<mapsto>
                          Pending \<lparr>task_base = b, task_url = url, task_options = opts\<rparr>),
           next_promise := Suc (next_promise s),
           inflightDownloads := (inflightDownloads s)(b \<mapsto> next_promise s)\<rparr>)" by (rule call_fresh)
next
  assume t: "promises s q = Some (Pending t)"
  show n: "inflightDownloads (settle cfg io q s) (task_base t) = None"
    unfolding settle_pending[OF t] by simp
  show "promises (settle cfg io q s) q =
        Some (case fst (download_body cfg io (task_base t) (task_url t) (task_options t) (fs s)) of
                Inl e \<Rightarrow> Rejected e | Inr path \<Rightarrow> Fulfilled path)"
    unfolding settle_pending[OF t] by simp
  have np: "next_promise (settle cfg io q s) = next_promise s" unfolding settle_pending[OF t] by simp
  show "fst (downloadAndCacheAudio (task_base t) url opts (settle cfg io q s)) = next_promise s"
    unfolding call_fresh[OF n] np by simp
  show "promises (snd (downloadAndCacheAudio (task_base t) url opts (settle cfg io q s))) (next_promise s)
        = Some (Pending \<lparr>task_base = task_base t, task_url = url, task_options = opts\<rparr>)"
    unfolding call_fresh[OF n] np by simp
  show "next_promise s \<noteq> q" if "registry_ok s"
    using that t unfolding registry_ok_def by auto
qed

theorem single_flight_witness:
  "downloadAndCacheAudio ''/cache/8_default'' (JStr ''u'') \<lparr>opt_headers = [], opt_metadata = []\<rparr>
     (snd (downloadAndCacheAudio ''/cache/8_default'' (JStr ''u'') \<lparr>opt_headers = [], opt_metadata = []\<rparr>
            (server_of w_nodir)))
   = downloadAndCacheAudio ''/cache/8_default'' (JStr ''u'') \<lparr>opt_headers = [], opt_metadata = []\<rparr>
       (server_of w_nodir)
 \<and> inflightDownloads
      (settle cfg_ex io_ex 0
        (snd (downloadAndCacheAudio ''/cache/8_default'' (JStr ''u'') \<lparr>opt_headers = [], opt_metadata = []\<rparr>
               (server_of w_nodir)))) ''/cache/8_default'' = None
 \<and> registry_ok (snd (downloadAndCacheAudio ''/cache/8_default'' (JStr ''u'')
                        \<lparr>opt_headers = [], opt_metadata = []\<rparr> (server_of w_nodir)))
 \<and> fst (downloadAndCacheAudio ''/cache/8_default'' (JStr ''u'') \<lparr>opt_headers = [], opt_metadata = []\<rparr>
      (settle cfg_ex io_ex 0
        (snd (downloadAndCacheAudio ''/cache/8_default'' (JStr ''u'') \<lparr>opt_headers = [], opt_metadata = []\<rparr>
               (server_of w_nodir))))) = 1"
proof -
  let ?o = "\<lparr>opt_headers = [], opt_metadata = []\<rparr>"
  let ?s0 = "server_of w_nodir"
  define s1 where "s1 = ?s0\<lparr>promises := (promises ?s0)(next_promise ?s0 \<mapsto>
                          Pending \<lparr>task_base = ''/cache/8_default'', task_url = JStr ''u'', task_options = ?o\<rparr>),
           next_promise := Suc (next_promise ?s0),
           inflightDownloads := (inflightDownloads ?s0)(''/cache/8_default'' \<mapsto> next_promise ?s0)\<rparr>"
  have n: "inflightDownloads ?s0 ''/cache/8_default'' = None" by (simp add: server_of_def)
  have c1: "downloadAndCacheAudio ''/cache/8_default'' (JStr ''u'') ?o ?s0 = (next_promise ?s0, s1)"
    using single_flight[of ?s0 "''/cache/8_default''" _ "JStr ''u''" ?o] n unfolding s1_def by blast
  have z: "next_promise ?s0 = 0" by (simp add: server_of_def)
  have r: "inflightDownloads s1 ''/cache/8_default'' = Some 0" unfolding s1_def by (simp add: server_of_def)
  have c2: "downloadAndCacheAudio ''/cache/8_default'' (JStr ''u'') ?o s1 = (0, s1)"
    using single_flight[of s1 "''/cache/8_default''" 0 "JStr ''u''" ?o] r by blast
  have p: "promises s1 0 = Some (Pending \<lparr>task_base = ''/cache/8_default'', task_url = JStr ''u'', task_options = ?o\<rparr>)"
    unfolding s1_def by (simp add: server_of_def)
  have c3: "inflightDownloads (settle cfg_ex io_ex 0 s1) ''/cache/8_default'' = None"
    using single_flight[of s1 _ _ _ _ 0 "\<lparr>task_base = ''/cache/8_default'', task_url = JStr ''u'', task_options = ?o\<rparr>" cfg_ex io_ex] p
    by simp
  have ok: "registry_ok s1"
    using registry_ok_call[OF registry_ok_init[of w_nodir], of "''/cache/8_default''" "JStr ''u''" ?o] c1
    by (simp add: server_of_def)
  have n1: "next_promise s1 = 1" unfolding s1_def by (simp add: server_of_def)
  have c4: "fst (downloadAndCacheAudio ''/cache/8_default'' (JStr ''u'') ?o (settle cfg_ex io_ex 0 s1)) = 1
          \<and> next_promise s1 \<noteq> 0"
    using single_flight[of s1 _ _ "JStr ''u''" ?o 0 "\<lparr>task_base = ''/cache/8_default'', task_url = JStr ''u'', task_options = ?o\<rparr>" cfg_ex io_ex] p ok n1
    by simp
  show ?thesis using c1 c2 c3 c4 ok z by simp
qed

subsection \<open>The download\<close>

lemma log_fs_unlink: "\<exists>us. log (snd (fs_unlink io p w)) = log w @ us \<and> (\<forall>u\<in>set us. is_unlink u)"
  unfolding fs_unlink_def by (cases "map_of (files w) p") (simp_all add: is_unlink_def)

lemma dirs_fs_unlink: "dirs (snd (fs_unlink io p w)) = dirs w"
  unfolding fs_unlink_def by (cases "map_of (files w) p") simp_all

lemma log_removeCacheEntry:
  "\<exists>us. log (snd (removeCacheEntry io b w)) = log w @ us \<and> (\<forall>u\<in>set us. is_unlink u)"
proof -
  obtain u1 where u1: "log (snd (fs_unlink io (b @ ''.bin'') w)) = log w @ u1" "\<forall>u\<in>set u1. is_unlink u"
    using log_fs_unlink by blast
  obtain u2 where u2: "log (snd (fs_unlink io (b @ ''.json'') (snd (fs_unlink io (b @ ''.bin'') w))))
      = log (snd (fs_unlink io (b @ ''.bin'') w)) @ u2" "\<forall>u\<in>set u2. is_unlink u"
    using log_fs_unlink by blast
  show ?thesis unfolding snd_removeCacheEntry using u1 u2 by (intro exI[of _ "u1 @ u2"]) auto
qed

lemma log_evict_loop:
  "\<exists>us. log (evict_loop io budget t es w) = log w @ us \<and> (\<forall>u\<in>set us. is_unlink u)"
proof (induction es arbitrary: w t)
  case Nil
  then show ?case by simp
next
  case (Cons e es)
  show ?case
  proof (cases "t > budget")
    case True
    obtain u1 where u1: "log (snd (removeCacheEntry io (base e) w)) = log w @ u1" "\<forall>u\<in>set u1. is_unlink u"
      using log_removeCacheEntry by blast
    obtain u2 where u2: "log (evict_loop io budget (t - int (size_e e)) es (snd (removeCacheEntry io (base e) w)))
        = log (snd (removeCacheEntry io (base e) w)) @ u2" "\<forall>u\<in>set u2. is_unlink u"
      using Cons.IH by blast
    show ?thesis using True u1 u2 by (intro exI[of _ "u1 @ u2"]) auto
  next
    case False
    then show ?thesis by simp
  qed
qed

lemma log_enforce:
  "\<exists>us. log (snd (enforceCacheSizeLimit cfg io w)) = log w @ us \<and> (\<forall>u\<in>set us. is_unlink u)"
  unfolding enforceCacheSizeLimit_def Let_def
  using log_evict_loop by (auto split: sum.splits)

lemma fst_enforce: "fst (enforceCacheSizeLimit cfg io w) = Inr ()"
  unfolding enforceCacheSizeLimit_def Let_def by (simp split: sum.splits)

lemma enforce_pair: "enforceCacheSizeLimit cfg io w = (Inr (), snd (enforceCacheSizeLimit cfg io w))"
  using fst_enforce[of cfg io w] by (cases "enforceCacheSizeLimit cfg io w") simp

lemma await_enforce:
  "await_then (enforceCacheSizeLimit cfg io) f = (\<lambda>w. f () (snd (enforceCacheSizeLimit cfg io w)))"
proof
  fix w show "await_then (enforceCacheSizeLimit cfg io) f w = f () (snd (enforceCacheSizeLimit cfg io w))"
    unfolding await_then_def by (subst enforce_pair) simp
qed

text \<open>The download body, one equation for each way through it.\<close>

lemma body_mkdir_fails:
  "mkdir_fails io \<Longrightarrow> download_body cfg io b url opts w = (Inl (EIO (AUDIO_CACHE_DIR cfg)), w)"
  unfolding download_body_def await_then_def ensureCacheDir_def by simp

lemma body_get_fails:
  "\<not> mkdir_fails io \<Longrightarrow> axios_get io url (opt_headers opts) = Inl e \<Longrightarrow>
   download_body cfg io b url opts w = (Inl e, after_get cfg url w)"
  unfolding download_body_def await_then_def ensureCacheDir_def http_get_def after_get_def after_mkdir_def Let_def
  by simp

lemma body_open_fails:
  "\<not> mkdir_fails io \<Longrightarrow> axios_get io url (opt_headers opts) = Inr resp \<Longrightarrow> pipeline_outcome io = OpenFailed \<Longrightarrow>
   download_body cfg io b url opts w = (Inl (EIO (b @ ''.tmp'')), after_get cfg url w)"
  unfolding download_body_def await_then_def ensureCacheDir_def http_get_def after_get_def after_mkdir_def Let_def
    pipeline_to_def
  by simp

lemma body_pipe_breaks:
  "\<not> mkdir_fails io \<Longrightarrow> axios_get io url (opt_headers opts) = Inr resp \<Longrightarrow> pipeline_outcome io = PipeBroken n \<Longrightarrow>
   download_body cfg io b url opts w = (Inl (EIO (b @ ''.tmp'')), after_pipe cfg io b url (take n (resp_data resp)) w)"
  unfolding download_body_def await_then_def ensureCacheDir_def http_get_def after_pipe_def after_mkdir_def Let_def
    pipeline_to_def
  by simp

lemma body_rename_fails:
  "\<not> mkdir_fails io \<Longrightarrow> axios_get io url (opt_headers opts) = Inr resp \<Longrightarrow> pipeline_outcome io = PipeDone \<Longrightarrow>
   rename_fails io \<Longrightarrow>
   download_body cfg io b url opts w = (Inl (EIO (b @ ''.tmp'')), after_pipe cfg io b url (resp_data resp) w)"
  unfolding download_body_def await_then_def ensureCacheDir_def http_get_def after_pipe_def after_mkdir_def Let_def
    pipeline_to_def fs_rename_def
  by (simp add: update_conv')

lemma body_meta_fails:
  "\<not> mkdir_fails io \<Longrightarrow> axios_get io url (opt_headers opts) = Inr resp \<Longrightarrow> pipeline_outcome io = PipeDone \<Longrightarrow>
   \<not> rename_fails io \<Longrightarrow> writeFile_fails io \<Longrightarrow>
   download_body cfg io b url opts w = (Inl (EIO (b @ ''.json'')), after_rename cfg io b url (resp_data resp) w)"
  unfolding download_body_def await_then_def ensureCacheDir_def http_get_def after_rename_def after_mkdir_def Let_def
    pipeline_to_def fs_rename_def writeCacheMetadata_def
  by (simp add: update_conv')

lemma body_succeeds:
  "\<not> mkdir_fails io \<Longrightarrow> axios_get io url (opt_headers opts) = Inr resp \<Longrightarrow> pipeline_outcome io = PipeDone \<Longrightarrow>
   \<not> rename_fails io \<Longrightarrow> \<not> writeFile_fails io \<Longrightarrow>
   download_body cfg io b url opts w = (Inr (b @ ''.bin''), snd (enforceCacheSizeLimit cfg io (after_meta cfg io b url opts resp w)))"
  unfolding download_body_def await_enforce
  unfolding await_then_def ensureCacheDir_def http_get_def after_rename_def after_mkdir_def Let_def
    pipeline_to_def fs_rename_def writeCacheMetadata_def after_meta_def cache_metadata_def
  by (simp add: update_conv')

lemma log_after_meta:
  "log (after_meta cfg io b url opts resp w) =
     log w @ [EvMkdir (AUDIO_CACHE_DIR cfg), EvHttpGet url, EvWriteStream (b @ ''.tmp'') (resp_data resp),
              EvRename (b @ ''.tmp'') (b @ ''.bin''),
              EvWriteFile (b @ ''.json'') (JSON_stringify io (cache_metadata io url opts resp))]"
  unfolding after_meta_def after_rename_def after_mkdir_def by simp

lemma download_body_trace:
  fixes cfg io b url opts w
  defines "w' \<equiv> snd (download_body cfg io b url opts w)"
      and "r \<equiv> fst (download_body cfg io b url opts w)"
  shows "\<exists>delta d raw us.
        log w' = log w @ delta
      \<and> (\<forall>u\<in>set us. is_unlink u)
      \<and> prefix delta ([EvMkdir (AUDIO_CACHE_DIR cfg), EvHttpGet url, EvWriteStream (b @ ''.tmp'') d,
                        EvRename (b @ ''.tmp'') (b @ ''.bin''), EvWriteFile (b @ ''.json'') raw] @ us)
      \<and> (EvRename (b @ ''.tmp'') (b @ ''.bin'') \<in> set delta \<longrightarrow>
            (\<exists>resp. axios_get io url (opt_headers opts) = Inr resp \<and> d = resp_data resp))
      \<and> (EvRename (b @ ''.tmp'') (b @ ''.bin'') \<notin> set delta \<longrightarrow>
            (\<exists>e. r = Inl e)
          \<and> map_of (files w') (b @ ''.bin'') = map_of (files w) (b @ ''.bin'')
          \<and> map_of (files w') (b @ ''.json'') = map_of (files w) (b @ ''.json''))"
proof (cases "mkdir_fails io")
  case True
  show ?thesis unfolding w'_def r_def body_mkdir_fails[OF True]
    by (intro exI[of _ "[]"]) simp
next
  case mk: False
  show ?thesis
  proof (cases "axios_get io url (opt_headers opts)")
    case (Inl e)
    show ?thesis unfolding w'_def r_def body_get_fails[OF mk Inl]
      by (rule exI[of _ "[EvMkdir (AUDIO_CACHE_DIR cfg), EvHttpGet url]"],
          rule exI[of _ "[]"], rule exI[of _ "[]"], rule exI[of _ "[]"])
         (simp add: after_get_def after_mkdir_def)
  next
    case (Inr resp)
    show ?thesis
    proof (cases "pipeline_outcome io")
      case OpenFailed
      show ?thesis unfolding w'_def r_def body_open_fails[OF mk Inr OpenFailed]
        by (rule exI[of _ "[EvMkdir (AUDIO_CACHE_DIR cfg), EvHttpGet url]"],
            rule exI[of _ "[]"], rule exI[of _ "[]"], rule exI[of _ "[]"])
           (simp add: after_get_def after_mkdir_def)
    next
      case (PipeBroken n)
      show ?thesis unfolding w'_def r_def body_pipe_breaks[OF mk Inr PipeBroken]
        by (rule exI[of _ "[EvMkdir (AUDIO_CACHE_DIR cfg), EvHttpGet url,
                            EvWriteStream (b @ ''.tmp'') (take n (resp_data resp))]"],
            rule exI[of _ "take n (resp_data resp)"], rule exI[of _ "[]"], rule exI[of _ "[]"])
           (simp add: after_pipe_def after_mkdir_def update_conv')
    next
      case PipeDone
      show ?thesis
      proof (cases "rename_fails io")
        case True
        show ?thesis unfolding w'_def r_def body_rename_fails[OF mk Inr PipeDone True]
          by (rule exI[of _ "[EvMkdir (AUDIO_CACHE_DIR cfg), EvHttpGet url,
                              EvWriteStream (b @ ''.tmp'') (resp_data resp)]"],
              rule exI[of _ "resp_data resp"], rule exI[of _ "[]"], rule exI[of _ "[]"])
             (simp add: after_pipe_def after_mkdir_def update_conv')
      next
        case rn: False
        show ?thesis
        proof (cases "writeFile_fails io")
          case True
          show ?thesis unfolding w'_def r_def body_meta_fails[OF mk Inr PipeDone rn True]
            by (rule exI[of _ "[EvMkdir (AUDIO_CACHE_DIR cfg), EvHttpGet url,
                                EvWriteStream (b @ ''.tmp'') (resp_data resp),
                                EvRename (b @ ''.tmp'') (b @ ''.bin'')]"],
                rule exI[of _ "resp_data resp"], rule exI[of _ "[]"], rule exI[of _ "[]"])
               (simp add: after_rename_def after_mkdir_def Inr)
        next
          case wf: False
          let ?w5 = "after_meta cfg io b url opts resp w"
          obtain us where us: "log (snd (enforceCacheSizeLimit cfg io ?w5)) = log ?w5 @ us"
              "\<forall>u\<in>set us. is_unlink u"
            using log_enforce by blast
          show ?thesis unfolding w'_def r_def body_succeeds[OF mk Inr PipeDone rn wf]
            by (rule exI[of _ "[EvMkdir (AUDIO_CACHE_DIR cfg), EvHttpGet url,
                                EvWriteStream (b @ ''.tmp'') (resp_data resp),
                                EvRename (b @ ''.tmp'') (b @ ''.bin''),
                                EvWriteFile (b @ ''.json'') (JSON_stringify io (cache_metadata io url opts resp))] @ us"],
                rule exI[of _ "resp_data resp"],
                rule exI[of _ "JSON_stringify io (cache_metadata io url opts resp)"], rule exI[of _ us])
               (simp add: us log_after_meta Inr)
        qed
      qed
    qed
  qed
qed

lemma settle_rejects:
  assumes "promises s p = Some (Pending t)"
      and "fst (download_body cfg io (task_base t) (task_url t) (task_options t) (fs s)) = Inl e"
  shows "promises (settle cfg io p s) p = Some (Rejected e)"
    and "await_promise cfg io p s = (Inl e, settle cfg io p s)"
    and "await_promise cfg io' p (settle cfg io p s) = (Inl e, settle cfg io p s)"
proof -
  show a: "promises (settle cfg io p s) p = Some (Rejected e)"
    using assms unfolding settle_def Let_def by (simp add: split_def)
  then have b: "settle cfg io'' p (settle cfg io p s) = settle cfg io p s" for io''
    unfolding settle_def[of cfg io'' p "settle cfg io p s"] by simp
  show "await_promise cfg io p s = (Inl e, settle cfg io p s)"
    unfolding await_promise_def Let_def using a by simp
  show "await_promise cfg io' p (settle cfg io p s) = (Inl e, settle cfg io p s)"
    unfolding await_promise_def Let_def b using a by simp
qed

text \<open>The files a download leaves at each of its stages.\<close>

lemma ext_differs:
  "b @ ''.tmp'' \<noteq> b @ ''.bin''" "b @ ''.tmp'' \<noteq> b @ ''.json''" "b @ ''.bin'' \<noteq> b @ ''.json''"
  "b @ ''.bin'' \<noteq> b @ ''.tmp''" "b @ ''.json'' \<noteq> b @ ''.tmp''" "b @ ''.json'' \<noteq> b @ ''.bin''"
  by simp_all

lemma files_after_pipe:
  "map_of (files (after_pipe cfg io b url d w)) (b @ ''.tmp'') = Some \<lparr>fdata = d, fmtimeMs = now io\<rparr>"
  "map_of (files (after_pipe cfg io b url d w)) (b @ ''.bin'') = map_of (files w) (b @ ''.bin'')"
  "map_of (files (after_pipe cfg io b url d w)) (b @ ''.json'') = map_of (files w) (b @ ''.json'')"
  unfolding after_pipe_def by (simp_all add: update_conv')

lemma files_after_rename:
  "map_of (files (after_rename cfg io b url d w)) (b @ ''.bin'') = Some \<lparr>fdata = d, fmtimeMs = now io\<rparr>"
  "map_of (files (after_rename cfg io b url d w)) (b @ ''.tmp'') = None"
  "map_of (files (after_rename cfg io b url d w)) (b @ ''.json'') = map_of (files w) (b @ ''.json'')"
  unfolding after_rename_def by (simp_all add: update_conv' delete_conv')

lemma files_after_meta:
  "map_of (files (after_meta cfg io b url opts resp w)) (b @ ''.bin'')
     = Some \<lparr>fdata = resp_data resp, fmtimeMs = now io\<rparr>"
  "suffix ''.bin'' q \<Longrightarrow> q \<noteq> b @ ''.bin'' \<Longrightarrow>
     map_of (files (after_meta cfg io b url opts resp w)) q = map_of (files w) q"
proof -
  show "map_of (files (after_meta cfg io b url opts resp w)) (b @ ''.bin'')
     = Some \<lparr>fdata = resp_data resp, fmtimeMs = now io\<rparr>"
    unfolding after_meta_def after_rename_def by (simp add: update_conv')
  assume q: "suffix ''.bin'' q" "q \<noteq> b @ ''.bin''"
  have "q \<noteq> b @ ''.tmp''" "q \<noteq> b @ ''.json''" using q(1) by (auto simp: suffix_def)
  then show "map_of (files (after_meta cfg io b url opts resp w)) q = map_of (files w) q"
    unfolding after_meta_def after_rename_def after_mkdir_def using q(2)
    by (simp add: update_conv' delete_conv')
qed

lemma files_after_meta_side:
  "map_of (files (after_meta cfg io b url opts resp w)) (b @ ''.json'')
     = Some \<lparr>fdata = JSON_stringify io (cache_metadata io url opts resp), fmtimeMs = now io\<rparr>"
  "map_of (files (after_meta cfg io b url opts resp w)) (b @ ''.tmp'') = None"
  unfolding after_meta_def after_rename_def by (simp_all add: update_conv' delete_conv')

lemma enforce_unbounded:
  "AUDIO_CACHE_MAX_BYTES cfg = 0 \<Longrightarrow> snd (enforceCacheSizeLimit cfg io w) = w"
  unfolding enforceCacheSizeLimit_def by simp

text \<open>
  Claim C2 (atomic persistence). A download whose steps succeed up to the rename
  streams the whole upstream body to the \<open>.tmp\<close> path and renames it: the \<open>.bin\<close>
  file then holds the upstream bytes, the \<open>.tmp\<close> file is gone and the \<open>.json\<close> file
  is as it was. If the metadata write then fails the download is rejected in that
  state; if it succeeds, the \<open>.json\<close> file holds the metadata document, the log has
  gained \<open>mkdir\<close>, the upstream GET, the stream write to \<open>.tmp\<close>, the rename and the
  metadata write, in that order, the size scan runs on that state (and changes nothing
  when there is no budget), and the download is fulfilled with the \<open>.bin\<close> path.
  Whatever happens, what a download adds to the log is a prefix of that sequence
  followed by unlinks of the size scan: bytes are streamed to the \<open>.tmp\<close> path only,
  the \<open>.bin\<close> file comes from the rename only, and the metadata is written after it.
  A failure before the rename (\<open>mkdir\<close>, the GET, opening or writing the temporary
  file, the rename itself) rejects the download, leaves at most the \<open>.tmp\<close> file
  with the bytes that reached it, and leaves the \<open>.bin\<close> and \<open>.json\<close> paths holding
  what they held before. A pending promise whose download fails is rejected with that
  error, and everyone awaiting it, then or later, receives that rejection.
\<close>

theorem atomic_persistence:
  "(\<not> mkdir_fails io \<and> axios_get io url (opt_headers opts) = Inr resp
      \<and> pipeline_outcome io = PipeDone \<and> \<not> rename_fails io \<longrightarrow>
      (let w4 = after_rename cfg io b url (resp_data resp) w;
           w5 = after_meta cfg io b url opts resp w
       in map_of (files w4) (b @ ''.bin'') = Some \<lparr>fdata = resp_data resp, fmtimeMs = now io\<rparr>
        \<and> map_of (files w4) (b @ ''.tmp'') = None
        \<and> map_of (files w4) (b @ ''.json'') = map_of (files w) (b @ ''.json'')
        \<and> (writeFile_fails io \<longrightarrow>
             download_body cfg io b url opts w = (Inl (EIO (b @ ''.json'')), w4))
        \<and> (\<not> writeFile_fails io \<longrightarrow>
             download_body cfg io b url opts w
               = (Inr (b @ ''.bin''), snd (enforceCacheSizeLimit cfg io w5))
           \<and> (AUDIO_CACHE_MAX_BYTES cfg = 0 \<longrightarrow> snd (enforceCacheSizeLimit cfg io w5) = w5)
           \<and> log w5 = log w @ [EvMkdir (AUDIO_CACHE_DIR cfg), EvHttpGet url,
                                EvWriteStream (b @ ''.tmp'') (resp_data resp),
                                EvRename (b @ ''.tmp'') (b @ ''.bin''),
                                EvWriteFile (b @ ''.json'') (JSON_stringify io (cache_metadata io url opts resp))]
           \<and> map_of (files w5) (b @ ''.bin'') = Some \<lparr>fdata = resp_data resp, fmtimeMs = now io\<rparr>
           \<and> map_of (files w5) (b @ ''.json'')
               = Some \<lparr>fdata = JSON_stringify io (cache_metadata io url opts resp), fmtimeMs = now io\<rparr>
           \<and> map_of (files w5) (b @ ''.tmp'') = None)))
 \<and> (let w' = snd (download_body cfg io b url opts w);
        r = fst (download_body cfg io b url opts w);
        delta = drop (length (log w)) (log w')
    in log w' = log w @ delta
     \<and> (\<exists>d raw us.
           (\<forall>u\<in>set us. is_unlink u)
         \<and> prefix delta ([EvMkdir (AUDIO_CACHE_DIR cfg), EvHttpGet url, EvWriteStream (b @ ''.tmp'') d,
                           EvRename (b @ ''.tmp'') (b @ ''.bin''), EvWriteFile (b @ ''.json'') raw] @ us)
         \<and> (EvRename (b @ ''.tmp'') (b @ ''.bin'') \<in> set delta \<longrightarrow>
               (\<exists>resp. axios_get io url (opt_headers opts) = Inr resp \<and> d = resp_data resp)))
     \<and> (EvRename (b @ ''.tmp'') (b @ ''.bin'') \<notin> set delta \<longrightarrow>
           (\<exists>e. r = Inl e)
         \<and> map_of (files w') (b @ ''.bin'') = map_of (files w) (b @ ''.bin'')
         \<and> map_of (files w') (b @ ''.json'') = map_of (files w) (b @ ''.json'')))
 \<and> (mkdir_fails io \<longrightarrow> download_body cfg io b url opts w = (Inl (EIO (AUDIO_CACHE_DIR cfg)), w))
 \<and> (\<not> mkdir_fails io \<and> axios_get io url (opt_headers opts) = Inl e \<longrightarrow>
      download_body cfg io b url opts w = (Inl e, after_get cfg url w)
    \<and> files (after_get cfg url w) = files w)
 \<and> (\<not> mkdir_fails io \<and> axios_get io url (opt_headers opts) = Inr resp \<longrightarrow>
      (pipeline_outcome io = OpenFailed \<longrightarrow>
         download_body cfg io b url opts w = (Inl (EIO (b @ ''.tmp'')), after_get cfg url w))
    \<and> (pipeline_outcome io = PipeBroken n \<longrightarrow>
         download_body cfg io b url opts w
           = (Inl (EIO (b @ ''.tmp'')), after_pipe cfg io b url (take n (resp_data resp)) w)
       \<and> map_of (files (after_pipe cfg io b url (take n (resp_data resp)) w)) (b @ ''.tmp'')
           = Some \<lparr>fdata = take n (resp_data resp), fmtimeMs = now io\<rparr>)
    \<and> (pipeline_outcome io = PipeDone \<and> rename_fails io \<longrightarrow>
         download_body cfg io b url opts w
           = (Inl (EIO (b @ ''.tmp'')), after_pipe cfg io b url (resp_data resp) w)))
 \<and> (promises s p = Some (Pending t)
      \<and> fst (download_body cfg io (task_base t) (task_url t) (task_options t) (fs s)) = Inl e
      \<longrightarrow> promises (settle cfg io p s) p = Some (Rejected e)
        \<and> await_promise cfg io p s = (Inl e, settle cfg io p s)
        \<and> await_promise cfg io' p (settle cfg io p s) = (Inl e, settle cfg io p s))"
proof -
  obtain delta d raw us where tr:
    "log (snd (download_body cfg io b url opts w)) = log w @ delta"
    "\<forall>u\<in>set us. is_unlink u"
    "prefix delta ([EvMkdir (AUDIO_CACHE_DIR cfg), EvHttpGet url, EvWriteStream (b @ ''.tmp'') d,
                        EvRename (b @ ''.tmp'') (b @ ''.bin''), EvWriteFile (b @ ''.json'') raw] @ us)"
    "EvRename (b @ ''.tmp'') (b @ ''.bin'') \<in> set delta \<longrightarrow>
            (\<exists>resp. axios_get io url (opt_headers opts) = Inr resp \<and> d = resp_data resp)"
    "EvRename (b @ ''.tmp'') (b @ ''.bin'') \<notin> set delta \<longrightarrow>
            (\<exists>e. fst (download_body cfg io b url opts w) = Inl e)
          \<and> map_of (files (snd (download_body cfg io b url opts w))) (b @ ''.bin'') = map_of (files w) (b @ ''.bin'')
          \<and> map_of (files (snd (download_body cfg io b url opts w))) (b @ ''.json'') = map_of (files w) (b @ ''.json'')"
    using download_body_trace[where cfg=cfg and io=io and b=b and url=url and opts=opts and w=w] by blast
  have dl: "drop (length (log w)) (log (snd (download_body cfg io b url opts w))) = delta"
    unfolding tr(1) by simp
  have zero: "(let w4 = after_rename cfg io b url (resp_data resp) w;
           w5 = after_meta cfg io b url opts resp w
       in map_of (files w4) (b @ ''.bin'') = Some \<lparr>fdata = resp_data resp, fmtimeMs = now io\<rparr>
        \<and> map_of (files w4) (b @ ''.tmp'') = None
        \<and> map_of (files w4) (b @ ''.json'') = map_of (files w) (b @ ''.json'')
        \<and> (writeFile_fails io \<longrightarrow>
             download_body cfg io b url opts w = (Inl (EIO (b @ ''.json'')), w4))
        \<and> (\<not> writeFile_fails io \<longrightarrow>
             download_body cfg io b url opts w
               = (Inr (b @ ''.bin''), snd (enforceCacheSizeLimit cfg io w5))
           \<and> (AUDIO_CACHE_MAX_BYTES cfg = 0 \<longrightarrow> snd (enforceCacheSizeLimit cfg io w5) = w5)
           \<and> log w5 = log w @ [EvMkdir (AUDIO_CACHE_DIR cfg), EvHttpGet url,
                                EvWriteStream (b @ ''.tmp'') (resp_data resp),
                                EvRename (b @ ''.tmp'') (b @ ''.bin''),
                                EvWriteFile (b @ ''.json'') (JSON_stringify io (cache_metadata io url opts resp))]
           \<and> map_of (files w5) (b @ ''.bin'') = Some \<lparr>fdata = resp_data resp, fmtimeMs = now io\<rparr>
           \<and> map_of (files w5) (b @ ''.json'')
               = Some \<lparr>fdata = JSON_stringify io (cache_metadata io url opts resp), fmtimeMs = now io\<rparr>
           \<and> map_of (files w5) (b @ ''.tmp'') = None))"
    if h: "\<not> mkdir_fails io" "axios_get io url (opt_headers opts) = Inr resp"
          "pipeline_outcome io = PipeDone" "\<not> rename_fails io"
    unfolding Let_def
    using body_meta_fails[OF h, of cfg b w] body_succeeds[OF h, of cfg b w]
      files_after_rename[of cfg io b url "resp_data resp" w]
      files_after_meta(1)[of cfg io b url opts resp w]
      files_after_meta_side[of cfg io b url opts resp w]
      log_after_meta[of cfg io b url opts resp w]
      enforce_unbounded[of cfg io "after_meta cfg io b url opts resp w"]
    by blast
  have one: "(let w' = snd (download_body cfg io b url opts w);
        r = fst (download_body cfg io b url opts w);
        delta = drop (length (log w)) (log w')
    in log w' = log w @ delta
     \<and> (\<exists>d raw us.
           (\<forall>u\<in>set us. is_unlink u)
         \<and> prefix delta ([EvMkdir (AUDIO_CACHE_DIR cfg), EvHttpGet url, EvWriteStream (b @ ''.tmp'') d,
                           EvRename (b @ ''.tmp'') (b @ ''.bin''), EvWriteFile (b @ ''.json'') raw] @ us)
         \<and> (EvRename (b @ ''.tmp'') (b @ ''.bin'') \<in> set delta \<longrightarrow>
               (\<exists>resp. axios_get io url (opt_headers opts) = Inr resp \<and> d = resp_data resp)))
     \<and> (EvRename (b @ ''.tmp'') (b @ ''.bin'') \<notin> set delta \<longrightarrow>
           (\<exists>e. r = Inl e)
         \<and> map_of (files w') (b @ ''.bin'') = map_of (files w) (b @ ''.bin'')
         \<and> map_of (files w') (b @ ''.json'') = map_of (files w) (b @ ''.json'')))"
    unfolding Let_def dl using tr by blast
  have f1: "mkdir_fails io \<longrightarrow> download_body cfg io b url opts w = (Inl (EIO (AUDIO_CACHE_DIR cfg)), w)"
    using body_mkdir_fails by blast
  have f2: "\<not> mkdir_fails io \<and> axios_get io url (opt_headers opts) = Inl e \<longrightarrow>
      download_body cfg io b url opts w = (Inl e, after_get cfg url w)
    \<and> files (after_get cfg url w) = files w"
    using body_get_fails[of io url opts e cfg b w] by (simp add: after_get_def after_mkdir_def)
  have f3: "(pipeline_outcome io = OpenFailed \<longrightarrow>
         download_body cfg io b url opts w = (Inl (EIO (b @ ''.tmp'')), after_get cfg url w))
    \<and> (pipeline_outcome io = PipeBroken n \<longrightarrow>
         download_body cfg io b url opts w
           = (Inl (EIO (b @ ''.tmp'')), after_pipe cfg io b url (take n (resp_data resp)) w)
       \<and> map_of (files (after_pipe cfg io b url (take n (resp_data resp)) w)) (b @ ''.tmp'')
           = Some \<lparr>fdata = take n (resp_data resp), fmtimeMs = now io\<rparr>)
    \<and> (pipeline_outcome io = PipeDone \<and> rename_fails io \<longrightarrow>
         download_body cfg io b url opts w
           = (Inl (EIO (b @ ''.tmp'')), after_pipe cfg io b url (resp_data resp) w))"
    if h: "\<not> mkdir_fails io" "axios_get io url (opt_headers opts) = Inr resp"
    using body_open_fails[OF h, of cfg b w] body_pipe_breaks[OF h, of n cfg b w]
      body_rename_fails[OF h, of cfg b w] files_after_pipe(1)[of cfg io b url "take n (resp_data resp)" w]
    by blast
  have two: "promises s p = Some (Pending t)
      \<and> fst (download_body cfg io (task_base t) (task_url t) (task_options t) (fs s)) = Inl e
      \<longrightarrow> promises (settle cfg io p s) p = Some (Rejected e)
        \<and> await_promise cfg io p s = (Inl e, settle cfg io p s)
        \<and> await_promise cfg io' p (settle cfg io p s) = (Inl e, settle cfg io p s)"
    using settle_rejects(1,2)[of s p t cfg io e] settle_rejects(3)[of s p t cfg io e io'] by blast
  show ?thesis using zero one f1 f2 f3 two by blast
qed

theorem atomic_persistence_witness:
  "download_body cfg_unbounded io_ex ''/cache/8_default'' (JStr ''u'') \<lparr>opt_headers = [], opt_metadata = []\<rparr> w_nodir
     = (Inr ''/cache/8_default.bin'',
        after_meta cfg_unbounded io_ex ''/cache/8_default'' (JStr ''u'') \<lparr>opt_headers = [], opt_metadata = []\<rparr>
          \<lparr>resp_headers = [(''content-type'', ''audio/mpeg'')], resp_data = ''abcdef''\<rparr> w_nodir)
 \<and> map_of (files (snd (download_body cfg_unbounded io_ex ''/cache/8_default'' (JStr ''u'')
                          \<lparr>opt_headers = [], opt_metadata = []\<rparr> w_nodir))) ''/cache/8_default.bin''
     = Some \<lparr>fdata = ''abcdef'', fmtimeMs = 5000\<rparr>
 \<and> map_of (files (snd (download_body cfg_unbounded io_ex ''/cache/8_default'' (JStr ''u'')
                          \<lparr>opt_headers = [], opt_metadata = []\<rparr> w_nodir))) ''/cache/8_default.json''
     = Some \<lparr>fdata = ''M'', fmtimeMs = 5000\<rparr>
 \<and> map_of (files (snd (download_body cfg_unbounded io_ex ''/cache/8_default'' (JStr ''u'')
                          \<lparr>opt_headers = [], opt_metadata = []\<rparr> w_nodir))) ''/cache/8_default.tmp'' = None
 \<and> log (snd (download_body cfg_unbounded io_ex ''/cache/8_default'' (JStr ''u'')
                          \<lparr>opt_headers = [], opt_metadata = []\<rparr> w_nodir))
     = [EvMkdir ''/cache'', EvHttpGet (JStr ''u''), EvWriteStream ''/cache/8_default.tmp'' ''abcdef'',
        EvRename ''/cache/8_default.tmp'' ''/cache/8_default.bin'', EvWriteFile ''/cache/8_default.json'' ''M'']
 \<and> map_of (files (snd (download_body cfg_ex (io_ex\<lparr>axios_get := (\<lambda>u h. Inl NetworkError)\<rparr>)
              ''/cache/8_default'' (JStr ''u'') \<lparr>opt_headers = [], opt_metadata = []\<rparr> w_full)))
     ''/cache/8_default.bin'' = None
 \<and> map_of (files (snd (download_body cfg_ex (io_ex\<lparr>axios_get := (\<lambda>u h. Inl NetworkError)\<rparr>)
              ''/cache/8_default'' (JStr ''u'') \<lparr>opt_headers = [], opt_metadata = []\<rparr> w_full)))
     ''/cache/8_default.json'' = None
 \<and> fst (await_promise cfg_ex (io_ex\<lparr>axios_get := (\<lambda>u h. Inl NetworkError)\<rparr>) 0
        (snd (downloadAndCacheAudio ''/cache/8_default'' (JStr ''u'') \<lparr>opt_headers = [], opt_metadata = []\<rparr>
               (server_of w_full)))) = Inl NetworkError"
proof -
  let ?io = "io_ex\<lparr>axios_get := (\<lambda>u h. Inl NetworkError)\<rparr>"
  let ?o = "\<lparr>opt_headers = [], opt_metadata = []\<rparr>"
  let ?b = "''/cache/8_default''"
  let ?t = "\<lparr>task_base = ?b, task_url = JStr ''u'', task_options = ?o\<rparr>"
  let ?s1 = "snd (downloadAndCacheAudio ?b (JStr ''u'') ?o (server_of w_full))"
  let ?resp = "\<lparr>resp_headers = [(''content-type'', ''audio/mpeg'')], resp_data = ''abcdef''\<rparr>"
  let ?w5 = "after_meta cfg_unbounded io_ex ?b (JStr ''u'') ?o ?resp w_nodir"
  have mk: "\<not> mkdir_fails ?io" "\<not> mkdir_fails io_ex" by (simp_all add: io_ex_def)
  have ax: "axios_get ?io (JStr ''u'') (opt_headers ?o) = Inl NetworkError" by simp
  have ok: "axios_get io_ex (JStr ''u'') (opt_headers ?o) = Inr ?resp"
    "pipeline_outcome io_ex = PipeDone" "\<not> rename_fails io_ex" "\<not> writeFile_fails io_ex"
    by (simp_all add: io_ex_def)
  have z: "AUDIO_CACHE_MAX_BYTES cfg_unbounded = 0"
    by (simp add: AUDIO_CACHE_MAX_BYTES_def cfg_unbounded_def)
  have v: "now io_ex = 5000" "JSON_stringify io_ex (cache_metadata io_ex (JStr ''u'') ?o ?resp) = ''M''"
    "AUDIO_CACHE_DIR cfg_unbounded = ''/cache''" "log w_nodir = []"
    by (simp_all add: io_ex_def cfg_unbounded_def w_nodir_def)
  from atomic_persistence[where cfg=cfg_unbounded and io=io_ex and b="?b" and url="JStr ''u''"
         and opts="?o" and w=w_nodir and resp="?resp"] mk(2) ok z
  have good: "download_body cfg_unbounded io_ex ?b (JStr ''u'') ?o w_nodir = (Inr (?b @ ''.bin''), ?w5)"
     "log ?w5 = log w_nodir @ [EvMkdir (AUDIO_CACHE_DIR cfg_unbounded), EvHttpGet (JStr ''u''),
                                EvWriteStream (?b @ ''.tmp'') (resp_data ?resp),
                                EvRename (?b @ ''.tmp'') (?b @ ''.bin''),
                                EvWriteFile (?b @ ''.json'') (JSON_stringify io_ex (cache_metadata io_ex (JStr ''u'') ?o ?resp))]"
     "map_of (files ?w5) (?b @ ''.bin'') = Some \<lparr>fdata = resp_data ?resp, fmtimeMs = now io_ex\<rparr>"
     "map_of (files ?w5) (?b @ ''.json'')
               = Some \<lparr>fdata = JSON_stringify io_ex (cache_metadata io_ex (JStr ''u'') ?o ?resp), fmtimeMs = now io_ex\<rparr>"
     "map_of (files ?w5) (?b @ ''.tmp'') = None"
    unfolding Let_def by simp_all
  have g: "download_body cfg_unbounded io_ex ?b (JStr ''u'') ?o w_nodir = (Inr ''/cache/8_default.bin'', ?w5)"
     "map_of (files (snd (download_body cfg_unbounded io_ex ?b (JStr ''u'') ?o w_nodir))) ''/cache/8_default.bin''
        = Some \<lparr>fdata = ''abcdef'', fmtimeMs = 5000\<rparr>"
     "map_of (files (snd (download_body cfg_unbounded io_ex ?b (JStr ''u'') ?o w_nodir))) ''/cache/8_default.json''
        = Some \<lparr>fdata = ''M'', fmtimeMs = 5000\<rparr>"
     "map_of (files (snd (download_body cfg_unbounded io_ex ?b (JStr ''u'') ?o w_nodir))) ''/cache/8_default.tmp'' = None"
     "log (snd (download_body cfg_unbounded io_ex ?b (JStr ''u'') ?o w_nodir))
        = [EvMkdir ''/cache'', EvHttpGet (JStr ''u''), EvWriteStream ''/cache/8_default.tmp'' ''abcdef'',
           EvRename ''/cache/8_default.tmp'' ''/cache/8_default.bin'', EvWriteFile ''/cache/8_default.json'' ''M'']"
    using good v by simp_all
  have old: "map_of (files w_full) (?b @ ''.bin'') = None" "map_of (files w_full) (?b @ ''.json'') = None"
    by (simp_all add: w_full_def)
  from atomic_persistence[where cfg=cfg_ex and io="?io" and b="?b" and url="JStr ''u''"
         and opts="?o" and w=w_full and e=NetworkError] mk(1) ax
  have body: "download_body cfg_ex ?io ?b (JStr ''u'') ?o w_full = (Inl NetworkError, after_get cfg_ex (JStr ''u'') w_full)"
    and same: "files (after_get cfg_ex (JStr ''u'') w_full) = files w_full"
    by simp_all
  have a: "map_of (files (snd (download_body cfg_ex ?io ?b (JStr ''u'') ?o w_full))) ''/cache/8_default.bin'' = None
         \<and> map_of (files (snd (download_body cfg_ex ?io ?b (JStr ''u'') ?o w_full))) ''/cache/8_default.json'' = None"
    unfolding body using same old by simp
  have s1: "?s1 = (server_of w_full)\<lparr>promises := (promises (server_of w_full))(0 \<mapsto> Pending ?t),
              next_promise := Suc 0,
              inflightDownloads := (inflightDownloads (server_of w_full))(?b \<mapsto> 0)\<rparr>"
    by (simp add: downloadAndCacheAudio_def server_of_def)
  have p: "promises ?s1 0 = Some (Pending ?t)" unfolding s1 by simp
  have f: "fst (download_body cfg_ex ?io (task_base ?t) (task_url ?t) (task_options ?t) (fs ?s1)) = Inl NetworkError"
    unfolding s1 using body by (simp add: server_of_def)
  have b: "fst (await_promise cfg_ex ?io 0 ?s1) = Inl NetworkError"
    using atomic_persistence[where s="?s1" and p=0 and t="?t" and cfg=cfg_ex and io="?io" and e=NetworkError] p f by simp
  show ?thesis using g a b by simp
qed

subsection \<open>The request handler\<close>

lemma try_block_miss:
  assumes "\<not> valid (getCacheStatus cfg io (fs s) (base_path cfg req @ ''.bin''))"
  shows "try_block cfg io req s
           = resolve_and_fetch cfg io req (base_path cfg req) (after_check cfg io req s)"
  using assms unfolding try_block_def after_check_def base_path_def Let_def by simp

lemma try_block_hit:
  assumes "valid (getCacheStatus cfg io (fs s) (base_path cfg req @ ''.bin''))"
      and "readCacheMetadata (JSON_parse io) (fs s) (base_path cfg req @ ''.json'') = Inr m"
  shows "try_block cfg io req s
           = (fst (streamCachedAudio io fresh_res (base_path cfg req @ ''.bin'') m True (fs s)), s)"
  using try_block_valid[of cfg io s req m] assms unfolding base_path_def by blast

lemma handler_try:
  assumes "params_id req \<noteq> []"
  shows "try_block cfg io req s = (Inr res, s') \<Longrightarrow> handler cfg io req s = (res, s')"
    and "try_block cfg io req s = (Inl (e, r), s') \<Longrightarrow> handler cfg io req s = (caught r, s')"
  using assms unfolding handler_def caught_def by simp_all

lemma handler_state:
  assumes "params_id req \<noteq> []"
  shows "snd (handler cfg io req s) = snd (try_block cfg io req s)"
  using assms unfolding handler_def by (simp add: split_def split: sum.splits)

lemma caught_fields:
  "statusCode (caught r) = 500"
  "payload (caught r) = JsonBody (JObj [(''code'', JNum 500), (''msg'', JStr ''Audio proxy failed'')])"
  "headersSent (caught r)" "resHeaders (caught r) = resHeaders r"
  unfolding caught_def res_json_def res_status_def by simp_all

lemma caught_fresh: "caught fresh_res = res_500"
  unfolding caught_def res_500_def ..

text \<open>The ways out of the resolver stage.\<close>

lemma resolve_throws:
  assumes "songUrlModule io (resolver_query req) = Inl e"
  shows "resolve_and_fetch cfg io req b s
           = (Inl (e, fresh_res), s\<lparr>fs := (fs s)\<lparr>log := log (fs s) @ [EvResolve (resolver_query req)]\<rparr>\<rparr>)"
  using assms unfolding resolve_and_fetch_def Let_def by simp

lemma resolve_forwards:
  assumes "songUrlModule io (resolver_query req) = Inr mr" "status mr \<noteq> 200"
  shows "status_send io (status mr) (js_or (body mr) (JObj [(''code'', JNum (status mr))])) = Inr (c, sent)
         \<Longrightarrow> resolve_and_fetch cfg io req b s
           = (Inr (fresh_res\<lparr>statusCode := c, payload := sent, headersSent := True\<rparr>),
              s\<lparr>fs := (fs s)\<lparr>log := log (fs s) @ [EvResolve (resolver_query req)]\<rparr>\<rparr>)"
    and "status_send io (status mr) (js_or (body mr) (JObj [(''code'', JNum (status mr))])) = Inl e
         \<Longrightarrow> resolve_and_fetch cfg io req b s
           = (Inl (e, fresh_res),
              s\<lparr>fs := (fs s)\<lparr>log := log (fs s) @ [EvResolve (resolver_query req)]\<rparr>\<rparr>)"
  using assms unfolding resolve_and_fetch_def Let_def by simp_all

lemma resolve_not_found:
  assumes "songUrlModule io (resolver_query req) = Inr mr" "status mr = 200"
      and "\<forall>data. js_get_opt (body mr) ''data'' = JArr data \<longrightarrow> data = []"
  shows "resolve_and_fetch cfg io req b s
           = (Inr res_404, s\<lparr>fs := (fs s)\<lparr>log := log (fs s) @ [EvResolve (resolver_query req)]\<rparr>\<rparr>)"
  using assms unfolding resolve_and_fetch_def Let_def res_404_def
  by (cases "js_get_opt (body mr) ''data''") simp_all

lemma resolve_target:
  assumes "songUrlModule io (resolver_query req) = Inr mr" "status mr = 200"
      and "js_get_opt (body mr) ''data'' = JArr data" "data \<noteq> []"
  shows "resolve_and_fetch cfg io req b s =
           (case select_target (params_id req) data of
              Inl e \<Rightarrow> (Inl (e, fresh_res), s\<lparr>fs := (fs s)\<lparr>log := log (fs s) @ [EvResolve (resolver_query req)]\<rparr>\<rparr>)
            | Inr target \<Rightarrow>
                if \<not> js_truthy (js_get_opt target ''url'')
                then (Inr res_403, s\<lparr>fs := (fs s)\<lparr>log := log (fs s) @ [EvResolve (resolver_query req)]\<rparr>\<rparr>)
                else fetch_and_stream cfg io (params_id req) b target
                       (s\<lparr>fs := (fs s)\<lparr>log := log (fs s) @ [EvResolve (resolver_query req)]\<rparr>\<rparr>))"
  using assms unfolding resolve_and_fetch_def Let_def res_403_def by simp

text \<open>The fetch of a target whose type is usable, with no download of the path in flight.\<close>

lemma fetch_and_stream_eq:
  assumes ty: "\<not> js_truthy (js_get_opt target ''type'') \<or> (\<exists>t. js_get_opt target ''type'' = JStr t)"
      and free: "inflightDownloads s b = None"
  shows "fetch_and_stream cfg io ident b target s =
     (let r = download_body cfg io b (js_get_opt target ''url'') (fetch_options ident target) (fs s);
          s2 = s\<lparr>fs := snd r,
                  promises := (promises s)(next_promise s \<mapsto>
                     (case fst r of Inl e \<Rightarrow> Rejected e | Inr path \<Rightarrow> Fulfilled path)),
                  next_promise := Suc (next_promise s),
                  inflightDownloads := (inflightDownloads s)(b := None)\<rparr>
      in case fst r of
           Inl e \<Rightarrow> (Inl (e, fresh_res), s2)
         | Inr path \<Rightarrow>
             (case readCacheMetadata (JSON_parse io) (snd r) (b @ ''.json'') of
                Inl e \<Rightarrow> (Inl (e, fresh_res), s2)
              | Inr meta \<Rightarrow>
                  (fst (streamCachedAudio io fresh_res (b @ ''.bin'') meta False (snd r)), s2)))"
proof -
  let ?opts = "fetch_options ident target"
  let ?url = "js_get_opt target ''url''"
  let ?T = "\<lparr>task_base = b, task_url = ?url, task_options = ?opts\<rparr>"
  let ?s1 = "s\<lparr>promises := (promises s)(next_promise s \<mapsto> Pending ?T),
                next_promise := Suc (next_promise s),
                inflightDownloads := (inflightDownloads s)(b \<mapsto> next_promise s)\<rparr>"
  let ?r = "download_body cfg io b ?url ?opts (fs s)"
  let ?o = "case fst ?r of Inl e \<Rightarrow> Rejected e | Inr path \<Rightarrow> Fulfilled path"
  let ?s2 = "s\<lparr>fs := snd ?r, promises := (promises s)(next_promise s \<mapsto> ?o),
                next_promise := Suc (next_promise s),
                inflightDownloads := (inflightDownloads s)(b := None)\<rparr>"
  have em: "(if js_truthy (js_get_opt target ''type'')
             then (case js_get_opt target ''type'' of
                     JStr t \<Rightarrow> Inr [(''originalFilename'', JStr (ident @ ''.'' @ toLowerCase t))]
                   | _ \<Rightarrow> Inl TypeError)
             else Inr []) = Inr (opt_metadata ?opts)"
    using ty unfolding fetch_options_def by (cases "js_get_opt target ''type''") auto
  have oh: "\<lparr>opt_headers = [(''Referer'', ''https://music.163.com'')], opt_metadata = opt_metadata ?opts\<rparr> = ?opts"
    unfolding fetch_options_def by simp
  have call: "downloadAndCacheAudio b ?url ?opts s = (next_promise s, ?s1)"
    using call_fresh[OF free] by simp
  have call': "downloadAndCacheAudio b ?url
                 \<lparr>opt_headers = [(''Referer'', ''https://music.163.com'')], opt_metadata = opt_metadata ?opts\<rparr> s
               = (next_promise s, ?s1)"
    unfolding oh by (rule call)
  have pend: "promises ?s1 (next_promise s) = Some (Pending ?T)" by simp
  have st: "settle cfg io (next_promise s) ?s1 = ?s2"
    unfolding settle_pending[OF pend] by simp
  have pr: "promises ?s2 (next_promise s) = Some ?o" by simp
  have aw: "await_promise cfg io (next_promise s) ?s1 =
              (case fst ?r of Inl e \<Rightarrow> (Inl e, ?s2) | Inr path \<Rightarrow> (Inr path, ?s2))"
    unfolding await_promise_def Let_def st pr by (cases "fst ?r") simp_all
  have sw: "?s2\<lparr>fs := snd (streamCachedAudio io fresh_res (b @ ''.bin'') m False (fs ?s2))\<rparr> = ?s2" for m
    unfolding streamCachedAudio_world by simp
  obtain m where m: "readCacheMetadata (JSON_parse io) (snd ?r) (b @ ''.json'') = Inr m"
    using readCacheMetadata_total by blast
  show ?thesis
  proof (cases "fst ?r")
    case (Inl e)
    then show ?thesis
      unfolding fetch_and_stream_def Let_def em
      by (simp add: call' aw)
  next
    case (Inr path)
    then show ?thesis
      unfolding fetch_and_stream_def Let_def em
      using sw[of m] m by (simp add: call' aw split_def)
  qed
qed

lemma fetch_fails:
  assumes "\<not> js_truthy (js_get_opt target ''type'') \<or> (\<exists>t. js_get_opt target ''type'' = JStr t)"
      and "inflightDownloads s b = None"
      and "fst (download_body cfg io b (js_get_opt target ''url'') (fetch_options ident target) (fs s)) = Inl e"
  shows "fst (fetch_and_stream cfg io ident b target s) = Inl (e, fresh_res)"
  unfolding fetch_and_stream_eq[OF assms(1,2)] Let_def using assms(3) by simp

lemma fetch_world:
  assumes "\<not> js_truthy (js_get_opt target ''type'') \<or> (\<exists>t. js_get_opt target ''type'' = JStr t)"
      and "inflightDownloads s b = None"
  shows "fs (snd (fetch_and_stream cfg io ident b target s))
           = snd (download_body cfg io b (js_get_opt target ''url'') (fetch_options ident target) (fs s))"
proof -
  obtain m where m: "readCacheMetadata (JSON_parse io)
      (snd (download_body cfg io b (js_get_opt target ''url'') (fetch_options ident target) (fs s))) (b @ ''.json'') = Inr m"
    using readCacheMetadata_total by blast
  show ?thesis
    unfolding fetch_and_stream_eq[OF assms] Let_def using m
    by (cases "fst (download_body cfg io b (js_get_opt target ''url'') (fetch_options ident target) (fs s))") simp_all
qed

lemma fetch_bad_type:
  assumes "js_truthy (js_get_opt target ''type'')" "\<forall>t. js_get_opt target ''type'' \<noteq> JStr t"
  shows "fetch_and_stream cfg io ident b target s = (Inl (TypeError, fresh_res), s)"
  using assms unfolding fetch_and_stream_def Let_def
  by (cases "js_get_opt target ''type''") simp_all

text \<open>The hit marker of a response that left the miss path.\<close>

lemma headers_thrown:
  assumes "set_cache_headers m h res = Inl (e, r)"
  shows "map_of (resHeaders r) ''X-Cache-Hit'' = map_of (resHeaders res) ''X-Cache-Hit''"
  using assms unfolding set_cache_headers_def and_then_def setHeader_hit
  by (auto split: sum.splits if_splits dest!: setHeader_Inr setHeader_Inl simp: update_conv')

lemma stream_header:
  "(case fst (streamCachedAudio io fresh_res p m h w) of
      Inr out \<Rightarrow> map_of (resHeaders out) ''X-Cache-Hit'' = Some (JStr (if h then ''1'' else ''0''))
    | Inl (e, r) \<Rightarrow> map_of (resHeaders r) ''X-Cache-Hit'' = None)"
proof (cases "set_cache_headers m h fresh_res")
  case (Inl x)
  obtain e r where x: "x = (e, r)" by (cases x)
  have "map_of (resHeaders r) ''X-Cache-Hit'' = None"
    using headers_thrown[of m h fresh_res e r] Inl x by (simp add: fresh_res_def)
  then show ?thesis unfolding stream_throws[OF Inl] x by simp
next
  case (Inr res4)
  obtain out where out: "fst (streamCachedAudio io fresh_res p m h w) = Inr out"
      "resHeaders out = resHeaders res4"
    using resHeaders_stream[OF Inr] by blast
  show ?thesis unfolding out(1) using hit_header[OF Inr] out(2) by simp
qed

lemma no_hit_fresh: "no_hit (Inl (e, fresh_res))"
  unfolding no_hit_def fresh_res_def by simp

lemma no_hit_stream: "no_hit (fst (streamCachedAudio io fresh_res p m False w))"
  using stream_header[where io=io and p=p and m=m and h=False and w=w] unfolding no_hit_def
  by (auto split: sum.splits prod.splits)

lemma no_hit_fetch: "no_hit (fst (fetch_and_stream cfg io i b t s))"
  unfolding fetch_and_stream_def Let_def
  by (simp add: split_def no_hit_fresh no_hit_stream split: sum.splits)

lemma no_hit_resolve: "no_hit (fst (resolve_and_fetch cfg io req b s))"
proof -
  have j: "no_hit (Inr (res_json v (res_status c fresh_res)))" for v c
    unfolding no_hit_def res_json_def res_status_def fresh_res_def by simp
  have k: "no_hit (Inr (fresh_res\<lparr>statusCode := c, payload := sent, headersSent := True\<rparr>))" for c sent
    unfolding no_hit_def fresh_res_def by simp
  show ?thesis
    unfolding resolve_and_fetch_def Let_def
    by (simp add: split_def no_hit_fresh no_hit_fetch j k split: sum.splits json.splits)
qed

lemma miss_header_handler:
  assumes "params_id req \<noteq> []"
      and "\<not> valid (getCacheStatus cfg io (fs s) (base_path cfg req @ ''.bin''))"
  shows "map_of (resHeaders (fst (handler cfg io req s))) ''X-Cache-Hit'' \<noteq> Some (JStr ''1'')"
proof (cases "try_block cfg io req s")
  case (Pair x s')
  have nh: "no_hit x"
    using no_hit_resolve[of cfg io req "base_path cfg req" "after_check cfg io req s"]
    unfolding try_block_miss[OF assms(2), symmetric] Pair by simp
  show ?thesis
  proof (cases x)
    case (Inl er)
    obtain e r where er: "er = (e, r)" by (cases er)
    have "handler cfg io req s = (caught r, s')"
      using handler_try(2)[OF assms(1)] Pair Inl er by simp
    then show ?thesis using nh Inl er by (simp add: no_hit_def caught_fields)
  next
    case (Inr res)
    have "handler cfg io req s = (res, s')"
      using handler_try(1)[OF assms(1)] Pair Inr by simp
    then show ?thesis using nh Inr by (simp add: no_hit_def)
  qed
qed

text \<open>The log only grows, and the resolver stage starts with the call of the resolver.\<close>

lemma log_download_body:
  "\<exists>d. log (snd (download_body cfg io b url opts w)) = log w @ d"
  using download_body_trace[where cfg=cfg and io=io and b=b and url=url and opts=opts and w=w]
  by blast

lemma log_settle: "\<exists>d. log (fs (settle cfg io p s)) = log (fs s) @ d"
proof (cases "\<exists>t. promises s p = Some (Pending t)")
  case False
  then have "settle cfg io p s = s" unfolding settle_def by (auto split: option.splits promise.splits)
  then show ?thesis by simp
next
  case True
  then obtain t where t: "promises s p = Some (Pending t)" by blast
  show ?thesis unfolding settle_pending[OF t] using log_download_body by simp
qed

lemma fs_await: "fs (snd (await_promise cfg io p s)) = fs (settle cfg io p s)"
  unfolding await_promise_def Let_def by (simp split: option.splits promise.splits)

lemma fs_call: "fs (snd (downloadAndCacheAudio b url opts s)) = fs s"
  unfolding downloadAndCacheAudio_def Let_def by (simp split: option.splits)

lemma log_fetch_and_stream:
  "\<exists>d. log (fs (snd (fetch_and_stream cfg io i b t s))) = log (fs s) @ d"
proof -
  have a: "\<exists>d. log (fs (snd (await_promise cfg io p (snd (downloadAndCacheAudio b url opts s))))) = log (fs s) @ d"
    for p url opts
    unfolding fs_await using log_settle[of cfg io p "snd (downloadAndCacheAudio b url opts s)"]
    by (simp add: fs_call)
  have e: "\<exists>d. log (fs s) = log (fs s) @ d" by simp
  show ?thesis
    unfolding fetch_and_stream_def Let_def
    by (simp add: split_def streamCachedAudio_world a e split: sum.splits)
qed

lemma log_resolve:
  "\<exists>d. log (fs (snd (resolve_and_fetch cfg io req b s)))
         = log (fs s) @ EvResolve (resolver_query req) # d"
proof -
  let ?s0 = "s\<lparr>fs := (fs s)\<lparr>log := log (fs s) @ [EvResolve (resolver_query req)]\<rparr>\<rparr>"
  have f: "\<exists>d. log (fs (snd (fetch_and_stream cfg io i b t ?s0)))
                  = log (fs s) @ EvResolve (resolver_query req) # d" for i t
    using log_fetch_and_stream[of cfg io i b t ?s0] by simp
  show ?thesis
    unfolding resolve_and_fetch_def Let_def
    by (simp add: split_def f split: sum.splits json.splits)
qed

lemma unlinked_absent:
  "\<not> unlink_fails io p \<Longrightarrow> map_of (unlinked io p fl) p = None"
  "\<not> unlink_fails io p \<Longrightarrow> map_of (unlinked io q (unlinked io p fl)) p = None"
  unfolding unlinked_def by (simp_all add: delete_conv')

lemma unlinked_kept:
  "unlink_fails io p \<Longrightarrow> q \<noteq> p \<Longrightarrow> map_of (unlinked io q (unlinked io p fl)) p = map_of fl p"
  unfolding unlinked_def by (simp add: delete_conv')

text \<open>
  Claim C4 (validity and TTL), as amended. \<open>getCacheStatus\<close> answers invalid/missing
  when the blob is absent or cannot be stat'ed, invalid/expired when a positive TTL
  is configured and the blob is older than it, and valid otherwise; with a TTL of 0
  every blob that can be stat'ed is valid. When the entry of a request is expired,
  the handler unlinks the blob and the metadata file; each is gone unless its unlink
  fails, in which case the failure is swallowed and the file stays. Nothing but
  unlinks happens before the resolver is called, and the resolver is called next.
  The response never carries the hit marker. When the resolver then names a playable
  target (with a usable type, and no download of the path in flight), the files the
  request leaves behind are those of the download of the target's url to the same
  base path, started from the state after the removal and the resolver call.
\<close>

theorem validity_and_ttl:
  "(map_of (files w) audioPath = None \<or> stat_fails io audioPath \<longrightarrow>
      getCacheStatus cfg io w audioPath = \<lparr>valid = False, reason = Some ''missing''\<rparr>)
 \<and> (map_of (files w) audioPath = Some f \<and> \<not> stat_fails io audioPath \<and> AUDIO_CACHE_TTL_SECONDS cfg > 0
      \<and> now io - fmtimeMs f > AUDIO_CACHE_TTL_SECONDS cfg * 1000 \<longrightarrow>
      getCacheStatus cfg io w audioPath = \<lparr>valid = False, reason = Some ''expired''\<rparr>)
 \<and> (map_of (files w) audioPath = Some f \<and> \<not> stat_fails io audioPath
      \<and> \<not> (AUDIO_CACHE_TTL_SECONDS cfg > 0 \<and> now io - fmtimeMs f > AUDIO_CACHE_TTL_SECONDS cfg * 1000) \<longrightarrow>
      getCacheStatus cfg io w audioPath = \<lparr>valid = True, reason = None\<rparr>)
 \<and> (params_id req \<noteq> []
      \<and> getCacheStatus cfg io (fs s) (base_path cfg req @ ''.bin'')
          = \<lparr>valid = False, reason = Some ''expired''\<rparr> \<longrightarrow>
      (let b = base_path cfg req;
           s1 = s\<lparr>fs := snd (removeCacheEntry io b (fs s))\<rparr>;
           sr = s1\<lparr>fs := (fs s1)\<lparr>log := log (fs s1) @ [EvResolve (resolver_query req)]\<rparr>\<rparr>
       in files (fs s1) = unlinked io (b @ ''.json'') (unlinked io (b @ ''.bin'') (files (fs s)))
        \<and> (\<not> unlink_fails io (b @ ''.bin'') \<longrightarrow> map_of (files (fs s1)) (b @ ''.bin'') = None)
        \<and> (\<not> unlink_fails io (b @ ''.json'') \<longrightarrow> map_of (files (fs s1)) (b @ ''.json'') = None)
        \<and> (unlink_fails io (b @ ''.bin'') \<longrightarrow>
              map_of (files (fs s1)) (b @ ''.bin'') = map_of (files (fs s)) (b @ ''.bin''))
        \<and> (\<exists>us. log (fs s1) = log (fs s) @ us \<and> (\<forall>u\<in>set us. is_unlink u))
        \<and> prefix (log (fs s1) @ [EvResolve (resolver_query req)]) (log (fs (snd (handler cfg io req s))))
        \<and> map_of (resHeaders (fst (handler cfg io req s))) ''X-Cache-Hit'' \<noteq> Some (JStr ''1'')
        \<and> (songUrlModule io (resolver_query req) = Inr mr \<and> status mr = 200
             \<and> js_get_opt (body mr) ''data'' = JArr data \<and> data \<noteq> []
             \<and> select_target (params_id req) data = Inr target
             \<and> js_truthy (js_get_opt target ''url'')
             \<and> (\<not> js_truthy (js_get_opt target ''type'') \<or> (\<exists>t. js_get_opt target ''type'' = JStr t))
             \<and> inflightDownloads s b = None \<longrightarrow>
               fs (snd (handler cfg io req s))
                 = snd (download_body cfg io b (js_get_opt target ''url'')
                          (fetch_options (params_id req) target) (fs sr)))))"
proof -
  have a: "map_of (files w) audioPath = None \<or> stat_fails io audioPath \<longrightarrow>
      getCacheStatus cfg io w audioPath = \<lparr>valid = False, reason = Some ''missing''\<rparr>"
    unfolding getCacheStatus_def fs_stat_def by (simp split: option.splits)
  have b: "map_of (files w) audioPath = Some f \<and> \<not> stat_fails io audioPath \<and> AUDIO_CACHE_TTL_SECONDS cfg > 0
      \<and> now io - fmtimeMs f > AUDIO_CACHE_TTL_SECONDS cfg * 1000 \<longrightarrow>
      getCacheStatus cfg io w audioPath = \<lparr>valid = False, reason = Some ''expired''\<rparr>"
    unfolding getCacheStatus_def fs_stat_def AUDIO_CACHE_TTL_MS_def by simp
  have c: "map_of (files w) audioPath = Some f \<and> \<not> stat_fails io audioPath
      \<and> \<not> (AUDIO_CACHE_TTL_SECONDS cfg > 0 \<and> now io - fmtimeMs f > AUDIO_CACHE_TTL_SECONDS cfg * 1000) \<longrightarrow>
      getCacheStatus cfg io w audioPath = \<lparr>valid = True, reason = None\<rparr>"
    unfolding getCacheStatus_def fs_stat_def AUDIO_CACHE_TTL_MS_def by auto
  let ?b = "base_path cfg req"
  let ?s1 = "s\<lparr>fs := snd (removeCacheEntry io ?b (fs s))\<rparr>"
  let ?sr = "?s1\<lparr>fs := (fs ?s1)\<lparr>log := log (fs ?s1) @ [EvResolve (resolver_query req)]\<rparr>\<rparr>"
  have d: "files (fs ?s1) = unlinked io (?b @ ''.json'') (unlinked io (?b @ ''.bin'') (files (fs s)))
        \<and> (\<not> unlink_fails io (?b @ ''.bin'') \<longrightarrow> map_of (files (fs ?s1)) (?b @ ''.bin'') = None)
        \<and> (\<not> unlink_fails io (?b @ ''.json'') \<longrightarrow> map_of (files (fs ?s1)) (?b @ ''.json'') = None)
        \<and> (unlink_fails io (?b @ ''.bin'') \<longrightarrow>
              map_of (files (fs ?s1)) (?b @ ''.bin'') = map_of (files (fs s)) (?b @ ''.bin''))
        \<and> (\<exists>us. log (fs ?s1) = log (fs s) @ us \<and> (\<forall>u\<in>set us. is_unlink u))
        \<and> prefix (log (fs ?s1) @ [EvResolve (resolver_query req)]) (log (fs (snd (handler cfg io req s))))
        \<and> map_of (resHeaders (fst (handler cfg io req s))) ''X-Cache-Hit'' \<noteq> Some (JStr ''1'')
        \<and> (songUrlModule io (resolver_query req) = Inr mr \<and> status mr = 200
             \<and> js_get_opt (body mr) ''data'' = JArr data \<and> data \<noteq> []
             \<and> select_target (params_id req) data = Inr target
             \<and> js_truthy (js_get_opt target ''url'')
             \<and> (\<not> js_truthy (js_get_opt target ''type'') \<or> (\<exists>t. js_get_opt target ''type'' = JStr t))
             \<and> inflightDownloads s ?b = None \<longrightarrow>
               fs (snd (handler cfg io req s))
                 = snd (download_body cfg io ?b (js_get_opt target ''url'')
                          (fetch_options (params_id req) target) (fs ?sr)))"
    if h: "params_id req \<noteq> []"
          "getCacheStatus cfg io (fs s) (?b @ ''.bin'') = \<lparr>valid = False, reason = Some ''expired''\<rparr>"
  proof -
    have nv: "\<not> valid (getCacheStatus cfg io (fs s) (?b @ ''.bin''))" using h(2) by simp
    have ac: "after_check cfg io req s = ?s1" unfolding after_check_def using h(2) by simp
    have t0: "try_block cfg io req s = resolve_and_fetch cfg io req ?b ?s1"
      using try_block_miss[OF nv] ac by simp
    have st: "snd (handler cfg io req s) = snd (resolve_and_fetch cfg io req ?b ?s1)"
      using handler_state[OF h(1), of cfg io s] t0 by simp
    have fl: "files (fs ?s1) = unlinked io (?b @ ''.json'') (unlinked io (?b @ ''.bin'') (files (fs s)))"
      by (simp add: files_removeCacheEntry)
    have m1: "map_of (files (fs ?s1)) (?b @ ''.bin'') = None" if "\<not> unlink_fails io (?b @ ''.bin'')"
      unfolding fl using unlinked_absent(2)[OF that] .
    have m2: "map_of (files (fs ?s1)) (?b @ ''.json'') = None" if "\<not> unlink_fails io (?b @ ''.json'')"
      unfolding fl using unlinked_absent(1)[OF that] .
    have m3: "map_of (files (fs ?s1)) (?b @ ''.bin'') = map_of (files (fs s)) (?b @ ''.bin'')"
      if "unlink_fails io (?b @ ''.bin'')"
      unfolding fl using unlinked_kept[OF that ext_differs(6)] .
    have lg: "\<exists>us. log (fs ?s1) = log (fs s) @ us \<and> (\<forall>u\<in>set us. is_unlink u)"
      using log_removeCacheEntry[of io ?b "fs s"] by simp
    obtain dd where "log (fs (snd (resolve_and_fetch cfg io req ?b ?s1)))
         = log (fs ?s1) @ EvResolve (resolver_query req) # dd"
      using log_resolve by blast
    then have dd: "log (fs (snd (resolve_and_fetch cfg io req ?b ?s1)))
         = (log (fs ?s1) @ [EvResolve (resolver_query req)]) @ dd" by simp
    have pf: "prefix (log (fs ?s1) @ [EvResolve (resolver_query req)]) (log (fs (snd (handler cfg io req s))))"
      unfolding st dd by (rule prefixI) (rule refl)
    have hm: "map_of (resHeaders (fst (handler cfg io req s))) ''X-Cache-Hit'' \<noteq> Some (JStr ''1'')"
      using miss_header_handler[OF h(1) nv] .
    have rf: "fs (snd (handler cfg io req s))
                 = snd (download_body cfg io ?b (js_get_opt target ''url'')
                          (fetch_options (params_id req) target) (fs ?sr))"
      if r: "songUrlModule io (resolver_query req) = Inr mr" "status mr = 200"
            "js_get_opt (body mr) ''data'' = JArr data" "data \<noteq> []"
        and t: "select_target (params_id req) data = Inr target" "js_truthy (js_get_opt target ''url'')"
        and ty: "\<not> js_truthy (js_get_opt target ''type'') \<or> (\<exists>t. js_get_opt target ''type'' = JStr t)"
        and free: "inflightDownloads s ?b = None"
    proof -
      have fr: "inflightDownloads ?sr ?b = None" using free by simp
      have "resolve_and_fetch cfg io req ?b ?s1 = fetch_and_stream cfg io (params_id req) ?b target ?sr"
        unfolding resolve_target[OF r] using t by simp
      then show ?thesis unfolding st using fetch_world[OF ty fr] by simp
    qed
    show ?thesis using fl m1 m2 m3 lg pf hm rf by blast
  qed
  show ?thesis unfolding Let_def using a b c d by blast
qed

lemma show_int_digit: "show_int 8 = ''8''" "show_int 9 = ''9''"
  by code_simp+

lemma item8_selected:
  "ident \<noteq> ''8'' \<Longrightarrow>
   select_target ident [JObj [(''id'', JNum 8), (''url'', JStr ''http://m/8.mp3''), (''type'', JStr ''MP3'')]]
     = Inr (JObj [(''id'', JNum 8), (''url'', JStr ''http://m/8.mp3''), (''type'', JStr ''MP3'')])"
  by (simp add: select_target_def show_int_digit js_or_def)

theorem validity_and_ttl_witness:
  "getCacheStatus cfg_ex io_ex w_full ''/cache/9_default.bin'' = \<lparr>valid = False, reason = Some ''missing''\<rparr>
 \<and> getCacheStatus cfg_ex (io_ex\<lparr>stat_fails := (\<lambda>p. True)\<rparr>) w_full ''/cache/7_default.bin''
      = \<lparr>valid = False, reason = Some ''missing''\<rparr>
 \<and> getCacheStatus cfg_ex io_late w_full ''/cache/7_default.bin'' = \<lparr>valid = False, reason = Some ''expired''\<rparr>
 \<and> getCacheStatus cfg_ex io_ex w_full ''/cache/7_default.bin'' = \<lparr>valid = True, reason = None\<rparr>
 \<and> getCacheStatus cfg_unbounded io_late w_full ''/cache/7_default.bin'' = \<lparr>valid = True, reason = None\<rparr>
 \<and> map_of (files (fs (snd (handler cfg_ttl io_late (req_ex ''7'' JUndefined) (server_of w_full)))))
      ''/cache/7_default.bin'' = Some \<lparr>fdata = ''abcdef'', fmtimeMs = 4000000\<rparr>
 \<and> log (fs (snd (handler cfg_ttl io_late (req_ex ''7'' JUndefined) (server_of w_full))))
      = [EvUnlink ''/cache/7_default.bin'', EvUnlink ''/cache/7_default.json'',
         EvResolve (resolver_query (req_ex ''7'' JUndefined)),
         EvMkdir ''/cache'', EvHttpGet (JStr ''http://m/8.mp3''),
         EvWriteStream ''/cache/7_default.tmp'' ''abcdef'',
         EvRename ''/cache/7_default.tmp'' ''/cache/7_default.bin'',
         EvWriteFile ''/cache/7_default.json'' ''M'']
 \<and> map_of (resHeaders (fst (handler cfg_ttl io_late (req_ex ''7'' JUndefined) (server_of w_full))))
      ''X-Cache-Hit'' \<noteq> Some (JStr ''1'')"
proof -
  let ?req = "req_ex ''7'' JUndefined"
  let ?s = "server_of w_full"
  let ?f = "\<lparr>fdata = replicate 1048576 CHR ''a'', fmtimeMs = 1000\<rparr>"
  let ?item = "JObj [(''id'', JNum 8), (''url'', JStr ''http://m/8.mp3''), (''type'', JStr ''MP3'')]"
  let ?mr = "\<lparr>status = 200, body = JObj [(''data'', JArr [?item])]\<rparr>"
  let ?resp = "\<lparr>resp_headers = [(''content-type'', ''audio/mpeg'')], resp_data = ''abcdef''\<rparr>"
  let ?opts = "fetch_options (params_id ?req) ?item"
  have m9: "map_of (files w_full) ''/cache/9_default.bin'' = None" by (simp add: w_full_def)
  have m7: "map_of (files w_full) ''/cache/7_default.bin'' = Some ?f" by (simp add: w_full_def)
  have ttl: "AUDIO_CACHE_TTL_SECONDS cfg_ex = 3600" "AUDIO_CACHE_TTL_SECONDS cfg_unbounded = 0"
    "AUDIO_CACHE_TTL_SECONDS cfg_ttl = 3600"
    by (simp_all add: cfg_ex_def cfg_unbounded_def cfg_ttl_def)
  have nw: "now io_ex = 5000" "now io_late = 4000000" "\<not> stat_fails io_ex p" "\<not> stat_fails io_late p"
    "stat_fails (io_ex\<lparr>stat_fails := (\<lambda>p. True)\<rparr>) p" for p
    by (simp_all add: io_ex_def io_late_def)
  have a: "getCacheStatus cfg_ex io_ex w_full ''/cache/9_default.bin'' = \<lparr>valid = False, reason = Some ''missing''\<rparr>"
    using validity_and_ttl[where w=w_full and audioPath="''/cache/9_default.bin''" and cfg=cfg_ex and io=io_ex] m9
    by blast
  have a': "getCacheStatus cfg_ex (io_ex\<lparr>stat_fails := (\<lambda>p. True)\<rparr>) w_full ''/cache/7_default.bin''
      = \<lparr>valid = False, reason = Some ''missing''\<rparr>"
    using validity_and_ttl[where w=w_full and audioPath="''/cache/7_default.bin''" and cfg=cfg_ex
            and io="io_ex\<lparr>stat_fails := (\<lambda>p. True)\<rparr>"] nw(5)
    by blast
  have b: "getCacheStatus cfg io_late w_full ''/cache/7_default.bin'' = \<lparr>valid = False, reason = Some ''expired''\<rparr>"
    if "AUDIO_CACHE_TTL_SECONDS cfg = 3600" for cfg
    using validity_and_ttl[where w=w_full and audioPath="''/cache/7_default.bin''" and cfg=cfg and io=io_late
            and f="?f"] m7 that nw by simp
  have c: "getCacheStatus cfg_ex io_ex w_full ''/cache/7_default.bin'' = \<lparr>valid = True, reason = None\<rparr>"
    using validity_and_ttl[where w=w_full and audioPath="''/cache/7_default.bin''" and cfg=cfg_ex and io=io_ex
            and f="?f"] m7 ttl nw by simp
  have d: "getCacheStatus cfg_unbounded io_late w_full ''/cache/7_default.bin'' = \<lparr>valid = True, reason = None\<rparr>"
    using validity_and_ttl[where w=w_full and audioPath="''/cache/7_default.bin''" and cfg=cfg_unbounded
            and io=io_late and f="?f"] m7 ttl nw by simp
  have id7: "params_id ?req = ''7''" by (simp add: req_ex_def)
  have k: "base_path cfg_ttl ?req = ''/cache/7_default''"
    by (simp add: base_path_def path_join_def cfg_ttl_def cacheKey_def req_ex_def bitrate_of_def js_or_def)
  have fsw: "fs ?s = w_full" by (simp add: server_of_def)
  have h1: "params_id ?req \<noteq> []" unfolding id7 by simp
  have h2: "getCacheStatus cfg_ttl io_late (fs ?s) (base_path cfg_ttl ?req @ ''.bin'')
              = \<lparr>valid = False, reason = Some ''expired''\<rparr>"
    unfolding k fsw using b[OF ttl(3)] by simp
  have r: "songUrlModule io_late (resolver_query ?req) = Inr ?mr" "status ?mr = 200"
    "js_get_opt (body ?mr) ''data'' = JArr [?item]" "[?item] \<noteq> []"
    by (simp_all add: io_late_def io_ex_def js_get_opt_def)
  have sel: "select_target (params_id ?req) [?item] = Inr ?item"
    unfolding id7 by (rule item8_selected) simp
  have t: "js_truthy (js_get_opt ?item ''url'')"
    "\<not> js_truthy (js_get_opt ?item ''type'') \<or> (\<exists>t. js_get_opt ?item ''type'' = JStr t)"
    by (simp_all add: js_get_opt_def)
  have free: "inflightDownloads ?s (base_path cfg_ttl ?req) = None" by (simp add: server_of_def)
  have rm: "snd (removeCacheEntry io_late ''/cache/7_default'' w_full)
              = \<lparr>dirs = [''/cache''],
                 files = [(''/cache/8_320000.bin'', \<lparr>fdata = ''bb'', fmtimeMs = 2000\<rparr>)],
                 log = [EvUnlink ''/cache/7_default.bin'', EvUnlink ''/cache/7_default.json'']\<rparr>"
    by (simp add: removeCacheEntry_def fs_unlink_def w_full_def io_late_def io_ex_def Let_def)
  let ?wr = "\<lparr>dirs = [''/cache''],
                 files = [(''/cache/8_320000.bin'', \<lparr>fdata = ''bb'', fmtimeMs = 2000\<rparr>)],
                 log = [EvUnlink ''/cache/7_default.bin'', EvUnlink ''/cache/7_default.json'',
                        EvResolve (resolver_query ?req)]\<rparr>"
  have hy: "songUrlModule io_late (resolver_query ?req) = Inr ?mr \<and> status ?mr = 200
             \<and> js_get_opt (body ?mr) ''data'' = JArr [?item] \<and> [?item] \<noteq> []
             \<and> select_target (params_id ?req) [?item] = Inr ?item
             \<and> js_truthy (js_get_opt ?item ''url'')
             \<and> (\<not> js_truthy (js_get_opt ?item ''type'') \<or> (\<exists>t. js_get_opt ?item ''type'' = JStr t))
             \<and> inflightDownloads ?s (base_path cfg_ttl ?req) = None"
    using r sel t free by blast
  note T = validity_and_ttl[where cfg=cfg_ttl and req="?req" and io=io_late and s="?s" and mr="?mr"
         and data="[?item]" and target="?item", THEN conjunct2, THEN conjunct2, THEN conjunct2,
         THEN mp, OF conjI[OF h1 h2], unfolded Let_def]
  note T6 = T[THEN conjunct2, THEN conjunct2, THEN conjunct2, THEN conjunct2, THEN conjunct2,
              THEN conjunct2]
  have hm: "map_of (resHeaders (fst (handler cfg_ttl io_late ?req ?s))) ''X-Cache-Hit'' \<noteq> Some (JStr ''1'')"
    using T6[THEN conjunct1] .
  have w0: "fs (snd (handler cfg_ttl io_late ?req ?s))
             = snd (download_body cfg_ttl io_late (base_path cfg_ttl ?req) (js_get_opt ?item ''url'') ?opts
                 (fs (?s\<lparr>fs := snd (removeCacheEntry io_late (base_path cfg_ttl ?req) (fs ?s))\<rparr>
                       \<lparr>fs := (fs (?s\<lparr>fs := snd (removeCacheEntry io_late (base_path cfg_ttl ?req) (fs ?s))\<rparr>))
                          \<lparr>log := log (fs (?s\<lparr>fs := snd (removeCacheEntry io_late (base_path cfg_ttl ?req) (fs ?s))\<rparr>))
                                  @ [EvResolve (resolver_query ?req)]\<rparr>\<rparr>)))"
    using T6[THEN conjunct2, THEN mp, OF hy] .
  have wr: "fs (?s\<lparr>fs := snd (removeCacheEntry io_late ''/cache/7_default'' (fs ?s))\<rparr>
                       \<lparr>fs := (fs (?s\<lparr>fs := snd (removeCacheEntry io_late ''/cache/7_default'' (fs ?s))\<rparr>))
                          \<lparr>log := log (fs (?s\<lparr>fs := snd (removeCacheEntry io_late ''/cache/7_default'' (fs ?s))\<rparr>))
                                  @ [EvResolve (resolver_query ?req)]\<rparr>\<rparr>) = ?wr"
    by (simp add: fsw rm)
  have w: "fs (snd (handler cfg_ttl io_late ?req ?s))
             = snd (download_body cfg_ttl io_late ''/cache/7_default'' (js_get_opt ?item ''url'') ?opts ?wr)"
    using w0 unfolding k unfolding wr .
  have u: "js_get_opt ?item ''url'' = JStr ''http://m/8.mp3''" by (simp add: js_get_opt_def)
  have io: "\<not> mkdir_fails io_late"
    "axios_get io_late (JStr ''http://m/8.mp3'') (opt_headers ?opts) = Inr ?resp"
    "pipeline_outcome io_late = PipeDone" "\<not> rename_fails io_late" "\<not> writeFile_fails io_late"
    by (simp_all add: io_late_def io_ex_def)
  have z: "AUDIO_CACHE_MAX_BYTES cfg_ttl = 0"
    by (simp add: AUDIO_CACHE_MAX_BYTES_def cfg_ttl_def)
  have w': "fs (snd (handler cfg_ttl io_late ?req ?s))
             = after_meta cfg_ttl io_late ''/cache/7_default'' (JStr ''http://m/8.mp3'') ?opts ?resp ?wr"
    unfolding w u body_succeeds[OF io] by (simp add: enforce_unbounded[OF z])
  have e: "map_of (files (fs (snd (handler cfg_ttl io_late ?req ?s)))) ''/cache/7_default.bin''
             = Some \<lparr>fdata = ''abcdef'', fmtimeMs = 4000000\<rparr>"
    unfolding w' using files_after_meta(1)[of cfg_ttl io_late "''/cache/7_default''"] nw(2) by simp
  have g: "log (fs (snd (handler cfg_ttl io_late ?req ?s)))
      = [EvUnlink ''/cache/7_default.bin'', EvUnlink ''/cache/7_default.json'',
         EvResolve (resolver_query ?req),
         EvMkdir ''/cache'', EvHttpGet (JStr ''http://m/8.mp3''),
         EvWriteStream ''/cache/7_default.tmp'' ''abcdef'',
         EvRename ''/cache/7_default.tmp'' ''/cache/7_default.bin'',
         EvWriteFile ''/cache/7_default.json'' ''M'']"
    unfolding w' log_after_meta by (simp add: cfg_ttl_def io_late_def io_ex_def)
  show ?thesis using a a' b[OF ttl(1)] c d e g hm by simp
qed

text \<open>
  An expired entry whose files cannot be unlinked: the handler goes on to the
  resolver, answers its 404, and both files are still there.
\<close>

theorem expired_entry_not_deleted:
  "getCacheStatus cfg_ex io_stuck w_full ''/cache/7_default.bin''
     = \<lparr>valid = False, reason = Some ''expired''\<rparr>
 \<and> statusCode (fst (handler cfg_ex io_stuck (req_ex ''7'' JUndefined) (server_of w_full))) = 404
 \<and> files (fs (snd (handler cfg_ex io_stuck (req_ex ''7'' JUndefined) (server_of w_full)))) = files w_full
 \<and> map_of (files w_full) ''/cache/7_default.bin'' \<noteq> None
 \<and> map_of (files w_full) ''/cache/7_default.json'' \<noteq> None"
proof -
  let ?req = "req_ex ''7'' JUndefined"
  let ?s = "server_of w_full"
  let ?mr = "\<lparr>status = 404, body = JStr ''gone''\<rparr>"
  have k: "base_path cfg_ex ?req = ''/cache/7_default''"
    by (simp add: base_path_def path_join_def cfg_ex_def cacheKey_def req_ex_def bitrate_of_def js_or_def)
  have fsw: "fs ?s = w_full" by (simp add: server_of_def)
  have h1: "params_id ?req \<noteq> []" by (simp add: req_ex_def)
  have gs: "getCacheStatus cfg_ex io_stuck w_full ''/cache/7_default.bin''
              = \<lparr>valid = False, reason = Some ''expired''\<rparr>"
    by (simp add: getCacheStatus_def fs_stat_def w_full_def io_stuck_def io_ex_def cfg_ex_def
        AUDIO_CACHE_TTL_MS_def)
  have nv: "\<not> valid (getCacheStatus cfg_ex io_stuck (fs ?s) (base_path cfg_ex ?req @ ''.bin''))"
    unfolding k fsw using gs by simp
  have rm: "snd (removeCacheEntry io_stuck ''/cache/7_default'' w_full) = w_full"
    by (simp add: removeCacheEntry_def fs_unlink_def w_full_def io_stuck_def Let_def)
  have ac: "after_check cfg_ex io_stuck ?req ?s = ?s"
    unfolding after_check_def k fsw using gs rm by (simp add: server_of_def)
  have r: "songUrlModule io_stuck (resolver_query ?req) = Inr ?mr" "status ?mr \<noteq> 200"
    by (simp_all add: io_stuck_def)
  have sd: "status_send io_stuck (status ?mr) (js_or (body ?mr) (JObj [(''code'', JNum (status ?mr))]))
              = Inr (404, SendBody (JStr ''gone''))"
    by (simp add: io_stuck_def io_ex_def send_in_range_def js_or_def)
  have "try_block cfg_ex io_stuck ?req ?s
          = (Inr (fresh_res\<lparr>statusCode := 404, payload := SendBody (JStr ''gone''), headersSent := True\<rparr>),
             ?s\<lparr>fs := (fs ?s)\<lparr>log := log (fs ?s) @ [EvResolve (resolver_query ?req)]\<rparr>\<rparr>)"
    unfolding try_block_miss[OF nv] ac using resolve_forwards(1)[OF r sd] .
  from handler_try(1)[OF h1 this]
  have "statusCode (fst (handler cfg_ex io_stuck ?req ?s)) = 404"
       "files (fs (snd (handler cfg_ex io_stuck ?req ?s))) = files w_full"
    by (simp_all add: fsw)
  moreover have "map_of (files w_full) ''/cache/7_default.bin'' \<noteq> None"
    "map_of (files w_full) ''/cache/7_default.json'' \<noteq> None"
    by (simp_all add: w_full_def)
  ultimately show ?thesis using gs by simp
qed

subsection \<open>The cache key\<close>

lemma split_at_underscore:
  assumes "CHR ''_'' \<notin> set a" "CHR ''_'' \<notin> set a'" "a @ CHR ''_'' # x = a' @ CHR ''_'' # x'"
  shows "a = a' \<and> x = x'"
proof -
  have t: "takeWhile (\<lambda>c. c \<noteq> CHR ''_'') (u @ CHR ''_'' # v) = u" if "CHR ''_'' \<notin> set u" for u v
    using that by (induction u) auto
  have "a = takeWhile (\<lambda>c. c \<noteq> CHR ''_'') (a @ CHR ''_'' # x)" using t[OF assms(1)] by simp
  also have "\<dots> = takeWhile (\<lambda>c. c \<noteq> CHR ''_'') (a' @ CHR ''_'' # x')" using assms(3) by simp
  also have "\<dots> = a'" using t[OF assms(2)] by simp
  finally have "a = a'" .
  with assms(3) show ?thesis by simp
qed

lemma cacheKey_token: "cacheKey ident br level = ident @ CHR ''_'' # quality_token br level"
  unfolding cacheKey_def quality_token_def by simp

text \<open>
  Claim C5 (cache-key derivation), as amended. The key is the track id, an
  underscore and a quality token that depends on \<open>br\<close> and \<open>level\<close> only: the string of
  \<open>br\<close> when \<open>br\<close> is given and prints as a non-empty string, else the string of
  \<open>level\<close> when \<open>level\<close> is given, else \<open>default\<close>. Two requests whose ids contain no
  underscore have the same key only if they have the same id and the same quality
  token.
\<close>

theorem cacheKey_derivation:
  "cacheKey ident br level = ident @ ''_'' @ quality_token br level
 \<and> (js_truthy br \<and> js_String br \<noteq> [] \<longrightarrow> quality_token br level = js_String br)
 \<and> (\<not> (js_truthy br \<and> js_String br \<noteq> []) \<and> js_truthy level \<longrightarrow>
       quality_token br level = js_String level)
 \<and> (\<not> (js_truthy br \<and> js_String br \<noteq> []) \<and> \<not> js_truthy level \<longrightarrow>
       quality_token br level = ''default'')
 \<and> (CHR ''_'' \<notin> set ident \<and> CHR ''_'' \<notin> set ident'
      \<and> cacheKey ident br level = cacheKey ident' br' level' \<longrightarrow>
       ident = ident' \<and> quality_token br level = quality_token br' level')"
proof -
  have a: "cacheKey ident br level = ident @ ''_'' @ quality_token br level"
    by (simp add: cacheKey_token)
  have b: "js_truthy br \<and> js_String br \<noteq> [] \<longrightarrow> quality_token br level = js_String br"
    unfolding quality_token_def bitrate_of_def js_or_def by simp
  have c: "\<not> (js_truthy br \<and> js_String br \<noteq> []) \<and> js_truthy level \<longrightarrow>
       quality_token br level = js_String level"
    unfolding quality_token_def bitrate_of_def js_or_def by auto
  have d: "\<not> (js_truthy br \<and> js_String br \<noteq> []) \<and> \<not> js_truthy level \<longrightarrow>
       quality_token br level = ''default''"
    unfolding quality_token_def bitrate_of_def js_or_def by auto
  have e: "CHR ''_'' \<notin> set ident \<and> CHR ''_'' \<notin> set ident'
      \<and> cacheKey ident br level = cacheKey ident' br' level' \<longrightarrow>
       ident = ident' \<and> quality_token br level = quality_token br' level'"
    unfolding cacheKey_token using split_at_underscore by blast
  show ?thesis using a b c d e by blast
qed

theorem cacheKey_derivation_witness:
  "cacheKey ''8'' (JStr ''320000'') (JStr ''exhigh'') = ''8_320000''
 \<and> cacheKey ''8'' JUndefined (JStr ''exhigh'') = ''8_exhigh''
 \<and> cacheKey ''8'' JUndefined JUndefined = ''8_default''
 \<and> CHR ''_'' \<notin> set ''8''
 \<and> cacheKey ''8'' (JStr ''320000'') JUndefined = cacheKey ''8'' JUndefined (JStr ''320000'')
 \<and> quality_token (JStr ''320000'') JUndefined = quality_token JUndefined (JStr ''320000'')"
proof -
  have t: "js_truthy (JStr ''320000'') \<and> js_String (JStr ''320000'') \<noteq> []"
    "\<not> (js_truthy JUndefined \<and> js_String JUndefined \<noteq> [])" "js_truthy (JStr ''exhigh'')"
    "\<not> js_truthy JUndefined" "js_truthy (JStr ''320000'')"
    by simp_all
  have u: "CHR ''_'' \<notin> set ''8''" by simp
  have a: "cacheKey ''8'' (JStr ''320000'') (JStr ''exhigh'') = ''8_320000''"
    using cacheKey_derivation[of "''8''" "JStr ''320000''" "JStr ''exhigh''"] t by simp
  have b: "cacheKey ''8'' JUndefined (JStr ''exhigh'') = ''8_exhigh''"
    using cacheKey_derivation[of "''8''" JUndefined "JStr ''exhigh''"] t by simp
  have c: "cacheKey ''8'' JUndefined JUndefined = ''8_default''"
    using cacheKey_derivation[of "''8''" JUndefined JUndefined] t by simp
  have k1: "cacheKey ''8'' (JStr ''320000'') JUndefined = ''8_320000''"
    using cacheKey_derivation[of "''8''" "JStr ''320000''" JUndefined] t by simp
  have k2: "cacheKey ''8'' JUndefined (JStr ''320000'') = ''8_320000''"
    using cacheKey_derivation[of "''8''" JUndefined "JStr ''320000''"] t by simp
  have d: "quality_token (JStr ''320000'') JUndefined = quality_token JUndefined (JStr ''320000'')"
    using cacheKey_derivation[of "''8''" "JStr ''320000''" JUndefined "''8''" JUndefined "JStr ''320000''"]
      u k1 k2 by metis
  show ?thesis using a b c d u k1 k2 by simp
qed

text \<open>
  The keys of the distinct pairs (id \<open>1_2\<close>, bitrate \<open>3\<close>) and (id \<open>1\<close>, bitrate
  \<open>2_3\<close>) are both \<open>1_2_3\<close>.
\<close>

theorem cacheKey_collision:
  "cacheKey ''1_2'' (JStr ''3'') JUndefined = cacheKey ''1'' (JStr ''2_3'') JUndefined
 \<and> (''1_2'', JStr ''3'') \<noteq> (''1'', JStr ''2_3'')"
  by (simp add: cacheKey_def bitrate_of_def js_or_def)

subsection \<open>From the resolver's answer to the response\<close>

lemma array_find_none:
  "\<forall>item\<in>set data. \<exists>v. js_get item ''id'' = Inr v \<and> js_String v \<noteq> ident \<Longrightarrow>
   array_find_id ident data = Inr JUndefined"
  by (induction data) auto

lemma select_fallback:
  assumes "data \<noteq> []" "\<forall>item\<in>set data. \<exists>v. js_get item ''id'' = Inr v \<and> js_String v \<noteq> ident"
  shows "select_target ident data = Inr (hd data)"
  using assms(1) unfolding select_target_def array_find_none[OF assms(2)]
  by (cases data) (simp_all add: js_or_def)

lemma handler_miss:
  assumes "params_id req \<noteq> []"
      and "\<not> valid (getCacheStatus cfg io (fs s) (base_path cfg req @ ''.bin''))"
  shows "resolve_and_fetch cfg io req (base_path cfg req) (after_check cfg io req s) = (Inr res, s')
           \<Longrightarrow> handler cfg io req s = (res, s')"
    and "resolve_and_fetch cfg io req (base_path cfg req) (after_check cfg io req s) = (Inl (e, r), s')
           \<Longrightarrow> handler cfg io req s = (caught r, s')"
  using handler_try[OF assms(1)] try_block_miss[OF assms(2)] by simp_all

lemma registry_after_resolve:
  "inflightDownloads (after_resolve cfg io req s) = inflightDownloads s"
  "promises (after_resolve cfg io req s) = promises s"
  "next_promise (after_resolve cfg io req s) = next_promise s"
  unfolding after_resolve_def after_check_def by simp_all

lemma after_resolve_eq:
  "(after_check cfg io req s)\<lparr>fs := (fs (after_check cfg io req s))\<lparr>log :=
      log (fs (after_check cfg io req s)) @ [EvResolve (resolver_query req)]\<rparr>\<rparr>
   = after_resolve cfg io req s"
  unfolding after_resolve_def by simp

lemma fetch_header_throws:
  assumes ty: "\<not> js_truthy (js_get_opt target ''type'') \<or> (\<exists>t. js_get_opt target ''type'' = JStr t)"
      and free: "inflightDownloads s b = None"
      and dl: "fst (download_body cfg io b (js_get_opt target ''url'') (fetch_options ident target) (fs s)) = Inr path"
      and md: "readCacheMetadata (JSON_parse io)
                 (snd (download_body cfg io b (js_get_opt target ''url'') (fetch_options ident target) (fs s)))
                 (b @ ''.json'') = Inr m"
      and hd: "set_cache_headers m False fresh_res = Inl (e, r)"
  shows "fst (fetch_and_stream cfg io ident b target s) = Inl (e, r)"
  unfolding fetch_and_stream_eq[OF ty free] Let_def dl md
  by (simp add: stream_throws[OF hd])

text \<open>
  Claim C6 (resolver-outcome mapping), as amended. For a request with an id, every
  exception of the \<open>try\<close> block is answered by the \<open>catch\<close> clause with status 500 and
  the JSON body \<open>{code: 500, msg: 'Audio proxy failed'}\<close>, on the hit path (a
  metadata header that cannot be set) as on the miss path: a throwing resolver, an
  exception of Express's \<open>send\<close>, reading the id of a \<open>null\<close> item, a target type
  without \<open>toLowerCase\<close>, a rejected download, a header that cannot be set after the
  download. When the entry is not valid, a resolver response with a status other
  than 200 goes to Express as \<open>res.status(status).send(body || {code: status})\<close>: the
  client receives the status and payload Express makes of them, which are that status
  and that body (the resolver's when it is truthy, else \<open>{code: status}\<close>) whenever
  Express transmits them as given; a 200 response whose \<open>data\<close> is not a non-empty
  array is answered 404; a selected target without a truthy \<open>url\<close> is answered 403.
\<close>

theorem resolver_outcome_mapping:
  assumes "params_id req \<noteq> []"
  shows
  "(try_block cfg io req s = (Inl (e, r), s') \<longrightarrow> handler cfg io req s = (caught r, s'))
 \<and> (try_block cfg io req s = (Inr res, s') \<longrightarrow> handler cfg io req s = (res, s'))
 \<and> statusCode (caught r) = 500
 \<and> payload (caught r) = JsonBody (JObj [(''code'', JNum 500), (''msg'', JStr ''Audio proxy failed'')])
 \<and> (valid (getCacheStatus cfg io (fs s) (base_path cfg req @ ''.bin''))
      \<and> readCacheMetadata (JSON_parse io) (fs s) (base_path cfg req @ ''.json'') = Inr m
      \<and> set_cache_headers m True fresh_res = Inl (e, r) \<longrightarrow>
      handler cfg io req s = (caught r, s))
 \<and> (\<not> valid (getCacheStatus cfg io (fs s) (base_path cfg req @ ''.bin'')) \<longrightarrow>
      (songUrlModule io (resolver_query req) = Inl e \<longrightarrow> fst (handler cfg io req s) = res_500)
    \<and> (songUrlModule io (resolver_query req) = Inr mr \<and> status mr \<noteq> 200
         \<and> status_send io (status mr) (js_or (body mr) (JObj [(''code'', JNum (status mr))])) = Inl e \<longrightarrow>
         fst (handler cfg io req s) = res_500)
    \<and> (songUrlModule io (resolver_query req) = Inr mr \<and> status mr \<noteq> 200
         \<and> status_send io (status mr) (js_or (body mr) (JObj [(''code'', JNum (status mr))])) = Inr (c, sent) \<longrightarrow>
         fst (handler cfg io req s) = fresh_res\<lparr>statusCode := c, payload := sent, headersSent := True\<rparr>)
    \<and> (songUrlModule io (resolver_query req) = Inr mr \<and> status mr \<noteq> 200
         \<and> status_send io (status mr) (js_or (body mr) (JObj [(''code'', JNum (status mr))]))
             = Inr (status mr, SendBody (js_or (body mr) (JObj [(''code'', JNum (status mr))]))) \<longrightarrow>
         fst (handler cfg io req s)
           = res_send (if js_truthy (body mr) then body mr else JObj [(''code'', JNum (status mr))])
               (res_status (status mr) fresh_res))
    \<and> (songUrlModule io (resolver_query req) = Inr mr \<and> status mr = 200
         \<and> (\<forall>data. js_get_opt (body mr) ''data'' = JArr data \<longrightarrow> data = []) \<longrightarrow>
         fst (handler cfg io req s) = res_404)
    \<and> (songUrlModule io (resolver_query req) = Inr mr \<and> status mr = 200
         \<and> js_get_opt (body mr) ''data'' = JArr data \<and> data \<noteq> []
         \<and> select_target (params_id req) data = Inr target
         \<and> \<not> js_truthy (js_get_opt target ''url'') \<longrightarrow>
         fst (handler cfg io req s) = res_403)
    \<and> (songUrlModule io (resolver_query req) = Inr mr \<and> status mr = 200
         \<and> js_get_opt (body mr) ''data'' = JArr data \<and> data \<noteq> []
         \<and> select_target (params_id req) data = Inl e \<longrightarrow>
         fst (handler cfg io req s) = res_500)
    \<and> (songUrlModule io (resolver_query req) = Inr mr \<and> status mr = 200
         \<and> js_get_opt (body mr) ''data'' = JArr data \<and> data \<noteq> []
         \<and> select_target (params_id req) data = Inr target
         \<and> js_truthy (js_get_opt target ''url'')
         \<and> js_truthy (js_get_opt target ''type'') \<and> (\<forall>t. js_get_opt target ''type'' \<noteq> JStr t) \<longrightarrow>
         fst (handler cfg io req s) = res_500)
    \<and> (songUrlModule io (resolver_query req) = Inr mr \<and> status mr = 200
         \<and> js_get_opt (body mr) ''data'' = JArr data \<and> data \<noteq> []
         \<and> select_target (params_id req) data = Inr target
         \<and> js_truthy (js_get_opt target ''url'')
         \<and> (\<not> js_truthy (js_get_opt target ''type'') \<or> (\<exists>t. js_get_opt target ''type'' = JStr t))
         \<and> inflightDownloads s (base_path cfg req) = None
         \<and> fst (download_body cfg io (base_path cfg req) (js_get_opt target ''url'')
                   (fetch_options (params_id req) target) (fs (after_resolve cfg io req s))) = Inl e \<longrightarrow>
         fst (handler cfg io req s) = res_500)
    \<and> (songUrlModule io (resolver_query req) = Inr mr \<and> status mr = 200
         \<and> js_get_opt (body mr) ''data'' = JArr data \<and> data \<noteq> []
         \<and> select_target (params_id req) data = Inr target
         \<and> js_truthy (js_get_opt target ''url'')
         \<and> (\<not> js_truthy (js_get_opt target ''type'') \<or> (\<exists>t. js_get_opt target ''type'' = JStr t))
         \<and> inflightDownloads s (base_path cfg req) = None
         \<and> fst (download_body cfg io (base_path cfg req) (js_get_opt target ''url'')
                   (fetch_options (params_id req) target) (fs (after_resolve cfg io req s))) = Inr path
         \<and> readCacheMetadata (JSON_parse io)
              (snd (download_body cfg io (base_path cfg req) (js_get_opt target ''url'')
                      (fetch_options (params_id req) target) (fs (after_resolve cfg io req s))))
              (base_path cfg req @ ''.json'') = Inr m
         \<and> set_cache_headers m False fresh_res = Inl (e, r) \<longrightarrow>
         fst (handler cfg io req s) = caught r))
 \<and> statusCode res_404 = 404 \<and> statusCode res_403 = 403 \<and> res_500 = caught fresh_res"
proof -
  let ?b = "base_path cfg req"
  let ?s1 = "after_check cfg io req s"
  let ?sr = "after_resolve cfg io req s"
  note s0 = after_resolve_eq[of cfg io req s]
  have t1: "try_block cfg io req s = (Inl (e, r), s') \<longrightarrow> handler cfg io req s = (caught r, s')"
    using handler_try(2)[OF assms] by blast
  have t2: "try_block cfg io req s = (Inr res, s') \<longrightarrow> handler cfg io req s = (res, s')"
    using handler_try(1)[OF assms] by blast
  have hit: "handler cfg io req s = (caught r, s)"
    if "valid (getCacheStatus cfg io (fs s) (?b @ ''.bin''))"
       "readCacheMetadata (JSON_parse io) (fs s) (?b @ ''.json'') = Inr m"
       "set_cache_headers m True fresh_res = Inl (e, r)"
    using handler_try(2)[OF assms, of cfg io s e r s]
    unfolding try_block_hit[OF that(1,2)] stream_throws[OF that(3)] by simp
  have miss: "(songUrlModule io (resolver_query req) = Inl e \<longrightarrow> fst (handler cfg io req s) = res_500)
    \<and> (songUrlModule io (resolver_query req) = Inr mr \<and> status mr \<noteq> 200
         \<and> status_send io (status mr) (js_or (body mr) (JObj [(''code'', JNum (status mr))])) = Inl e \<longrightarrow>
         fst (handler cfg io req s) = res_500)
    \<and> (songUrlModule io (resolver_query req) = Inr mr \<and> status mr \<noteq> 200
         \<and> status_send io (status mr) (js_or (body mr) (JObj [(''code'', JNum (status mr))])) = Inr (c, sent) \<longrightarrow>
         fst (handler cfg io req s) = fresh_res\<lparr>statusCode := c, payload := sent, headersSent := True\<rparr>)
    \<and> (songUrlModule io (resolver_query req) = Inr mr \<and> status mr \<noteq> 200
         \<and> status_send io (status mr) (js_or (body mr) (JObj [(''code'', JNum (status mr))]))
             = Inr (status mr, SendBody (js_or (body mr) (JObj [(''code'', JNum (status mr))]))) \<longrightarrow>
         fst (handler cfg io req s)
           = res_send (if js_truthy (body mr) then body mr else JObj [(''code'', JNum (status mr))])
               (res_status (status mr) fresh_res))
    \<and> (songUrlModule io (resolver_query req) = Inr mr \<and> status mr = 200
         \<and> (\<forall>data. js_get_opt (body mr) ''data'' = JArr data \<longrightarrow> data = []) \<longrightarrow>
         fst (handler cfg io req s) = res_404)
    \<and> (songUrlModule io (resolver_query req) = Inr mr \<and> status mr = 200
         \<and> js_get_opt (body mr) ''data'' = JArr data \<and> data \<noteq> []
         \<and> select_target (params_id req) data = Inr target
         \<and> \<not> js_truthy (js_get_opt target ''url'') \<longrightarrow>
         fst (handler cfg io req s) = res_403)
    \<and> (songUrlModule io (resolver_query req) = Inr mr \<and> status mr = 200
         \<and> js_get_opt (body mr) ''data'' = JArr data \<and> data \<noteq> []
         \<and> select_target (params_id req) data = Inl e \<longrightarrow>
         fst (handler cfg io req s) = res_500)
    \<and> (songUrlModule io (resolver_query req) = Inr mr \<and> status mr = 200
         \<and> js_get_opt (body mr) ''data'' = JArr data \<and> data \<noteq> []
         \<and> select_target (params_id req) data = Inr target
         \<and> js_truthy (js_get_opt target ''url'')
         \<and> js_truthy (js_get_opt target ''type'') \<and> (\<forall>t. js_get_opt target ''type'' \<noteq> JStr t) \<longrightarrow>
         fst (handler cfg io req s) = res_500)
    \<and> (songUrlModule io (resolver_query req) = Inr mr \<and> status mr = 200
         \<and> js_get_opt (body mr) ''data'' = JArr data \<and> data \<noteq> []
         \<and> select_target (params_id req) data = Inr target
         \<and> js_truthy (js_get_opt target ''url'')
         \<and> (\<not> js_truthy (js_get_opt target ''type'') \<or> (\<exists>t. js_get_opt target ''type'' = JStr t))
         \<and> inflightDownloads s (base_path cfg req) = None
         \<and> fst (download_body cfg io (base_path cfg req) (js_get_opt target ''url'')
                   (fetch_options (params_id req) target) (fs (after_resolve cfg io req s))) = Inl e \<longrightarrow>
         fst (handler cfg io req s) = res_500)
    \<and> (songUrlModule io (resolver_query req) = Inr mr \<and> status mr = 200
         \<and> js_get_opt (body mr) ''data'' = JArr data \<and> data \<noteq> []
         \<and> select_target (params_id req) data = Inr target
         \<and> js_truthy (js_get_opt target ''url'')
         \<and> (\<not> js_truthy (js_get_opt target ''type'') \<or> (\<exists>t. js_get_opt target ''type'' = JStr t))
         \<and> inflightDownloads s (base_path cfg req) = None
         \<and> fst (download_body cfg io (base_path cfg req) (js_get_opt target ''url'')
                   (fetch_options (params_id req) target) (fs (after_resolve cfg io req s))) = Inr path
         \<and> readCacheMetadata (JSON_parse io)
              (snd (download_body cfg io (base_path cfg req) (js_get_opt target ''url'')
                      (fetch_options (params_id req) target) (fs (after_resolve cfg io req s))))
              (base_path cfg req @ ''.json'') = Inr m
         \<and> set_cache_headers m False fresh_res = Inl (e, r) \<longrightarrow>
         fst (handler cfg io req s) = caught r)"
      (is "?Ma \<and> ?Mb \<and> ?Mc \<and> ?Md \<and> ?Me \<and> ?Mf \<and> ?Mg \<and> ?Mh \<and> ?Mi \<and> ?Mj")
    if nv: "\<not> valid (getCacheStatus cfg io (fs s) (?b @ ''.bin''))"
  proof -
    note hm = handler_miss[OF assms nv]
    have a0: "fst (handler cfg io req s) = res_500" if "songUrlModule io (resolver_query req) = Inl e"
      using hm(2)[OF resolve_throws[OF that, of cfg ?b ?s1]] by (simp add: caught_fresh)
    have a1: "fst (handler cfg io req s) = res_500"
      if "songUrlModule io (resolver_query req) = Inr mr" "status mr \<noteq> 200"
         "status_send io (status mr) (js_or (body mr) (JObj [(''code'', JNum (status mr))])) = Inl e"
      using hm(2)[OF resolve_forwards(2)[OF that, of cfg ?b ?s1]] by (simp add: caught_fresh)
    have a2: "fst (handler cfg io req s) = fresh_res\<lparr>statusCode := c, payload := sent, headersSent := True\<rparr>"
      if "songUrlModule io (resolver_query req) = Inr mr" "status mr \<noteq> 200"
         "status_send io (status mr) (js_or (body mr) (JObj [(''code'', JNum (status mr))])) = Inr (c, sent)"
      for c sent
      using hm(1)[OF resolve_forwards(1)[OF that, of cfg ?b ?s1]] by simp
    have a3: "fst (handler cfg io req s)
           = res_send (if js_truthy (body mr) then body mr else JObj [(''code'', JNum (status mr))])
               (res_status (status mr) fresh_res)"
      if "songUrlModule io (resolver_query req) = Inr mr" "status mr \<noteq> 200"
         "status_send io (status mr) (js_or (body mr) (JObj [(''code'', JNum (status mr))]))
             = Inr (status mr, SendBody (js_or (body mr) (JObj [(''code'', JNum (status mr))])))"
      using a2[OF that] by (simp add: res_send_def res_status_def js_or_def)
    have b: "fst (handler cfg io req s) = res_404"
      if "songUrlModule io (resolver_query req) = Inr mr" "status mr = 200"
         "\<forall>data. js_get_opt (body mr) ''data'' = JArr data \<longrightarrow> data = []"
      using hm(1)[OF resolve_not_found[OF that, of cfg ?b ?s1]] by simp
    have tg: "resolve_and_fetch cfg io req ?b ?s1 =
           (case select_target (params_id req) data of
              Inl e \<Rightarrow> (Inl (e, fresh_res), ?sr)
            | Inr target \<Rightarrow>
                if \<not> js_truthy (js_get_opt target ''url'') then (Inr res_403, ?sr)
                else fetch_and_stream cfg io (params_id req) ?b target ?sr)"
      if "songUrlModule io (resolver_query req) = Inr mr" "status mr = 200"
         "js_get_opt (body mr) ''data'' = JArr data" "data \<noteq> []"
      unfolding resolve_target[OF that] s0 ..
    have c: "fst (handler cfg io req s) = res_403"
      if h: "songUrlModule io (resolver_query req) = Inr mr" "status mr = 200"
         "js_get_opt (body mr) ''data'' = JArr data" "data \<noteq> []"
         and t: "select_target (params_id req) data = Inr target" "\<not> js_truthy (js_get_opt target ''url'')"
    proof -
      have "resolve_and_fetch cfg io req ?b ?s1 = (Inr res_403, ?sr)"
        unfolding tg[OF h] using t by simp
      then show ?thesis using hm(1) by simp
    qed
    have f: "fst (handler cfg io req s) = res_500"
      if h: "songUrlModule io (resolver_query req) = Inr mr" "status mr = 200"
         "js_get_opt (body mr) ''data'' = JArr data" "data \<noteq> []"
         and t: "select_target (params_id req) data = Inl e"
    proof -
      have "resolve_and_fetch cfg io req ?b ?s1 = (Inl (e, fresh_res), ?sr)"
        unfolding tg[OF h] using t by simp
      then show ?thesis using hm(2) by (simp add: caught_fresh)
    qed
    have via_fetch: "fst (handler cfg io req s) = caught r'"
      if h: "songUrlModule io (resolver_query req) = Inr mr" "status mr = 200"
         "js_get_opt (body mr) ''data'' = JArr data" "data \<noteq> []"
         and t: "select_target (params_id req) data = Inr target" "js_truthy (js_get_opt target ''url'')"
         and x: "fst (fetch_and_stream cfg io (params_id req) ?b target ?sr) = Inl (e', r')"
      for e' r'
    proof -
      have rr: "resolve_and_fetch cfg io req ?b ?s1 = fetch_and_stream cfg io (params_id req) ?b target ?sr"
        unfolding tg[OF h] using t by simp
      obtain s'' where "fetch_and_stream cfg io (params_id req) ?b target ?sr = (Inl (e', r'), s'')"
        using x by (cases "fetch_and_stream cfg io (params_id req) ?b target ?sr") simp
      then show ?thesis using hm(2)[of e' r' s''] rr by simp
    qed
    have g0: "fst (handler cfg io req s) = res_500"
      if h: "songUrlModule io (resolver_query req) = Inr mr" "status mr = 200"
         "js_get_opt (body mr) ''data'' = JArr data" "data \<noteq> []"
         and t: "select_target (params_id req) data = Inr target" "js_truthy (js_get_opt target ''url'')"
         and ty: "js_truthy (js_get_opt target ''type'')" "\<forall>t. js_get_opt target ''type'' \<noteq> JStr t"
      using via_fetch[OF h t, of TypeError fresh_res] fetch_bad_type[OF ty, of cfg io "params_id req" ?b ?sr]
      by (simp add: caught_fresh)
    have g1: "fst (handler cfg io req s) = res_500"
      if h: "songUrlModule io (resolver_query req) = Inr mr" "status mr = 200"
         "js_get_opt (body mr) ''data'' = JArr data" "data \<noteq> []"
         and t: "select_target (params_id req) data = Inr target" "js_truthy (js_get_opt target ''url'')"
         and ty: "\<not> js_truthy (js_get_opt target ''type'') \<or> (\<exists>t. js_get_opt target ''type'' = JStr t)"
         and free: "inflightDownloads s ?b = None"
         and dl: "fst (download_body cfg io ?b (js_get_opt target ''url'')
                  (fetch_options (params_id req) target) (fs ?sr)) = Inl e"
    proof -
      have fr: "inflightDownloads ?sr ?b = None" using free by (simp add: registry_after_resolve)
      show ?thesis using via_fetch[OF h t fetch_fails[OF ty fr dl]] by (simp add: caught_fresh)
    qed
    have g2: "fst (handler cfg io req s) = caught r"
      if h: "songUrlModule io (resolver_query req) = Inr mr" "status mr = 200"
         "js_get_opt (body mr) ''data'' = JArr data" "data \<noteq> []"
         and t: "select_target (params_id req) data = Inr target" "js_truthy (js_get_opt target ''url'')"
         and ty: "\<not> js_truthy (js_get_opt target ''type'') \<or> (\<exists>t. js_get_opt target ''type'' = JStr t)"
         and free: "inflightDownloads s ?b = None"
         and dl: "fst (download_body cfg io ?b (js_get_opt target ''url'')
                  (fetch_options (params_id req) target) (fs ?sr)) = Inr path"
         and md: "readCacheMetadata (JSON_parse io)
              (snd (download_body cfg io ?b (js_get_opt target ''url'')
                      (fetch_options (params_id req) target) (fs ?sr))) (?b @ ''.json'') = Inr m"
         and hd: "set_cache_headers m False fresh_res = Inl (e, r)"
    proof -
      have fr: "inflightDownloads ?sr ?b = None" using free by (simp add: registry_after_resolve)
      show ?thesis using via_fetch[OF h t fetch_header_throws[OF ty fr dl md hd]] .
    qed
    have Ma: ?Ma using a0 by blast
    have Mb: ?Mb using a1 by blast
    have Mc: ?Mc using a2 by blast
    have Md: ?Md using a3 by blast
    have Me: ?Me using b by blast
    have Mf: ?Mf using c by blast
    have Mg: ?Mg using f by blast
    have Mh: ?Mh using g0 by blast
    have Mi: ?Mi using g1 by blast
    have Mj: ?Mj using g2 by blast
    show ?thesis by (intro conjI Ma Mb Mc Md Me Mf Mg Mh Mi Mj)
  qed
  have k: "statusCode res_404 = 404 \<and> statusCode res_403 = 403 \<and> res_500 = caught fresh_res"
    unfolding caught_fresh by (simp add: res_404_def res_403_def res_json_def res_status_def)
  have hit': "valid (getCacheStatus cfg io (fs s) (base_path cfg req @ ''.bin''))
      \<and> readCacheMetadata (JSON_parse io) (fs s) (base_path cfg req @ ''.json'') = Inr m
      \<and> set_cache_headers m True fresh_res = Inl (e, r) \<longrightarrow>
      handler cfg io req s = (caught r, s)"
    using hit by blast
  note miss' = impI[OF miss]
  show ?thesis
    by (intro conjI t1 t2 caught_fields(1,2) hit' miss' k[THEN conjunct1] k[THEN conjunct2, THEN conjunct1]
          k[THEN conjunct2, THEN conjunct2])
qed

theorem resolver_outcome_mapping_witness:
  "fst (handler cfg_ex io_nobody (req_ex ''9'' JUndefined) (server_of w_full))
     = res_send (JObj [(''code'', JNum 502)]) (res_status 502 fresh_res)
 \<and> fst (handler cfg_ex (io_ex\<lparr>songUrlModule := (\<lambda>q. Inr \<lparr>status = 404, body = JStr ''gone''\<rparr>)\<rparr>)
          (req_ex ''9'' JUndefined) (server_of w_full))
     = res_send (JStr ''gone'') (res_status 404 fresh_res)
 \<and> fst (handler cfg_ex io_1000 (req_ex ''9'' JUndefined) (server_of w_full)) = res_500
 \<and> fst (handler cfg_ex (io_ex\<lparr>songUrlModule := (\<lambda>q. Inr \<lparr>status = 200, body = JObj [(''data'', JArr [])]\<rparr>)\<rparr>)
          (req_ex ''9'' JUndefined) (server_of w_full)) = res_404
 \<and> fst (handler cfg_ex (io_ex\<lparr>songUrlModule := (\<lambda>q. Inr \<lparr>status = 200,
                                   body = JObj [(''data'', JArr [JObj [(''id'', JNum 9)]])]\<rparr>)\<rparr>)
          (req_ex ''9'' JUndefined) (server_of w_full)) = res_403
 \<and> fst (handler cfg_ex (io_ex\<lparr>songUrlModule := (\<lambda>q. Inl ResolverError)\<rparr>)
          (req_ex ''9'' JUndefined) (server_of w_full)) = res_500
 \<and> fst (handler cfg_ex (io_ex\<lparr>songUrlModule := (\<lambda>q. Inr \<lparr>status = 200,
                                   body = JObj [(''data'', JArr [JNull])]\<rparr>)\<rparr>)
          (req_ex ''9'' JUndefined) (server_of w_full)) = res_500
 \<and> fst (handler cfg_ex (io_ex\<lparr>songUrlModule := (\<lambda>q. Inr \<lparr>status = 200,
                                   body = JObj [(''data'', JArr [JObj [(''id'', JNum 9), (''url'', JStr ''u''),
                                                                        (''type'', JNum 5)]])]\<rparr>)\<rparr>)
          (req_ex ''9'' JUndefined) (server_of w_full)) = res_500
 \<and> fst (handler cfg_ex (io_ex\<lparr>axios_get := (\<lambda>u h. Inl TimeoutError)\<rparr>)
          (req_ex ''9'' JUndefined) (server_of w_full)) = res_500
 \<and> handler cfg_ex io_badmeta (req_ex ''7'' JUndefined) (server_of w_full) = (res_500, server_of w_full)
 \<and> fst (handler cfg_unbounded io_badmeta (req_ex ''9'' JUndefined) (server_of w_nodir)) = res_500
 \<and> statusCode res_500 = 500
 \<and> payload res_500 = JsonBody (JObj [(''code'', JNum 500), (''msg'', JStr ''Audio proxy failed'')])"
proof -
  let ?req = "req_ex ''9'' JUndefined"
  let ?s = "server_of w_full"
  have id9: "params_id ?req = ''9''" by (simp add: req_ex_def)
  have k: "base_path cfg_ex ?req = ''/cache/9_default''"
    by (simp add: base_path_def path_join_def cfg_ex_def cacheKey_def req_ex_def bitrate_of_def js_or_def)
  have h1: "params_id ?req \<noteq> []" unfolding id9 by simp
  have nv: "\<not> valid (getCacheStatus cfg_ex io (fs ?s) (base_path cfg_ex ?req @ ''.bin''))" for io
    unfolding k by (simp add: getCacheStatus_def fs_stat_def server_of_def w_full_def)
  note R = resolver_outcome_mapping[OF h1]
  note M = R[THEN conjunct2, THEN conjunct2, THEN conjunct2, THEN conjunct2, THEN conjunct2,
             THEN conjunct1, THEN mp, OF nv]
  note Ma = M[THEN conjunct1, THEN mp]
  note Mb = M[THEN conjunct2, THEN conjunct1, THEN mp]
  note Md = M[THEN conjunct2, THEN conjunct2, THEN conjunct2, THEN conjunct1, THEN mp]
  note Me = M[THEN conjunct2, THEN conjunct2, THEN conjunct2, THEN conjunct2, THEN conjunct1, THEN mp]
  note Mf = M[THEN conjunct2, THEN conjunct2, THEN conjunct2, THEN conjunct2, THEN conjunct2,
              THEN conjunct1, THEN mp]
  note Mg = M[THEN conjunct2, THEN conjunct2, THEN conjunct2, THEN conjunct2, THEN conjunct2,
              THEN conjunct2, THEN conjunct1, THEN mp]
  note Mh = M[THEN conjunct2, THEN conjunct2, THEN conjunct2, THEN conjunct2, THEN conjunct2,
              THEN conjunct2, THEN conjunct2, THEN conjunct1, THEN mp]
  note Mi = M[THEN conjunct2, THEN conjunct2, THEN conjunct2, THEN conjunct2, THEN conjunct2,
              THEN conjunct2, THEN conjunct2, THEN conjunct2, THEN conjunct1, THEN mp]

  let ?m0 = "\<lparr>status = 502, body = JUndefined\<rparr>"
  have p0: "songUrlModule io_nobody (resolver_query ?req) = Inr ?m0 \<and> status ?m0 \<noteq> 200
         \<and> status_send io_nobody (status ?m0) (js_or (body ?m0) (JObj [(''code'', JNum (status ?m0))]))
             = Inr (status ?m0, SendBody (js_or (body ?m0) (JObj [(''code'', JNum (status ?m0))])))"
    by (simp add: io_nobody_def io_ex_def send_in_range_def)
  have a: "fst (handler cfg_ex io_nobody ?req ?s) = res_send (JObj [(''code'', JNum 502)]) (res_status 502 fresh_res)"
    using Md[OF p0] by simp

  let ?io1 = "io_ex\<lparr>songUrlModule := (\<lambda>q. Inr \<lparr>status = 404, body = JStr ''gone''\<rparr>)\<rparr>"
  let ?m1 = "\<lparr>status = 404, body = JStr ''gone''\<rparr>"
  have p1: "songUrlModule ?io1 (resolver_query ?req) = Inr ?m1 \<and> status ?m1 \<noteq> 200
         \<and> status_send ?io1 (status ?m1) (js_or (body ?m1) (JObj [(''code'', JNum (status ?m1))]))
             = Inr (status ?m1, SendBody (js_or (body ?m1) (JObj [(''code'', JNum (status ?m1))])))"
    by (simp add: io_ex_def send_in_range_def)
  have a': "fst (handler cfg_ex ?io1 ?req ?s) = res_send (JStr ''gone'') (res_status 404 fresh_res)"
    using Md[OF p1] by simp

  let ?m2 = "\<lparr>status = 1000, body = JStr ''x''\<rparr>"
  have p2: "songUrlModule io_1000 (resolver_query ?req) = Inr ?m2 \<and> status ?m2 \<noteq> 200
         \<and> status_send io_1000 (status ?m2) (js_or (body ?m2) (JObj [(''code'', JNum (status ?m2))]))
             = Inl RangeError"
    by (simp add: io_1000_def io_ex_def send_in_range_def js_or_def)
  have a'': "fst (handler cfg_ex io_1000 ?req ?s) = res_500"
    using Mb[OF p2] .

  let ?io3 = "io_ex\<lparr>songUrlModule := (\<lambda>q. Inr \<lparr>status = 200, body = JObj [(''data'', JArr [])]\<rparr>)\<rparr>"
  let ?m3 = "\<lparr>status = 200, body = JObj [(''data'', JArr [])]\<rparr>"
  have p3: "songUrlModule ?io3 (resolver_query ?req) = Inr ?m3 \<and> status ?m3 = 200
         \<and> (\<forall>data. js_get_opt (body ?m3) ''data'' = JArr data \<longrightarrow> data = [])"
    by (simp add: js_get_opt_def)
  have b: "fst (handler cfg_ex ?io3 ?req ?s) = res_404"
    using Me[OF p3] .

  let ?it4 = "JObj [(''id'', JNum 9)]"
  let ?m4 = "\<lparr>status = 200, body = JObj [(''data'', JArr [?it4])]\<rparr>"
  let ?io4 = "io_ex\<lparr>songUrlModule := (\<lambda>q. Inr ?m4)\<rparr>"
  have p4: "songUrlModule ?io4 (resolver_query ?req) = Inr ?m4 \<and> status ?m4 = 200
         \<and> js_get_opt (body ?m4) ''data'' = JArr [?it4] \<and> [?it4] \<noteq> []
         \<and> select_target (params_id ?req) [?it4] = Inr ?it4
         \<and> \<not> js_truthy (js_get_opt ?it4 ''url'')"
    unfolding id9 by (simp add: js_get_opt_def select_target_def show_int_digit js_or_def)
  have c: "fst (handler cfg_ex ?io4 ?req ?s) = res_403"
    using Mf[OF p4] .

  let ?io5 = "io_ex\<lparr>songUrlModule := (\<lambda>q. Inl ResolverError)\<rparr>"
  have p5: "songUrlModule ?io5 (resolver_query ?req) = Inl ResolverError" by simp
  have d: "fst (handler cfg_ex ?io5 ?req ?s) = res_500"
    using Ma[OF p5] .

  let ?m6 = "\<lparr>status = 200, body = JObj [(''data'', JArr [JNull])]\<rparr>"
  let ?io6 = "io_ex\<lparr>songUrlModule := (\<lambda>q. Inr ?m6)\<rparr>"
  have p6: "songUrlModule ?io6 (resolver_query ?req) = Inr ?m6 \<and> status ?m6 = 200
         \<and> js_get_opt (body ?m6) ''data'' = JArr [JNull] \<and> [JNull] \<noteq> []
         \<and> select_target (params_id ?req) [JNull] = Inl TypeError"
    by (simp add: js_get_opt_def select_target_def)
  have e: "fst (handler cfg_ex ?io6 ?req ?s) = res_500"
    using Mg[OF p6] .

  let ?it7 = "JObj [(''id'', JNum 9), (''url'', JStr ''u''), (''type'', JNum 5)]"
  let ?m7 = "\<lparr>status = 200, body = JObj [(''data'', JArr [?it7])]\<rparr>"
  let ?io7 = "io_ex\<lparr>songUrlModule := (\<lambda>q. Inr ?m7)\<rparr>"
  have p7: "songUrlModule ?io7 (resolver_query ?req) = Inr ?m7 \<and> status ?m7 = 200
         \<and> js_get_opt (body ?m7) ''data'' = JArr [?it7] \<and> [?it7] \<noteq> []
         \<and> select_target (params_id ?req) [?it7] = Inr ?it7
         \<and> js_truthy (js_get_opt ?it7 ''url'')
         \<and> js_truthy (js_get_opt ?it7 ''type'') \<and> (\<forall>t. js_get_opt ?it7 ''type'' \<noteq> JStr t)"
    unfolding id9 by (simp add: js_get_opt_def select_target_def show_int_digit js_or_def)
  have f: "fst (handler cfg_ex ?io7 ?req ?s) = res_500"
    using Mh[OF p7] .

  let ?io8 = "io_ex\<lparr>axios_get := (\<lambda>u h. Inl TimeoutError)\<rparr>"
  let ?item = "JObj [(''id'', JNum 8), (''url'', JStr ''http://m/8.mp3''), (''type'', JStr ''MP3'')]"
  let ?m8 = "\<lparr>status = 200, body = JObj [(''data'', JArr [?item])]\<rparr>"
  have mk: "\<not> mkdir_fails ?io8" by (simp add: io_ex_def)
  have dl: "fst (download_body cfg_ex ?io8 (base_path cfg_ex ?req) (js_get_opt ?item ''url'')
                (fetch_options (params_id ?req) ?item) (fs (after_resolve cfg_ex ?io8 ?req ?s))) = Inl TimeoutError"
    by (subst body_get_fails[OF mk]) simp_all
  have s8: "select_target (params_id ?req) [?item] = Inr ?item"
    unfolding id9 by (rule item8_selected) simp
  have p8: "songUrlModule ?io8 (resolver_query ?req) = Inr ?m8 \<and> status ?m8 = 200
         \<and> js_get_opt (body ?m8) ''data'' = JArr [?item] \<and> [?item] \<noteq> []
         \<and> select_target (params_id ?req) [?item] = Inr ?item
         \<and> js_truthy (js_get_opt ?item ''url'')
         \<and> (\<not> js_truthy (js_get_opt ?item ''type'') \<or> (\<exists>t. js_get_opt ?item ''type'' = JStr t))
         \<and> inflightDownloads ?s (base_path cfg_ex ?req) = None
         \<and> fst (download_body cfg_ex ?io8 (base_path cfg_ex ?req) (js_get_opt ?item ''url'')
                (fetch_options (params_id ?req) ?item) (fs (after_resolve cfg_ex ?io8 ?req ?s))) = Inl TimeoutError"
    using s8 dl by (simp add: js_get_opt_def io_ex_def server_of_def)
  have g: "fst (handler cfg_ex ?io8 ?req ?s) = res_500"
    using Mi[OF p8] .

  let ?r7 = "req_ex ''7'' JUndefined"
  have k7: "base_path cfg_ex ?r7 = ''/cache/7_default''"
    by (simp add: base_path_def path_join_def cfg_ex_def cacheKey_def req_ex_def bitrate_of_def js_or_def)
  have h7: "params_id ?r7 \<noteq> []" by (simp add: req_ex_def)
  have bad: "set_cache_headers meta_bad h fresh_res = Inl (TypeError, fresh_res)" for h
    by (simp add: set_cache_headers_def and_then_def meta_bad_def js_get_opt_def setHeader_def
        checkInvalidHeaderChar_def)
  have p9: "valid (getCacheStatus cfg_ex io_badmeta (fs ?s) (base_path cfg_ex ?r7 @ ''.bin''))
      \<and> readCacheMetadata (JSON_parse io_badmeta) (fs ?s) (base_path cfg_ex ?r7 @ ''.json'') = Inr meta_bad
      \<and> set_cache_headers meta_bad True fresh_res = Inl (TypeError, fresh_res)"
    unfolding k7 using bad
    by (simp add: getCacheStatus_def fs_stat_def server_of_def w_full_def io_badmeta_def io_ex_def
        cfg_ex_def AUDIO_CACHE_TTL_MS_def readCacheMetadata_def fs_readFile_def)
  note R7 = resolver_outcome_mapping[OF h7, THEN conjunct2, THEN conjunct2, THEN conjunct2, THEN conjunct2,
              THEN conjunct1, THEN mp]
  have i: "handler cfg_ex io_badmeta ?r7 ?s = (res_500, ?s)"
    using R7[OF p9] by (simp add: caught_fresh)

  let ?sn = "server_of w_nodir"
  let ?resp = "\<lparr>resp_headers = [(''content-type'', ''audio/mpeg'')], resp_data = ''abcdef''\<rparr>"
  let ?opts = "fetch_options (params_id ?req) ?item"
  have ku: "base_path cfg_unbounded ?req = ''/cache/9_default''"
    by (simp add: base_path_def path_join_def cfg_unbounded_def cacheKey_def req_ex_def bitrate_of_def js_or_def)
  have nvu: "\<not> valid (getCacheStatus cfg_unbounded io_badmeta (fs ?sn) (base_path cfg_unbounded ?req @ ''.bin''))"
    unfolding ku by (simp add: getCacheStatus_def fs_stat_def server_of_def w_nodir_def)
  have iob: "\<not> mkdir_fails io_badmeta"
    "axios_get io_badmeta (js_get_opt ?item ''url'') (opt_headers ?opts) = Inr ?resp"
    "pipeline_outcome io_badmeta = PipeDone" "\<not> rename_fails io_badmeta" "\<not> writeFile_fails io_badmeta"
    by (simp_all add: io_badmeta_def io_ex_def)
  have zu: "AUDIO_CACHE_MAX_BYTES cfg_unbounded = 0"
    by (simp add: AUDIO_CACHE_MAX_BYTES_def cfg_unbounded_def)
  let ?w0 = "fs (after_resolve cfg_unbounded io_badmeta ?req ?sn)"
  have bd: "download_body cfg_unbounded io_badmeta (base_path cfg_unbounded ?req) (js_get_opt ?item ''url'') ?opts ?w0
              = (Inr (base_path cfg_unbounded ?req @ ''.bin''),
                 after_meta cfg_unbounded io_badmeta (base_path cfg_unbounded ?req) (js_get_opt ?item ''url'')
                   ?opts ?resp ?w0)"
    unfolding body_succeeds[OF iob] by (simp add: enforce_unbounded[OF zu])
  have md: "readCacheMetadata (JSON_parse io_badmeta)
              (after_meta cfg_unbounded io_badmeta (base_path cfg_unbounded ?req) (js_get_opt ?item ''url'')
                   ?opts ?resp ?w0) (base_path cfg_unbounded ?req @ ''.json'') = Inr meta_bad"
    unfolding readCacheMetadata_def fs_readFile_def
    using files_after_meta_side(1)[of cfg_unbounded io_badmeta "base_path cfg_unbounded ?req"
            "js_get_opt ?item ''url''" ?opts ?resp ?w0]
    by (simp add: io_badmeta_def)
  have su: "select_target (params_id ?req) [?item] = Inr ?item" by (rule s8)
  have rs: "songUrlModule io_badmeta (resolver_query ?req) = Inr ?m8" "status ?m8 = 200"
     "js_get_opt (body ?m8) ''data'' = JArr [?item]" "[?item] \<noteq> []"
     "js_truthy (js_get_opt ?item ''url'')"
     "\<not> js_truthy (js_get_opt ?item ''type'') \<or> (\<exists>t. js_get_opt ?item ''type'' = JStr t)"
     "inflightDownloads ?sn (base_path cfg_unbounded ?req) = None"
    by (simp_all add: io_badmeta_def io_ex_def js_get_opt_def server_of_def)
  have p10: "songUrlModule io_badmeta (resolver_query ?req) = Inr ?m8 \<and> status ?m8 = 200
         \<and> js_get_opt (body ?m8) ''data'' = JArr [?item] \<and> [?item] \<noteq> []
         \<and> select_target (params_id ?req) [?item] = Inr ?item
         \<and> js_truthy (js_get_opt ?item ''url'')
         \<and> (\<not> js_truthy (js_get_opt ?item ''type'') \<or> (\<exists>t. js_get_opt ?item ''type'' = JStr t))
         \<and> inflightDownloads ?sn (base_path cfg_unbounded ?req) = None
         \<and> fst (download_body cfg_unbounded io_badmeta (base_path cfg_unbounded ?req) (js_get_opt ?item ''url'')
                   ?opts ?w0) = Inr (base_path cfg_unbounded ?req @ ''.bin'')
         \<and> readCacheMetadata (JSON_parse io_badmeta)
              (snd (download_body cfg_unbounded io_badmeta (base_path cfg_unbounded ?req) (js_get_opt ?item ''url'')
                      ?opts ?w0))
              (base_path cfg_unbounded ?req @ ''.json'') = Inr meta_bad
         \<and> set_cache_headers meta_bad False fresh_res = Inl (TypeError, fresh_res)"
    unfolding bd using rs su md bad[of False] by simp
  note Mj = resolver_outcome_mapping[OF h1, THEN conjunct2, THEN conjunct2, THEN conjunct2, THEN conjunct2,
              THEN conjunct2, THEN conjunct1, THEN mp, OF nvu,
              THEN conjunct2, THEN conjunct2, THEN conjunct2, THEN conjunct2, THEN conjunct2,
              THEN conjunct2, THEN conjunct2, THEN conjunct2, THEN conjunct2, THEN mp]
  have j: "fst (handler cfg_unbounded io_badmeta ?req ?sn) = res_500"
    using Mj[OF p10] by (simp add: caught_fresh)

  have l: "statusCode res_500 = 500"
     "payload res_500 = JsonBody (JObj [(''code'', JNum 500), (''msg'', JStr ''Audio proxy failed'')])"
    using R[THEN conjunct2, THEN conjunct2, THEN conjunct1, of fresh_res]
          R[THEN conjunct2, THEN conjunct2, THEN conjunct2, THEN conjunct1, of fresh_res]
    by (simp_all add: caught_fresh)
  show ?thesis using a a' a'' b c d e f g i j l by simp
qed

text \<open>
  Two resolver responses that do not reach the client as they are. One has status
  502 and no body: the client is sent the body \<open>{code: 502}\<close>. The other has status
  1000, which \<open>send\<close> refuses: the client is sent status 500 with the body of the
  \<open>catch\<close> clause.
\<close>

theorem resolver_response_not_forwarded:
  "songUrlModule io_nobody (resolver_query (req_ex ''9'' JUndefined)) = Inr \<lparr>status = 502, body = JUndefined\<rparr>
 \<and> statusCode (fst (handler cfg_ex io_nobody (req_ex ''9'' JUndefined) (server_of w_full))) = 502
 \<and> payload (fst (handler cfg_ex io_nobody (req_ex ''9'' JUndefined) (server_of w_full)))
     = SendBody (JObj [(''code'', JNum 502)])
 \<and> payload (fst (handler cfg_ex io_nobody (req_ex ''9'' JUndefined) (server_of w_full)))
     \<noteq> SendBody (body \<lparr>status = 502, body = JUndefined\<rparr>)
 \<and> songUrlModule io_1000 (resolver_query (req_ex ''9'' JUndefined)) = Inr \<lparr>status = 1000, body = JStr ''x''\<rparr>
 \<and> statusCode (fst (handler cfg_ex io_1000 (req_ex ''9'' JUndefined) (server_of w_full))) = 500
 \<and> payload (fst (handler cfg_ex io_1000 (req_ex ''9'' JUndefined) (server_of w_full)))
     = JsonBody (JObj [(''code'', JNum 500), (''msg'', JStr ''Audio proxy failed'')])"
proof -
  let ?req = "req_ex ''9'' JUndefined"
  let ?s = "server_of w_full"
  let ?m1 = "\<lparr>status = 502, body = JUndefined\<rparr>"
  let ?m2 = "\<lparr>status = 1000, body = JStr ''x''\<rparr>"
  have k: "base_path cfg_ex ?req = ''/cache/9_default''"
    by (simp add: base_path_def path_join_def cfg_ex_def cacheKey_def req_ex_def bitrate_of_def js_or_def)
  have h1: "params_id ?req \<noteq> []" by (simp add: req_ex_def)
  have nv: "\<not> valid (getCacheStatus cfg_ex io (fs ?s) (base_path cfg_ex ?req @ ''.bin''))" for io
    unfolding k by (simp add: getCacheStatus_def fs_stat_def server_of_def w_full_def)
  have r1: "songUrlModule io_nobody (resolver_query ?req) = Inr ?m1" "status ?m1 \<noteq> 200"
    by (simp_all add: io_nobody_def)
  have s1: "status_send io_nobody (status ?m1) (js_or (body ?m1) (JObj [(''code'', JNum (status ?m1))]))
              = Inr (502, SendBody (JObj [(''code'', JNum 502)]))"
    by (simp add: io_nobody_def io_ex_def send_in_range_def js_or_def)
  have "handler cfg_ex io_nobody ?req ?s
          = (fresh_res\<lparr>statusCode := 502, payload := SendBody (JObj [(''code'', JNum 502)]), headersSent := True\<rparr>,
             (after_check cfg_ex io_nobody ?req ?s)\<lparr>fs := (fs (after_check cfg_ex io_nobody ?req ?s))\<lparr>log :=
                log (fs (after_check cfg_ex io_nobody ?req ?s)) @ [EvResolve (resolver_query ?req)]\<rparr>\<rparr>)"
    using handler_miss(1)[OF h1 nv resolve_forwards(1)[OF r1 s1]] .
  then have a: "statusCode (fst (handler cfg_ex io_nobody ?req ?s)) = 502"
    "payload (fst (handler cfg_ex io_nobody ?req ?s)) = SendBody (JObj [(''code'', JNum 502)])"
    by simp_all
  have r2: "songUrlModule io_1000 (resolver_query ?req) = Inr ?m2" "status ?m2 \<noteq> 200"
    by (simp_all add: io_1000_def)
  have s2: "status_send io_1000 (status ?m2) (js_or (body ?m2) (JObj [(''code'', JNum (status ?m2))]))
              = Inl RangeError"
    by (simp add: io_1000_def io_ex_def send_in_range_def js_or_def)
  have "handler cfg_ex io_1000 ?req ?s
          = (caught fresh_res,
             (after_check cfg_ex io_1000 ?req ?s)\<lparr>fs := (fs (after_check cfg_ex io_1000 ?req ?s))\<lparr>log :=
                log (fs (after_check cfg_ex io_1000 ?req ?s)) @ [EvResolve (resolver_query ?req)]\<rparr>\<rparr>)"
    using handler_miss(2)[OF h1 nv resolve_forwards(2)[OF r2 s2]] .
  then have b: "statusCode (fst (handler cfg_ex io_1000 ?req ?s)) = 500"
    "payload (fst (handler cfg_ex io_1000 ?req ?s))
       = JsonBody (JObj [(''code'', JNum 500), (''msg'', JStr ''Audio proxy failed'')])"
    by (simp_all add: caught_fields)
  show ?thesis using r1(1) r2(1) a b by simp
qed

text \<open>
  Claim C9 (target fallback). When the resolver's \<open>data\<close> array is not empty and no
  item's id prints as the requested id, the selected target is the first item. If
  that item has a truthy \<open>url\<close>, the \<open>try\<close> block goes on to fetch it for the cache
  base path of the requested id: with a usable \<open>type\<close> and no download of that path
  in flight, the files the request leaves behind are those of the download of the
  first item's url to the requested id's base path.
\<close>

theorem target_fallback:
  assumes "data \<noteq> []"
      and "\<forall>item\<in>set data. \<exists>v. js_get item ''id'' = Inr v \<and> js_String v \<noteq> params_id req"
  shows
  "select_target (params_id req) data = Inr (hd data)
 \<and> (params_id req \<noteq> []
      \<and> \<not> valid (getCacheStatus cfg io (fs s) (base_path cfg req @ ''.bin''))
      \<and> songUrlModule io (resolver_query req) = Inr mr \<and> status mr = 200
      \<and> js_get_opt (body mr) ''data'' = JArr data
      \<and> js_truthy (js_get_opt (hd data) ''url'') \<longrightarrow>
        try_block cfg io req s
          = fetch_and_stream cfg io (params_id req) (base_path cfg req) (hd data)
              (after_resolve cfg io req s)
      \<and> ((\<not> js_truthy (js_get_opt (hd data) ''type'') \<or> (\<exists>t. js_get_opt (hd data) ''type'' = JStr t))
          \<and> inflightDownloads s (base_path cfg req) = None \<longrightarrow>
            fs (snd (handler cfg io req s))
              = snd (download_body cfg io (base_path cfg req) (js_get_opt (hd data) ''url'')
                       (fetch_options (params_id req) (hd data)) (fs (after_resolve cfg io req s)))))"
proof -
  let ?b = "base_path cfg req"
  let ?s1 = "after_check cfg io req s"
  let ?sr = "after_resolve cfg io req s"
  have sel: "select_target (params_id req) data = Inr (hd data)"
    using select_fallback[OF assms] .
  note s0 = after_resolve_eq[of cfg io req s]
  have rest: "try_block cfg io req s = fetch_and_stream cfg io (params_id req) ?b (hd data) ?sr
      \<and> ((\<not> js_truthy (js_get_opt (hd data) ''type'') \<or> (\<exists>t. js_get_opt (hd data) ''type'' = JStr t))
          \<and> inflightDownloads s ?b = None \<longrightarrow>
            fs (snd (handler cfg io req s))
              = snd (download_body cfg io ?b (js_get_opt (hd data) ''url'')
                       (fetch_options (params_id req) (hd data)) (fs ?sr)))"
    if h: "params_id req \<noteq> []"
          "\<not> valid (getCacheStatus cfg io (fs s) (?b @ ''.bin''))"
          "songUrlModule io (resolver_query req) = Inr mr" "status mr = 200"
          "js_get_opt (body mr) ''data'' = JArr data"
          "js_truthy (js_get_opt (hd data) ''url'')"
  proof -
    have r: "resolve_and_fetch cfg io req ?b ?s1 = fetch_and_stream cfg io (params_id req) ?b (hd data) ?sr"
      unfolding resolve_target[OF h(3,4,5) assms(1)] s0 sel using h(6) by simp
    have t: "try_block cfg io req s = fetch_and_stream cfg io (params_id req) ?b (hd data) ?sr"
      using try_block_miss[OF h(2)] r by simp
    have w: "fs (snd (handler cfg io req s))
              = snd (download_body cfg io ?b (js_get_opt (hd data) ''url'')
                       (fetch_options (params_id req) (hd data)) (fs ?sr))"
      if ty: "\<not> js_truthy (js_get_opt (hd data) ''type'') \<or> (\<exists>t. js_get_opt (hd data) ''type'' = JStr t)"
        and free: "inflightDownloads s ?b = None"
    proof -
      have fr: "inflightDownloads ?sr ?b = None" using free by (simp add: registry_after_resolve)
      show ?thesis unfolding handler_state[OF h(1)] t using fetch_world[OF ty fr] by simp
    qed
    show ?thesis using t w by blast
  qed
  show ?thesis using sel rest by blast
qed

theorem target_fallback_witness:
  "select_target ''9'' [JObj [(''id'', JNum 8), (''url'', JStr ''http://m/8.mp3''), (''type'', JStr ''MP3'')]]
     = Inr (JObj [(''id'', JNum 8), (''url'', JStr ''http://m/8.mp3''), (''type'', JStr ''MP3'')])
 \<and> map_of (files (fs (snd (handler cfg_unbounded io_ex (req_ex ''9'' JUndefined) (server_of w_nodir)))))
       ''/cache/9_default.bin'' = Some \<lparr>fdata = ''abcdef'', fmtimeMs = 5000\<rparr>
 \<and> EvHttpGet (JStr ''http://m/8.mp3'')
       \<in> set (log (fs (snd (handler cfg_unbounded io_ex (req_ex ''9'' JUndefined) (server_of w_nodir)))))"
proof -
  let ?item = "JObj [(''id'', JNum 8), (''url'', JStr ''http://m/8.mp3''), (''type'', JStr ''MP3'')]"
  let ?req = "req_ex ''9'' JUndefined"
  let ?s = "server_of w_nodir"
  let ?mr = "\<lparr>status = 200, body = JObj [(''data'', JArr [?item])]\<rparr>"
  let ?resp = "\<lparr>resp_headers = [(''content-type'', ''audio/mpeg'')], resp_data = ''abcdef''\<rparr>"
  have id9: "params_id ?req = ''9''" by (simp add: req_ex_def)
  have h0: "[?item] \<noteq> []" by simp
  have h1: "\<forall>item\<in>set [?item]. \<exists>v. js_get item ''id'' = Inr v \<and> js_String v \<noteq> params_id ?req"
    unfolding id9 by (simp add: show_int_digit)
  have k: "base_path cfg_unbounded ?req = ''/cache/9_default''"
    by (simp add: base_path_def path_join_def cfg_unbounded_def cacheKey_def req_ex_def bitrate_of_def js_or_def)
  have h2: "params_id ?req \<noteq> []" unfolding id9 by simp
  have h3: "\<not> valid (getCacheStatus cfg_unbounded io_ex (fs ?s) (base_path cfg_unbounded ?req @ ''.bin''))"
    unfolding k by (simp add: getCacheStatus_def fs_stat_def server_of_def w_nodir_def)
  have h4: "songUrlModule io_ex (resolver_query ?req) = Inr ?mr" "status ?mr = 200"
    "js_get_opt (body ?mr) ''data'' = JArr [?item]"
    by (simp_all add: io_ex_def js_get_opt_def)
  have h5: "js_truthy (js_get_opt (hd [?item]) ''url'')" by (simp add: js_get_opt_def)
  have h6: "\<not> js_truthy (js_get_opt (hd [?item]) ''type'') \<or> (\<exists>t. js_get_opt (hd [?item]) ''type'' = JStr t)"
    by (simp add: js_get_opt_def)
  have h7: "inflightDownloads ?s (base_path cfg_unbounded ?req) = None" by (simp add: server_of_def)
  from target_fallback[OF h0 h1, where cfg=cfg_unbounded and io=io_ex and s="?s" and mr="?mr"]
    h2 h3 h4 h5 h6 h7
  have sel: "select_target (params_id ?req) [?item] = Inr (hd [?item])"
    and w: "fs (snd (handler cfg_unbounded io_ex ?req ?s))
              = snd (download_body cfg_unbounded io_ex (base_path cfg_unbounded ?req) (js_get_opt (hd [?item]) ''url'')
                       (fetch_options (params_id ?req) (hd [?item])) (fs (after_resolve cfg_unbounded io_ex ?req ?s)))"
    by blast+
  have u: "js_get_opt (hd [?item]) ''url'' = JStr ''http://m/8.mp3''" by (simp add: js_get_opt_def)
  have io: "\<not> mkdir_fails io_ex"
    "axios_get io_ex (JStr ''http://m/8.mp3'') (opt_headers (fetch_options (params_id ?req) (hd [?item]))) = Inr ?resp"
    "pipeline_outcome io_ex = PipeDone" "\<not> rename_fails io_ex" "\<not> writeFile_fails io_ex"
    by (simp_all add: io_ex_def)
  have z: "AUDIO_CACHE_MAX_BYTES cfg_unbounded = 0"
    by (simp add: AUDIO_CACHE_MAX_BYTES_def cfg_unbounded_def)
  have w': "fs (snd (handler cfg_unbounded io_ex ?req ?s))
             = after_meta cfg_unbounded io_ex ''/cache/9_default'' (JStr ''http://m/8.mp3'')
                 (fetch_options (params_id ?req) (hd [?item])) ?resp (fs (after_resolve cfg_unbounded io_ex ?req ?s))"
    unfolding w k u body_succeeds[OF io] by (simp add: enforce_unbounded[OF z])
  have a: "map_of (files (fs (snd (handler cfg_unbounded io_ex ?req ?s)))) ''/cache/9_default.bin''
             = Some \<lparr>fdata = ''abcdef'', fmtimeMs = 5000\<rparr>"
    unfolding w' using files_after_meta(1)[of cfg_unbounded io_ex "''/cache/9_default''"]
    by (simp add: io_ex_def)
  have b: "EvHttpGet (JStr ''http://m/8.mp3'') \<in> set (log (fs (snd (handler cfg_unbounded io_ex ?req ?s))))"
    unfolding w' by (simp add: log_after_meta)
  show ?thesis using sel a b unfolding id9 by simp
qed

subsection \<open>A blob larger than the budget\<close>

lemma map_of_unlinked_None: "map_of fl p = None \<Longrightarrow> map_of (unlinked io q fl) p = None"
  unfolding unlinked_def by (simp add: delete_conv')

lemma map_of_remove_None:
  "map_of (files w) p = None \<Longrightarrow> map_of (files (snd (removeCacheEntry io b w))) p = None"
  by (simp add: files_removeCacheEntry map_of_unlinked_None)

lemma map_of_remove_self:
  "\<not> unlink_fails io (b @ ''.bin'') \<Longrightarrow> map_of (files (snd (removeCacheEntry io b w))) (b @ ''.bin'') = None"
  "\<not> unlink_fails io (b @ ''.json'') \<Longrightarrow> map_of (files (snd (removeCacheEntry io b w))) (b @ ''.json'') = None"
  by (simp_all add: files_removeCacheEntry unlinked_absent)

lemma fold_remove_None:
  "map_of (files w) p = None \<Longrightarrow>
   map_of (files (fold (\<lambda>e w. snd (removeCacheEntry io (base e) w)) es w)) p = None"
  by (induction es arbitrary: w) (simp_all add: map_of_remove_None)

lemma fold_remove_member:
  "e \<in> set es \<Longrightarrow>
   (\<not> unlink_fails io (base e @ ''.bin'') \<longrightarrow>
      map_of (files (fold (\<lambda>e w. snd (removeCacheEntry io (base e) w)) es w)) (base e @ ''.bin'') = None)
 \<and> (\<not> unlink_fails io (base e @ ''.json'') \<longrightarrow>
      map_of (files (fold (\<lambda>e w. snd (removeCacheEntry io (base e) w)) es w)) (base e @ ''.json'') = None)"
proof (induction es arbitrary: w)
  case Nil
  then show ?case by simp
next
  case (Cons x es)
  show ?case
  proof (cases "e = x")
    case True
    then show ?thesis by (simp add: fold_remove_None map_of_remove_self)
  next
    case False
    with Cons show ?thesis by simp
  qed
qed

lemma sorted_take_older:
  assumes "sorted (map f es)" "x \<in> set (take k es)" "y \<in> set es" "f y < (f x :: int)"
  shows "y \<in> set (take k es)"
proof (rule ccontr)
  assume "y \<notin> set (take k es)"
  with assms(3) have y: "y \<in> set (drop k es)" by (metis Un_iff append_take_drop_id set_append)
  from assms(1) have "sorted (map f (take k es) @ map f (drop k es))"
    by (metis append_take_drop_id map_append)
  then have "f x \<le> f y" using assms(2) y by (auto simp: sorted_append)
  with assms(4) show False by simp
qed

lemma big_entry_in_prefix:
  assumes "e \<in> set es" "budget < int (size_e e)"
      and "k < length es \<longrightarrow> (\<Sum>e\<leftarrow>drop k es. int (size_e e)) \<le> budget"
      and "k \<le> length es"
  shows "e \<in> set (take k es)"
proof (rule ccontr)
  assume n: "e \<notin> set (take k es)"
  with assms(1) have d: "e \<in> set (drop k es)" by (metis Un_iff append_take_drop_id set_append)
  then have "k < length es" by (cases "k < length es") auto
  with assms(3) have le: "(\<Sum>e\<leftarrow>drop k es. int (size_e e)) \<le> budget" by simp
  have "int (size_e e) \<le> (\<Sum>e\<leftarrow>drop k es. int (size_e e))"
    using d by (intro member_le_sum_list) auto
  with le assms(2) show False by simp
qed

lemma take_length_append: "take (length xs) (xs @ ys) = xs"
  by simp

lemma drop_length_append: "drop (length xs) (xs @ ys) = ys"
  by simp

lemma is_blob_join:
  "CHR ''/'' \<notin> set k \<Longrightarrow> is_blob cfg (path_join (AUDIO_CACHE_DIR cfg) k @ ''.bin'')"
proof -
  let ?d = "AUDIO_CACHE_DIR cfg"
  assume k: "CHR ''/'' \<notin> set k"
  have p: "path_join ?d k @ ''.bin'' = (?d @ ''/'') @ (k @ ''.bin'')" by (simp add: path_join_def)
  have l: "length ?d + 1 = length (?d @ ''/'')" by simp
  have t: "take (length ?d + 1) (path_join ?d k @ ''.bin'') = ?d @ ''/''"
    unfolding p l by (rule take_length_append)
  have d: "drop (length ?d + 1) (path_join ?d k @ ''.bin'') = k @ ''.bin''"
    unfolding p l by (rule drop_length_append)
  have "dir_entry ?d (path_join ?d k @ ''.bin'') = Some (k @ ''.bin'')"
    unfolding dir_entry_def Let_def t d using k by simp
  moreover have "suffix ''.bin'' (k @ ''.bin'')" by (rule suffixI) (rule refl)
  ultimately show ?thesis unfolding is_blob_def endsWith_def by simp
qed

text \<open>
  An over-sized blob that can be stat'ed and unlinked does not survive the scan, and
  nothing older that can be stat'ed and unlinked does either.
\<close>

lemma enforce_removes_big:
  assumes wf: "wf_world w" and mb: "AUDIO_CACHE_MAX_BYTES cfg \<noteq> 0"
      and dir: "AUDIO_CACHE_DIR cfg \<in> set (dirs w)"
      and blob: "is_blob cfg p" and f: "map_of (files w) p = Some f"
      and ns: "\<not> stat_fails io p"
      and big: "AUDIO_CACHE_MAX_BYTES cfg < int (length (fdata f))"
  shows "\<not> unlink_fails io p \<Longrightarrow> map_of (files (snd (enforceCacheSizeLimit cfg io w))) p = None"
    and "\<not> unlink_fails io (slice_0_neg p 4 @ ''.json'')
          \<Longrightarrow> map_of (files (snd (enforceCacheSizeLimit cfg io w))) (slice_0_neg p 4 @ ''.json'') = None"
    and "\<And>q g. is_blob cfg q \<Longrightarrow> map_of (files w) q = Some g \<Longrightarrow> fmtimeMs g < fmtimeMs f
          \<Longrightarrow> \<not> stat_fails io q \<Longrightarrow> \<not> unlink_fails io q
          \<Longrightarrow> map_of (files (snd (enforceCacheSizeLimit cfg io w))) q = None"
proof -
  let ?es = "sort_key mtimeMs (map to_entry (scanned cfg io w))"
  let ?e = "to_entry (p, f)"
  have u: "snd (enforceCacheSizeLimit cfg io w) =
           evict_loop io (AUDIO_CACHE_MAX_BYTES cfg) (\<Sum>e\<leftarrow>?es. int (size_e e)) ?es w"
    using enforce_unfold[OF wf mb dir] .
  obtain k where k: "k \<le> length ?es"
     "snd (enforceCacheSizeLimit cfg io w) = fold (\<lambda>e w. snd (removeCacheEntry io (base e) w)) (take k ?es) w"
     "k < length ?es \<longrightarrow> (\<Sum>e\<leftarrow>drop k ?es. int (size_e e)) \<le> AUDIO_CACHE_MAX_BYTES cfg"
    using evict_loop_prefix[of ?es io "AUDIO_CACHE_MAX_BYTES cfg" w] unfolding u[symmetric] by blast
  have srt: "sorted (map mtimeMs ?es)" by simp
  have mem: "(q, g) \<in> set (scanned cfg io w)"
    if "is_blob cfg q" "map_of (files w) q = Some g" "\<not> stat_fails io q" for q g
    using that map_of_SomeD[of "files w" q g] by (auto simp: scanned_def)
  have "?e \<in> to_entry ` set (scanned cfg io w)" using mem[OF blob f ns] by (rule imageI)
  then have "?e \<in> set ?es" by simp
  moreover have "AUDIO_CACHE_MAX_BYTES cfg < int (size_e ?e)" using big by (simp add: to_entry_def)
  ultimately have in_take: "?e \<in> set (take k ?es)"
    using big_entry_in_prefix[of ?e ?es "AUDIO_CACHE_MAX_BYTES cfg" k] k(1,3) by blast
  have bp: "base ?e @ ''.bin'' = p" using slice_bin[OF is_blob_suffix[OF blob]] by (simp add: to_entry_def)
  have bj: "base ?e = slice_0_neg p 4" by (simp add: to_entry_def)
  note fm = fold_remove_member[OF in_take, of io w]
  show "map_of (files (snd (enforceCacheSizeLimit cfg io w))) p = None" if "\<not> unlink_fails io p"
    using fm that unfolding k(2) bp by simp
  show "map_of (files (snd (enforceCacheSizeLimit cfg io w))) (slice_0_neg p 4 @ ''.json'') = None"
    if "\<not> unlink_fails io (slice_0_neg p 4 @ ''.json'')"
    using fm that unfolding k(2) bj by simp
  fix q g assume q: "is_blob cfg q" "map_of (files w) q = Some g" "fmtimeMs g < fmtimeMs f"
    "\<not> stat_fails io q" "\<not> unlink_fails io q"
  let ?o = "to_entry (q, g)"
  have "?o \<in> to_entry ` set (scanned cfg io w)" using mem[OF q(1,2,4)] by (rule imageI)
  then have "?o \<in> set ?es" by simp
  moreover have "mtimeMs ?o < mtimeMs ?e" using q(3) by (simp add: to_entry_def)
  ultimately have "?o \<in> set (take k ?es)"
    using sorted_take_older[OF srt in_take, of ?o] by blast
  moreover have "base ?o @ ''.bin'' = q" using slice_bin[OF is_blob_suffix[OF q(1)]] by (simp add: to_entry_def)
  ultimately show "map_of (files (snd (enforceCacheSizeLimit cfg io w))) q = None"
    using fold_remove_member[of ?o "take k ?es" io w] q(5) unfolding k(2) by simp
qed

lemma wf_after_meta: "wf_world w \<Longrightarrow> wf_world (after_meta cfg io b url opts resp w)"
  unfolding wf_world_def after_meta_def after_rename_def after_mkdir_def
  by (simp add: distinct_update distinct_delete)

lemma dirs_after_meta: "AUDIO_CACHE_DIR cfg \<in> set (dirs (after_meta cfg io b url opts resp w))"
  unfolding after_meta_def after_rename_def after_mkdir_def by simp

lemma slice_join_bin: "slice_0_neg (b @ ''.bin'') 4 = b"
  unfolding slice_0_neg_def by simp

lemma oversized_fetch:
  assumes wf: "wf_world (fs s)"
      and budget: "AUDIO_CACHE_MAX_SIZE_MB cfg > 0"
      and key: "CHR ''/'' \<notin> set key"
      and ty: "\<not> js_truthy (js_get_opt target ''type'') \<or> (\<exists>t. js_get_opt target ''type'' = JStr t)"
      and free: "inflightDownloads s (path_join (AUDIO_CACHE_DIR cfg) key) = None"
      and mk: "\<not> mkdir_fails io"
      and get: "axios_get io (js_get_opt target ''url'') (opt_headers (fetch_options ident target)) = Inr resp"
      and pipe: "pipeline_outcome io = PipeDone"
      and rn: "\<not> rename_fails io"
      and wr: "\<not> writeFile_fails io"
      and big: "AUDIO_CACHE_MAX_BYTES cfg < int (length (resp_data resp))"
      and ns: "\<not> stat_fails io (path_join (AUDIO_CACHE_DIR cfg) key @ ''.bin'')"
      and nu: "\<not> unlink_fails io (path_join (AUDIO_CACHE_DIR cfg) key @ ''.bin'')"
      and nj: "\<not> unlink_fails io (path_join (AUDIO_CACHE_DIR cfg) key @ ''.json'')"
  shows
  "(let b = path_join (AUDIO_CACHE_DIR cfg) key;
        out = fetch_and_stream cfg io ident b target s
    in promises (snd out) (next_promise s) = Some (Fulfilled (b @ ''.bin''))
     \<and> map_of (files (fs (snd out))) (b @ ''.bin'') = None
     \<and> map_of (files (fs (snd out))) (b @ ''.json'') = None
     \<and> (\<forall>q g. is_blob cfg q \<and> map_of (files (fs s)) q = Some g \<and> fmtimeMs g < now io
               \<and> \<not> stat_fails io q \<and> \<not> unlink_fails io q
               \<longrightarrow> map_of (files (fs (snd out))) q = None)
     \<and> (\<exists>res. fst out = Inr res \<and> statusCode res = 500
             \<and> payload res = JsonBody (JObj [(''code'', JNum 500), (''msg'', JStr ''Cache read error'')])))"
proof -
  let ?b = "path_join (AUDIO_CACHE_DIR cfg) key"
  let ?url = "js_get_opt target ''url''"
  let ?opts = "fetch_options ident target"
  let ?w5 = "after_meta cfg io ?b ?url ?opts resp (fs s)"
  let ?w6 = "snd (enforceCacheSizeLimit cfg io ?w5)"
  let ?f = "\<lparr>fdata = resp_data resp, fmtimeMs = now io\<rparr>"
  have body: "download_body cfg io ?b ?url ?opts (fs s) = (Inr (?b @ ''.bin''), ?w6)"
    using body_succeeds[OF mk get pipe rn wr] .
  have mb: "AUDIO_CACHE_MAX_BYTES cfg \<noteq> 0" using budget unfolding AUDIO_CACHE_MAX_BYTES_def by simp
  have wf5: "wf_world ?w5" using wf by (rule wf_after_meta)
  have blob: "is_blob cfg (?b @ ''.bin'')" using key by (rule is_blob_join)
  have new: "map_of (files ?w5) (?b @ ''.bin'') = Some ?f" by (rule files_after_meta(1))
  have bigf: "AUDIO_CACHE_MAX_BYTES cfg < int (length (fdata ?f))" using big by simp
  note rm = enforce_removes_big[OF wf5 mb dirs_after_meta blob new ns bigf]
  have gone: "map_of (files ?w6) (?b @ ''.bin'') = None" using rm(1)[OF nu] .
  have gonej: "map_of (files ?w6) (?b @ ''.json'') = None"
    using rm(2) nj by (simp add: slice_join_bin)
  have older: "map_of (files ?w6) q = None"
    if q: "is_blob cfg q" "map_of (files (fs s)) q = Some g" "fmtimeMs g < now io"
          "\<not> stat_fails io q" "\<not> unlink_fails io q" for q g
  proof (cases "q = ?b @ ''.bin''")
    case True
    then show ?thesis using gone by simp
  next
    case False
    have "map_of (files ?w5) q = Some g"
      using files_after_meta(2)[OF is_blob_suffix[OF q(1)] False] q(2) by simp
    moreover have "fmtimeMs g < fmtimeMs ?f" using q(3) by simp
    ultimately show ?thesis using rm(3)[OF q(1) _ _ q(4,5)] by blast
  qed
  have meta: "readCacheMetadata (JSON_parse io) ?w6 (?b @ ''.json'') = Inr JNull"
    unfolding readCacheMetadata_def fs_readFile_def using gonej by simp
  have crs: "createReadStream io ?w6 (?b @ ''.bin'') = ([], True)"
    unfolding createReadStream_def using gone by simp
  let ?res = "on_read_error (fresh_res\<lparr>resHeaders := [(''X-Cache-Hit'', JStr ''0'')]\<rparr>)"
  have sr: "fst (streamCachedAudio io fresh_res (?b @ ''.bin'') JNull False ?w6) = Inr ?res"
    unfolding stream_after_headers[OF set_cache_headers_null[of False]] Let_def crs by simp
  have st: "statusCode ?res = 500
          \<and> payload ?res = JsonBody (JObj [(''code'', JNum 500), (''msg'', JStr ''Cache read error'')])"
    by (simp add: on_read_error_def res_json_def res_status_def fresh_res_def)
  let ?s2 = "s\<lparr>fs := ?w6,
                promises := (promises s)(next_promise s \<mapsto> Fulfilled (?b @ ''.bin'')),
                next_promise := Suc (next_promise s),
                inflightDownloads := (inflightDownloads s)(?b := None)\<rparr>"
  have out: "fetch_and_stream cfg io ident ?b target s = (Inr ?res, ?s2)"
    unfolding fetch_and_stream_eq[OF ty free] Let_def body by (simp add: meta sr)
  show ?thesis
    unfolding Let_def out using gone gonej older st by auto
qed







text \<open>The request of the claim through the whole handler: the client gets the read error.\<close>

lemma self_eviction_example:
  "statusCode (fst (handler cfg_ex io_big (req_ex ''9'' JUndefined) (server_of w_full))) = 500
 \<and> payload (fst (handler cfg_ex io_big (req_ex ''9'' JUndefined) (server_of w_full)))
     = JsonBody (JObj [(''code'', JNum 500), (''msg'', JStr ''Cache read error'')])"
proof -
  let ?req = "req_ex ''9'' JUndefined"
  let ?s = "server_of w_full"
  let ?sr = "after_resolve cfg_ex io_big ?req ?s"
  let ?mr = "\<lparr>status = 200, body = JObj [(''data'', JArr [item9])]\<rparr>"
  let ?resp = "\<lparr>resp_headers = [], resp_data = replicate 1048577 CHR ''z''\<rparr>"
  have id9: "params_id ?req = ''9''" by (simp add: req_ex_def)
  have k: "base_path cfg_ex ?req = path_join (AUDIO_CACHE_DIR cfg_ex) ''9_default''"
    by (simp add: base_path_def cacheKey_def req_ex_def bitrate_of_def js_or_def)
  have k': "path_join (AUDIO_CACHE_DIR cfg_ex) ''9_default'' = ''/cache/9_default''"
    by (simp add: path_join_def cfg_ex_def)
  have h1: "params_id ?req \<noteq> []" unfolding id9 by simp
  have gs: "getCacheStatus cfg_ex io_big (fs ?s) (base_path cfg_ex ?req @ ''.bin'')
              = \<lparr>valid = False, reason = Some ''missing''\<rparr>"
    unfolding k k' by (simp add: getCacheStatus_def fs_stat_def server_of_def w_full_def)
  have h2: "\<not> valid (getCacheStatus cfg_ex io_big (fs ?s) (base_path cfg_ex ?req @ ''.bin''))"
    unfolding gs by simp
  have ac: "after_check cfg_ex io_big ?req ?s = ?s" unfolding after_check_def gs by simp
  have s0: "?s\<lparr>fs := (fs ?s)\<lparr>log := log (fs ?s) @ [EvResolve (resolver_query ?req)]\<rparr>\<rparr> = ?sr"
    unfolding after_resolve_def ac by simp
  have r: "songUrlModule io_big (resolver_query ?req) = Inr ?mr" "status ?mr = 200"
    "js_get_opt (body ?mr) ''data'' = JArr [item9]" "[item9] \<noteq> []"
    by (simp_all add: io_big_def js_get_opt_def)
  have sel: "select_target (params_id ?req) [item9] = Inr item9"
    unfolding id9 by (simp add: select_target_def item9_def show_int_digit js_or_def)
  have url: "js_truthy (js_get_opt item9 ''url'')" by (simp add: item9_def js_get_opt_def)
  have rf: "resolve_and_fetch cfg_ex io_big ?req (base_path cfg_ex ?req) (after_check cfg_ex io_big ?req ?s)
              = fetch_and_stream cfg_ex io_big ''9'' (path_join (AUDIO_CACHE_DIR cfg_ex) ''9_default'') item9 ?sr"
    unfolding ac resolve_target[OF r] s0 sel using url by (simp add: id9 k)
  have wf: "wf_world (fs ?sr)"
    unfolding after_resolve_def ac by (simp add: wf_world_def server_of_def w_full_def)
  have budget: "AUDIO_CACHE_MAX_SIZE_MB cfg_ex > 0" by (simp add: cfg_ex_def)
  have key: "CHR ''/'' \<notin> set ''9_default''" by simp
  have ty: "\<not> js_truthy (js_get_opt item9 ''type'') \<or> (\<exists>t. js_get_opt item9 ''type'' = JStr t)"
    by (simp add: item9_def js_get_opt_def)
  have free: "inflightDownloads ?sr (path_join (AUDIO_CACHE_DIR cfg_ex) ''9_default'') = None"
    by (simp add: registry_after_resolve server_of_def)
  have io: "\<not> mkdir_fails io_big"
    "axios_get io_big (js_get_opt item9 ''url'') (opt_headers (fetch_options ''9'' item9)) = Inr ?resp"
    "pipeline_outcome io_big = PipeDone" "\<not> rename_fails io_big" "\<not> writeFile_fails io_big"
    by (simp_all add: io_big_def io_ex_def)
  have big: "AUDIO_CACHE_MAX_BYTES cfg_ex < int (length (resp_data ?resp))"
    by (simp add: AUDIO_CACHE_MAX_BYTES_def cfg_ex_def)
  have nf: "\<not> stat_fails io_big p" "\<not> unlink_fails io_big p" for p
    by (simp_all add: io_big_def io_ex_def)
  from oversized_fetch[OF wf budget key ty free io big nf(1) nf(2) nf(2)]
  obtain res where res: "fst (fetch_and_stream cfg_ex io_big ''9'' (path_join (AUDIO_CACHE_DIR cfg_ex) ''9_default'') item9 ?sr) = Inr res"
      "statusCode res = 500"
      "payload res = JsonBody (JObj [(''code'', JNum 500), (''msg'', JStr ''Cache read error'')])"
    unfolding Let_def by blast
  obtain s' where "resolve_and_fetch cfg_ex io_big ?req (base_path cfg_ex ?req) (after_check cfg_ex io_big ?req ?s) = (Inr res, s')"
    using res(1) unfolding rf by (metis prod.collapse)
  then have "handler cfg_ex io_big ?req ?s = (res, s')" by (rule handler_miss(1)[OF h1 h2])
  then show ?thesis using res(2,3) by simp
qed

end
